theory Spec2Isabelle
  imports Main "HOL-Library.AList"
begin

section \<open>Replicated part lifecycle of StorageReplicatedMergeTree\<close>

text \<open>
  A shallow embedding of the functions of \<^verbatim>\<open>src/Storages/StorageReplicatedMergeTree.cpp\<close>
  that decide how a replica replays its log, tracks quorum writes, repairs itself and
  orchestrates partition operations. Every function that talks to the coordination
  service takes the service's state and returns it, together with either the value the
  C++ function returns or the exception it throws.
\<close>

subsection \<open>Exceptions and outcomes\<close>

text \<open>Return codes of the coordination client (\<^verbatim>\<open>Coordination::Error\<close>).\<close>

datatype zerror = ZOK | ZNONODE | ZBADVERSION | ZNODEEXISTS | ZBADARGUMENTS

subsection \<open>Part identity\<close>

text \<open>\<^verbatim>\<open>MergeTreePartInfo\<close>: the five fields the source reads and writes.\<close>

record MergeTreePartInfo =
  partition_id :: string
  min_block :: int
  max_block :: int
  level :: int
  mutation :: int

text \<open>
  Modelled from the spec: \<^verbatim>\<open>MergeTreePartInfo::getBlocksCount\<close> is declared outside src/.
  A part covers a contiguous block-number range within one partition, from \<open>min_block\<close> to
  \<open>max_block\<close> inclusive.
\<close>

definition getBlocksCount :: "MergeTreePartInfo \<Rightarrow> int" where
  "getBlocksCount info = max_block info - min_block info + 1"

text \<open>The block numbers a part info covers.\<close>

definition block_interval :: "MergeTreePartInfo \<Rightarrow> int set" where
  "block_interval info = {min_block info .. max_block info}"

text \<open>
  Modelled from the spec: \<^verbatim>\<open>MergeTreePartInfo::contains\<close> is declared outside src/.
  Part A covers part B iff A's block range contains B's and A's level and mutation are
  consistent with having absorbed B.
\<close>

definition contains :: "MergeTreePartInfo \<Rightarrow> MergeTreePartInfo \<Rightarrow> bool" where
  "contains a b \<longleftrightarrow>
     partition_id a = partition_id b
     \<and> min_block a \<le> min_block b
     \<and> max_block b \<le> max_block a
     \<and> level b \<le> level a
     \<and> mutation b \<le> mutation a"

subsection \<open>Log entries\<close>

datatype LogEntryType =
    EMPTY
  | GET_PART
  | ATTACH_PART
  | MERGE_PARTS
  | DROP_RANGE
  | REPLACE_RANGE
  | MUTATE_PART
  | ALTER_METADATA
  | SYNC_PINNED_PART_UUIDS
  | CLONE_PART_FROM_SHARD

record ReplaceRangeEntry =
  drop_range_part_name :: string
  src_part_names :: "string list"
  new_part_names :: "string list"
  part_names_checksums :: "string list"

record LogEntry =
  entry_type :: LogEntryType
  source_replica :: string
  new_part_name :: string
  source_parts :: "string list"
  quorum :: nat
  detach :: bool
  create_time :: int
  alter_version :: int
  znode_name :: "(string \<times> nat) option"
  new_part_uuid :: nat
  new_part_type :: string
  merge_type :: nat
  deduplicate :: bool
  deduplicate_by_columns :: "string list"
  replace_range_entry :: "ReplaceRangeEntry option"

definition empty_LogEntry :: LogEntry where
  "empty_LogEntry =
     \<lparr> entry_type = EMPTY, source_replica = [], new_part_name = [], source_parts = [],
       quorum = 0, detach = False, create_time = 0, alter_version = -1, znode_name = None,
       new_part_uuid = 0, new_part_type = [], merge_type = 0, deduplicate = False,
       deduplicate_by_columns = [], replace_range_entry = None \<rparr>"

subsection \<open>Coordination service\<close>

text \<open>
  Paths are built the way the source builds them, from the table's subtree
  (\<^verbatim>\<open>zookeeper_path\<close>, here \<open>ZRoot\<close>) by appending names. A sequential node is a child whose
  name is a prefix followed by the number the service chose.
\<close>

datatype zpath = ZRoot | Sub zpath string | SubSeq zpath string nat

text \<open>
  Exceptions thrown by the modelled functions: a \<^verbatim>\<open>Coordination::Exception\<close> carries the
  return code, a \<^verbatim>\<open>KeeperMultiException\<close> also the index and the path of the first
  failed request; \<open>OUT_OF_RANGE\<close> is the \<^verbatim>\<open>std::out_of_range\<close> of \<^verbatim>\<open>vector::at\<close>; the others are
  named after their \<^verbatim>\<open>ErrorCodes\<close> constant.
\<close>

datatype exn =
    KeeperException zerror
  | KeeperMultiException zerror nat zpath
  | LOGICAL_ERROR
  | CHECKSUM_DOESNT_MATCH
  | CANNOT_ASSIGN_ALTER
  | ALL_REPLICAS_LOST
  | KEEPER_EXCEPTION
  | BAD_DATA_PART_NAME
  | NOT_FOUND_NODE
  | REPLICA_STATUS_CHANGED
  | CANNOT_PARSE_TEXT
  | OUT_OF_RANGE

text \<open>\<^verbatim>\<open>ReplicatedMergeTreeQuorumEntry\<close>.\<close>

record QuorumEntry =
  part_name :: string
  required_number_of_replicas :: nat
  replicas :: "string set"

text \<open>
  \<^verbatim>\<open>ReplicatedMergeTreePartHeader\<close>: what a replica records about a part, the hash of its
  columns and its checksums.
\<close>

record ReplicatedMergeTreePartHeader =
  getColumnsHash :: string
  getChecksums :: string

text \<open>
  What a node holds. The source stores strings and parses them; the model keeps the
  parsed value, so \<^verbatim>\<open>toString\<close> is a constructor and \<^verbatim>\<open>fromString\<close> a projection that
  fails on a node of another kind.
\<close>

datatype zdata =
    Str string
  | QuorumData QuorumEntry
  | AddedPartsData "(string \<times> string) list"
  | LogEntryData LogEntry
  | PathData zpath
  | HeaderData ReplicatedMergeTreePartHeader

record znode =
  data :: zdata
  version :: int
  seq_num :: nat

type_synonym zk_state = "zpath \<Rightarrow> znode option"

datatype CreateMode = Persistent | PersistentSequential | Ephemeral | EphemeralSequential

datatype request =
    CreateRequest zpath zdata CreateMode
  | RemoveRequest zpath int
  | SetRequest zpath zdata int
  | CheckRequest zpath int

text \<open>
  Modelled from the spec: the coordination client (\<^verbatim>\<open>zkutil::ZooKeeper\<close>) is an external
  collaborator outside src/. It exposes get/set/create/remove, each optionally
  version-checked (version -1 checks nothing), sequential node creation, and a multi-op
  that is all-or-nothing with per-path version checks.
\<close>

definition fresh_node :: "zdata \<Rightarrow> znode" where
  "fresh_node d = \<lparr> data = d, version = 0, seq_num = 0 \<rparr>"

fun parent_exists :: "zk_state \<Rightarrow> zpath \<Rightarrow> bool" where
  "parent_exists zk ZRoot = True"
| "parent_exists zk (Sub p n) = (zk p \<noteq> None)"
| "parent_exists zk (SubSeq p n i) = (zk p \<noteq> None)"

definition is_sequential :: "CreateMode \<Rightarrow> bool" where
  "is_sequential m \<longleftrightarrow> m = PersistentSequential \<or> m = EphemeralSequential"

definition version_matches :: "int \<Rightarrow> znode \<Rightarrow> bool" where
  "version_matches v n \<longleftrightarrow> v = -1 \<or> v = version n"

text \<open>One request: the return code, the path created (for a create), the new state.\<close>

fun apply_request :: "zk_state \<Rightarrow> request \<Rightarrow> zerror \<times> zpath option \<times> zk_state" where
  "apply_request zk (CreateRequest p d m) =
     (if is_sequential m then
        (case p of
           Sub par prefix \<Rightarrow>
             (case zk par of
                None \<Rightarrow> (ZNONODE, None, zk)
              | Some pn \<Rightarrow>
                  (let q = SubSeq par prefix (seq_num pn) in
                   if zk q \<noteq> None then (ZNODEEXISTS, None, zk)
                   else (ZOK, Some q,
                         zk(par \<mapsto> pn\<lparr>seq_num := Suc (seq_num pn)\<rparr>, q \<mapsto> fresh_node d))))
         | _ \<Rightarrow> (ZBADARGUMENTS, None, zk))
      else if \<not> parent_exists zk p then (ZNONODE, None, zk)
      else if zk p \<noteq> None then (ZNODEEXISTS, None, zk)
      else (ZOK, Some p, zk(p \<mapsto> fresh_node d)))"
| "apply_request zk (RemoveRequest p v) =
     (case zk p of
        None \<Rightarrow> (ZNONODE, None, zk)
      | Some n \<Rightarrow>
          if version_matches v n then (ZOK, None, zk(p := None))
          else (ZBADVERSION, None, zk))"
| "apply_request zk (SetRequest p d v) =
     (case zk p of
        None \<Rightarrow> (ZNONODE, None, zk)
      | Some n \<Rightarrow>
          if version_matches v n
          then (ZOK, None, zk(p \<mapsto> n\<lparr>data := d, version := version n + 1\<rparr>))
          else (ZBADVERSION, None, zk))"
| "apply_request zk (CheckRequest p v) =
     (case zk p of
        None \<Rightarrow> (ZNONODE, None, zk)
      | Some n \<Rightarrow>
          if version_matches v n then (ZOK, None, zk) else (ZBADVERSION, None, zk))"

text \<open>
  The requests of a multi-op run in order, each on the state the previous one left. The
  result lists the created paths of the requests that succeeded, so its length is the
  index of the first failed request.
\<close>

fun run_requests :: "zk_state \<Rightarrow> request list \<Rightarrow> zerror \<times> zpath option list \<times> zk_state" where
  "run_requests zk [] = (ZOK, [], zk)"
| "run_requests zk (r # rs) =
     (case apply_request zk r of
        (ZOK, c, zk') \<Rightarrow>
          (case run_requests zk' rs of (code, cs, zk'') \<Rightarrow> (code, c # cs, zk''))
      | (e, c, zk') \<Rightarrow> (e, [], zk))"

text \<open>\<^verbatim>\<open>tryMulti\<close>: all-or-nothing.\<close>

definition tryMulti :: "zk_state \<Rightarrow> request list \<Rightarrow> zerror \<times> zpath option list \<times> zk_state" where
  "tryMulti zk ops =
     (case run_requests zk ops of
        (ZOK, cs, zk') \<Rightarrow> (ZOK, cs, zk')
      | (e, cs, zk') \<Rightarrow> (e, cs, zk))"

definition zk_exists :: "zk_state \<Rightarrow> zpath \<Rightarrow> bool" where
  "zk_exists zk p \<longleftrightarrow> zk p \<noteq> None"

text \<open>\<^verbatim>\<open>tryGet(path, value, &stat)\<close>: the node, or nothing when there is none.\<close>

definition tryGet :: "zk_state \<Rightarrow> zpath \<Rightarrow> znode option" where
  "tryGet zk p = zk p"

text \<open>\<^verbatim>\<open>get(path, &stat)\<close> throws when there is no node.\<close>

definition zk_get :: "zk_state \<Rightarrow> zpath \<Rightarrow> exn + znode" where
  "zk_get zk p = (case zk p of None \<Rightarrow> Inl (KeeperException ZNONODE) | Some n \<Rightarrow> Inr n)"

definition trySet :: "zk_state \<Rightarrow> zpath \<Rightarrow> zdata \<Rightarrow> int \<Rightarrow> zerror \<times> zk_state" where
  "trySet zk p d v = (case apply_request zk (SetRequest p d v) of (code, c, zk') \<Rightarrow> (code, zk'))"

text \<open>\<^verbatim>\<open>set(path, data)\<close> and \<^verbatim>\<open>create(path, data, mode)\<close> throw on any code but ZOK.\<close>

definition zk_set :: "zk_state \<Rightarrow> zpath \<Rightarrow> zdata \<Rightarrow> (exn + unit) \<times> zk_state" where
  "zk_set zk p d =
     (case trySet zk p d (-1) of
        (ZOK, zk') \<Rightarrow> (Inr (), zk')
      | (e, zk') \<Rightarrow> (Inl (KeeperException e), zk))"

definition zk_create :: "zk_state \<Rightarrow> zpath \<Rightarrow> zdata \<Rightarrow> CreateMode \<Rightarrow> (exn + zpath) \<times> zk_state" where
  "zk_create zk p d m =
     (case apply_request zk (CreateRequest p d m) of
        (ZOK, Some q, zk') \<Rightarrow> (Inr q, zk')
      | (e, c, zk') \<Rightarrow> (Inl (KeeperException e), zk))"

fun parent_of :: "zpath \<Rightarrow> zpath option" where
  "parent_of ZRoot = None"
| "parent_of (Sub p n) = Some p"
| "parent_of (SubSeq p n i) = Some p"

text \<open>\<^verbatim>\<open>removeChildren(path)\<close>: every child of the node goes, the node stays.\<close>

definition removeChildren :: "zk_state \<Rightarrow> zpath \<Rightarrow> zk_state" where
  "removeChildren zk p = (\<lambda>q. if parent_of q = Some p then None else zk q)"

text \<open>\<^verbatim>\<open>multi(ops)\<close> throws a \<^verbatim>\<open>KeeperMultiException\<close> naming the first failed request.\<close>

fun request_path :: "request \<Rightarrow> zpath" where
  "request_path (CreateRequest p d m) = p"
| "request_path (RemoveRequest p v) = p"
| "request_path (SetRequest p d v) = p"
| "request_path (CheckRequest p v) = p"

definition failed_path :: "request list \<Rightarrow> nat \<Rightarrow> zpath" where
  "failed_path ops i = (if i < length ops then request_path (ops ! i) else ZRoot)"

definition zk_multi :: "zk_state \<Rightarrow> request list \<Rightarrow> (exn + zpath option list) \<times> zk_state" where
  "zk_multi zk ops =
     (case tryMulti zk ops of
        (ZOK, cs, zk') \<Rightarrow> (Inr cs, zk')
      | (e, cs, zk') \<Rightarrow> (Inl (KeeperMultiException e (length cs) (failed_path ops (length cs))), zk'))"

text \<open>
  \<^verbatim>\<open>KeeperMultiException::check(code, ops, responses)\<close>: returns on ZOK and throws on every
  other code.
\<close>

definition KeeperMultiException_check :: "zerror \<Rightarrow> request list \<Rightarrow> zpath option list \<Rightarrow> exn option" where
  "KeeperMultiException_check code ops cs =
     (if code = ZOK then None
      else Some (KeeperMultiException code (length cs) (failed_path ops (length cs))))"

subsection \<open>What is declared outside src/\<close>

text \<open>
  Constants and helpers that \<^verbatim>\<open>StorageReplicatedMergeTree.cpp\<close> uses and other files of the
  repository define: the two limits of \<^verbatim>\<open>MergeTreePartInfo\<close>, the age after which a local
  part missing from the coordination service is suspicious, the parser of part names
  (\<^verbatim>\<open>MergeTreePartInfo::tryParsePartName\<close>; \<^verbatim>\<open>fromPartName\<close> throws where it returns
  nothing), the printer that \<^verbatim>\<open>getPartNamePossiblyFake\<close> ends in, and
  \<^verbatim>\<open>IMergeTreeDataPart::getNewName\<close>, which prints a part's name with a new part info. They
  are parameters of every function that uses them.
\<close>

record decls =
  MAX_LEVEL :: int
  MAX_BLOCK_NUMBER :: int
  MAX_AGE_OF_LOCAL_PART_THAT_WASNT_ADDED_TO_ZOOKEEPER :: int
  tryParsePartName :: "string \<Rightarrow> MergeTreePartInfo option"
  getPartNamePossiblyFake :: "MergeTreePartInfo \<Rightarrow> string"
  getNewName :: "string \<Rightarrow> MergeTreePartInfo \<Rightarrow> string"

definition fromPartName :: "decls \<Rightarrow> string \<Rightarrow> exn + MergeTreePartInfo" where
  "fromPartName c name =
     (case tryParsePartName c name of None \<Rightarrow> Inl BAD_DATA_PART_NAME | Some info \<Rightarrow> Inr info)"

subsection \<open>The replica's own state\<close>

datatype MergeTreeDataPartState = Temporary | PreCommitted | Committed | Outdated | Deleting | DeleteOnDestroy

record DataPart =
  name :: string
  info :: MergeTreePartInfo
  state :: MergeTreeDataPartState
  modification_time :: int

text \<open>
  The members of the storage object that the modelled functions read or write: the
  replica's name, the cache of \<^verbatim>\<open>existsNodeCached\<close>, the local working set of parts, and the
  names handed to \<^verbatim>\<open>enqueuePartForCheck\<close>.
\<close>

record storage =
  replica_name :: string
  existing_nodes_cache :: "zpath set"
  data_parts :: "DataPart list"
  parts_to_check :: "string list"

definition replica_path :: "storage \<Rightarrow> zpath" where
  "replica_path st = Sub (Sub ZRoot ''replicas'') (replica_name st)"

text \<open>
  Modelled from the spec: \<^verbatim>\<open>enqueuePartForCheck\<close> hands the name to the part-check thread,
  which is outside src/; the part is flagged for a local consistency check.
\<close>

definition enqueuePartForCheck :: "storage \<Rightarrow> string \<Rightarrow> storage" where
  "enqueuePartForCheck st part = st\<lparr>parts_to_check := parts_to_check st @ [part]\<rparr>"

subsection \<open>Block number allocation\<close>

definition existsNodeCached :: "storage \<Rightarrow> zk_state \<Rightarrow> zpath \<Rightarrow> bool \<times> storage" where
  "existsNodeCached st zk path =
     (if path \<in> existing_nodes_cache st then (True, st)
      else
        (let res = zk_exists zk path in
         (res, if res then st\<lparr>existing_nodes_cache := insert path (existing_nodes_cache st)\<rparr>
               else st)))"

record EphemeralLock =
  lock_path :: zpath
  holder_path :: zpath
  lock_number :: nat

text \<open>
  Modelled from the spec: \<^verbatim>\<open>EphemeralLockInZooKeeper\<close> is declared outside src/. A block
  number lock is an ephemeral sequential node reserving the next integer of the
  partition's numbering sequence; it is created after the pre-check requests passed, and
  \<^verbatim>\<open>getUnlockOps\<close> removes it when the holder commits.
\<close>

definition EphemeralLockInZooKeeper ::
  "zpath \<Rightarrow> zpath \<Rightarrow> zk_state \<Rightarrow> request list \<Rightarrow> (exn + EphemeralLock) \<times> zk_state" where
  "EphemeralLockInZooKeeper path_prefix temp_path zk precheck_ops =
     (let holder_path_prefix = Sub temp_path ''abandonable_lock-'';
          (holder, zk1) =
            (if precheck_ops = []
             then zk_create zk holder_path_prefix (Str []) EphemeralSequential
             else
               (case zk_multi zk (precheck_ops @ [CreateRequest holder_path_prefix (Str []) EphemeralSequential]) of
                  (Inl e, zk') \<Rightarrow> (Inl e, zk')
                | (Inr cs, zk') \<Rightarrow>
                    (case last cs of
                       Some h \<Rightarrow> (Inr h, zk')
                     | None \<Rightarrow> (Inl LOGICAL_ERROR, zk'))))
      in case holder of
           Inl e \<Rightarrow> (Inl e, zk1)
         | Inr h \<Rightarrow>
             (case zk_create zk1 path_prefix (PathData h) EphemeralSequential of
                (Inl e, zk2) \<Rightarrow> (Inl e, zk2)
              | (Inr (SubSeq par prefix n), zk2) \<Rightarrow>
                  (Inr \<lparr> lock_path = SubSeq par prefix n, holder_path = h, lock_number = n \<rparr>, zk2)
              | (Inr other, zk2) \<Rightarrow> (Inl LOGICAL_ERROR, zk2)))"

definition getUnlockOps :: "EphemeralLock \<Rightarrow> request list" where
  "getUnlockOps lock = [RemoveRequest (lock_path lock) (-1), RemoveRequest (holder_path lock) (-1)]"

definition block_numbers_path :: zpath where
  "block_numbers_path = Sub ZRoot ''block_numbers''"

text \<open>
  The catch clauses of \<^verbatim>\<open>allocateBlockNumber\<close> around the creation of the lock: a
  multi-op that failed because the block id exists gives no lock, every other exception
  of the coordination client is rethrown as \<^verbatim>\<open>KEEPER_EXCEPTION\<close>.
\<close>

fun allocateBlockNumber_catch :: "zpath option \<Rightarrow> exn + EphemeralLock \<Rightarrow> exn + EphemeralLock option" where
  "allocateBlockNumber_catch zookeeper_block_id_path (Inl (KeeperMultiException code i p)) =
     (if code = ZNODEEXISTS \<and> Some p = zookeeper_block_id_path then Inr None
      else Inl KEEPER_EXCEPTION)"
| "allocateBlockNumber_catch zookeeper_block_id_path (Inl (KeeperException code)) = Inl KEEPER_EXCEPTION"
| "allocateBlockNumber_catch zookeeper_block_id_path (Inl e) = Inl e"
| "allocateBlockNumber_catch zookeeper_block_id_path (Inr lock) = Inr (Some lock)"

text \<open>
  \<^verbatim>\<open>allocateBlockNumber(partition_id, zookeeper, zookeeper_block_id_path)\<close>, with the default
  (empty) path prefix. An empty \<^verbatim>\<open>zookeeper_block_id_path\<close> is \<open>None\<close>. The result is
  \<open>None\<close> when the block id already exists.
\<close>

definition allocateBlockNumber ::
  "storage \<Rightarrow> zk_state \<Rightarrow> string \<Rightarrow> zpath option
     \<Rightarrow> (exn + EphemeralLock option) \<times> storage \<times> zk_state" where
  "allocateBlockNumber st zk pid zookeeper_block_id_path =
     (let deduplication_check_ops =
            (case zookeeper_block_id_path of
               None \<Rightarrow> []
             | Some p \<Rightarrow> [CreateRequest p (Str []) Persistent, RemoveRequest p (-1)]);
          partition_path = Sub block_numbers_path pid;
          (ex, st1) = existsNodeCached st zk partition_path;
          (thrown, zk1) =
            (if \<not> ex then
               (let ops = [CreateRequest partition_path (Str []) Persistent,
                           SetRequest block_numbers_path (Str []) (-1)]
                in case tryMulti zk ops of
                     (code, cs, zk') \<Rightarrow>
                       if code \<noteq> ZOK \<and> code \<noteq> ZNODEEXISTS
                       then (KeeperMultiException_check code ops cs, zk')
                       else (None, zk'))
             else (None, zk))
      in case thrown of
           Some e \<Rightarrow> (Inl e, st1, zk1)
         | None \<Rightarrow>
             (case EphemeralLockInZooKeeper (Sub partition_path ''block-'') (Sub ZRoot ''temp'')
                     zk1 deduplication_check_ops of
                (r, zk2) \<Rightarrow> (allocateBlockNumber_catch zookeeper_block_id_path r, st1, zk2)))"

subsection \<open>Drop ranges\<close>

text \<open>A default-constructed \<^verbatim>\<open>MergeTreePartInfo\<close>.\<close>

definition empty_part_info :: MergeTreePartInfo where
  "empty_part_info = \<lparr> partition_id = [], min_block = 0, max_block = 0, level = 0, mutation = 0 \<rparr>"

definition makeDummyDropRangeForMovePartitionOrAttachPartitionFrom :: "string \<Rightarrow> MergeTreePartInfo" where
  "makeDummyDropRangeForMovePartitionOrAttachPartitionFrom pid =
     empty_part_info\<lparr>partition_id := pid, min_block := 0, max_block := 0, level := 0, mutation := 0\<rparr>"

text \<open>
  \<^verbatim>\<open>getFakePartCoveringAllPartsInPartition\<close>. \<open>part_info\<close> is the caller's variable, which the
  function overwrites on some paths only; the result carries it back with the flag and the
  delimiting block lock.
\<close>

definition getFakePartCoveringAllPartsInPartition ::
  "decls \<Rightarrow> storage \<Rightarrow> zk_state \<Rightarrow> string \<Rightarrow> MergeTreePartInfo \<Rightarrow> bool
     \<Rightarrow> (exn + bool \<times> MergeTreePartInfo \<times> EphemeralLock) \<times> storage \<times> zk_state" where
  "getFakePartCoveringAllPartsInPartition c st zk pid part_info for_replace_range =
     (let left = (0::int) in
      case allocateBlockNumber st zk pid None of
        (Inl e, st1, zk1) \<Rightarrow> (Inl e, st1, zk1)
      | (Inr None, st1, zk1) \<Rightarrow> (Inl LOGICAL_ERROR, st1, zk1)
      | (Inr (Some delimiting_block_lock), st1, zk1) \<Rightarrow>
          (let right = int (lock_number delimiting_block_lock);
               mutation_version = MAX_BLOCK_NUMBER c
           in if for_replace_range then
                (Inr (right \<noteq> 0,
                      \<lparr> partition_id = pid, min_block = left, max_block = right,
                        level = MAX_LEVEL c, mutation = mutation_version \<rparr>,
                      delimiting_block_lock), st1, zk1)
              else if right = 0 then (Inr (False, part_info, delimiting_block_lock), st1, zk1)
              else
                (Inr (True,
                      \<lparr> partition_id = pid, min_block = left, max_block = right - 1,
                        level = MAX_LEVEL c, mutation = mutation_version \<rparr>,
                      delimiting_block_lock), st1, zk1)))"

text \<open>
  Modelled from the spec: \<^verbatim>\<open>ReplaceRangeEntry::isMovePartitionOrAttachFrom\<close> is declared
  outside src/. Its callers in src/ document it: a drop range with only one block means
  ATTACH PARTITION or MOVE PARTITION, so there is nothing to drop.
\<close>

definition isMovePartitionOrAttachFrom :: "MergeTreePartInfo \<Rightarrow> bool" where
  "isMovePartitionOrAttachFrom drop_range_info \<longleftrightarrow> getBlocksCount drop_range_info = 1"

text \<open>
  The statements of \<^verbatim>\<open>replacePartitionFrom\<close> that compute the drop range and the final value
  of \<open>replace\<close>, up to the assertion that relates the two.
\<close>

definition replacePartitionFrom_drop_range ::
  "decls \<Rightarrow> storage \<Rightarrow> zk_state \<Rightarrow> string \<Rightarrow> bool
     \<Rightarrow> (exn + bool \<times> MergeTreePartInfo \<times> EphemeralLock) \<times> storage \<times> zk_state" where
  "replacePartitionFrom_drop_range c st zk pid replace =
     (case getFakePartCoveringAllPartsInPartition c st zk pid empty_part_info True of
        (Inl e, st1, zk1) \<Rightarrow> (Inl e, st1, zk1)
      | (Inr (nonempty, drop_range, delimiting_block_lock), st1, zk1) \<Rightarrow>
          (let partition_was_empty = \<not> nonempty;
               replace1 = (if replace \<and> partition_was_empty then False else replace);
               drop_range1 =
                 (if \<not> replace1 then makeDummyDropRangeForMovePartitionOrAttachPartitionFrom pid
                  else drop_range)
           in (Inr (replace1, drop_range1, delimiting_block_lock), st1, zk1)))"

subsection \<open>DROP PARTITION\<close>

definition blocks_path :: zpath where
  "blocks_path = Sub ZRoot ''blocks''"

definition log_path :: zpath where
  "log_path = Sub ZRoot ''log''"

definition alter_partition_version_path :: zpath where
  "alter_partition_version_path = Sub ZRoot ''alter_partition_version''"

definition startsWith :: "string \<Rightarrow> string \<Rightarrow> bool" where
  "startsWith s p \<longleftrightarrow> take (length p) s = p"

text \<open>
  The name of a created sequential node: what the source cuts off the created path after
  its last slash.
\<close>

fun created_znode_name :: "zpath option \<Rightarrow> (string \<times> nat) option" where
  "created_znode_name (Some (SubSeq p prefix n)) = Some (prefix, n)"
| "created_znode_name other = None"

text \<open>
  \<^verbatim>\<open>getClearBlocksInPartitionOps\<close>. \<open>blocks\<close> is the list of children that
  \<^verbatim>\<open>tryGetChildren\<close> answers for the blocks node.
\<close>

definition clear_block_op :: "decls \<Rightarrow> zk_state \<Rightarrow> int \<Rightarrow> int \<Rightarrow> zpath \<Rightarrow> request list" where
  "clear_block_op c zk min_block_num max_block_num path =
     (case tryGet zk path of
        None \<Rightarrow> []
      | Some result \<Rightarrow>
          (case (case data result of Str s \<Rightarrow> tryParsePartName c s | other \<Rightarrow> None) of
             None \<Rightarrow> [RemoveRequest path (-1)]
           | Some part_info \<Rightarrow>
               if min_block_num \<le> min_block part_info \<and> max_block part_info \<le> max_block_num
               then [RemoveRequest path (-1)] else []))"

definition getClearBlocksInPartitionOps ::
  "decls \<Rightarrow> zk_state \<Rightarrow> string list \<Rightarrow> string \<Rightarrow> int \<Rightarrow> int \<Rightarrow> exn + request list" where
  "getClearBlocksInPartitionOps c zk blocks pid min_block_num max_block_num =
     (if \<not> zk_exists zk blocks_path then Inl NOT_FOUND_NODE
      else
        (let partition_prefix = pid @ ''_'';
             paths = map (Sub blocks_path) (filter (\<lambda>block_id. startsWith block_id partition_prefix) blocks)
         in Inr (concat (map (clear_block_op c zk min_block_num max_block_num) paths))))"

text \<open>\<^verbatim>\<open>clearBlocksInPartition\<close>: a failed multi-op is logged and ignored.\<close>

definition clearBlocksInPartition ::
  "decls \<Rightarrow> zk_state \<Rightarrow> string list \<Rightarrow> string \<Rightarrow> int \<Rightarrow> int \<Rightarrow> (exn + unit) \<times> zk_state" where
  "clearBlocksInPartition c zk blocks pid min_block_num max_block_num =
     (case getClearBlocksInPartitionOps c zk blocks pid min_block_num max_block_num of
        Inl e \<Rightarrow> (Inl e, zk)
      | Inr delete_requests \<Rightarrow>
          (case tryMulti zk delete_requests of (code, cs, zk') \<Rightarrow> (Inr (), zk')))"

text \<open>
  \<^verbatim>\<open>dropAllPartsInPartition\<close>. \<open>entry\<close> is the caller's log entry, returned as the function
  leaves it. \<open>others\<close> is what other clients of the coordination service do between the
  read of the alter-partition version and the rest of the function; \<open>txn_ops\<close> are the
  requests of the query's metadata transaction, if it has one; \<open>now\<close> is \<^verbatim>\<open>time(nullptr)\<close>.
  The cancellation of merges in the local merge list, after the log entry is written, has
  no effect on the state modelled here.
\<close>

definition dropAllPartsInPartition ::
  "decls \<Rightarrow> storage \<Rightarrow> zk_state \<Rightarrow> (zk_state \<Rightarrow> zk_state) \<Rightarrow> string list \<Rightarrow> string \<Rightarrow> LogEntry
     \<Rightarrow> request list \<Rightarrow> bool \<Rightarrow> int
     \<Rightarrow> (exn + bool) \<times> LogEntry \<times> storage \<times> zk_state" where
  "dropAllPartsInPartition c st zk others blocks pid entry txn_ops detach_flag now =
     (case zk_get zk alter_partition_version_path of
        Inl e \<Rightarrow> (Inl e, entry, st, zk)
      | Inr alter_partition_version_stat \<Rightarrow>
          (case getFakePartCoveringAllPartsInPartition c st (others zk) pid empty_part_info False of
             (Inl e, st1, zk1) \<Rightarrow> (Inl e, entry, st1, zk1)
           | (Inr (False, drop_range_info, delimiting_block_lock), st1, zk1) \<Rightarrow>
               (Inr False, entry, st1, zk1)
           | (Inr (True, drop_range_info, delimiting_block_lock), st1, zk1) \<Rightarrow>
               (case clearBlocksInPartition c zk1 blocks pid
                       (min_block drop_range_info) (max_block drop_range_info) of
                  (Inl e, zk2) \<Rightarrow> (Inl e, entry, st1, zk2)
                | (Inr u, zk2) \<Rightarrow>
                    (let drop_range_fake_part_name = getPartNamePossiblyFake c drop_range_info;
                         entry1 = entry\<lparr> entry_type := DROP_RANGE,
                                         source_replica := replica_name st1,
                                         new_part_name := drop_range_fake_part_name,
                                         detach := detach_flag,
                                         create_time := now \<rparr>;
                         ops = [CreateRequest (Sub log_path ''log-'') (LogEntryData entry1) PersistentSequential,
                                SetRequest alter_partition_version_path (Str [])
                                  (version alter_partition_version_stat),
                                SetRequest log_path (Str []) (-1)]
                               @ getUnlockOps delimiting_block_lock @ txn_ops
                     in case tryMulti zk2 ops of
                          (ZOK, cs, zk3) \<Rightarrow>
                            (Inr True, entry1\<lparr>znode_name := created_znode_name (hd cs)\<rparr>, st1, zk3)
                        | (ZBADVERSION, cs, zk3) \<Rightarrow> (Inl CANNOT_ASSIGN_ALTER, entry1, st1, zk3)
                        | (code, cs, zk3) \<Rightarrow>
                            (Inl (KeeperMultiException code (length cs) (failed_path ops (length cs))),
                             entry1, st1, zk3)))))"

subsection \<open>Merge and mutation log entries\<close>

datatype CreateMergeEntryResult = Ok | MissingPart | LogUpdated | Other

definition parts_path :: "storage \<Rightarrow> zpath" where
  "parts_path st = Sub (replica_path st) ''parts''"

text \<open>
  The loop of \<^verbatim>\<open>createLogEntryToMergeParts\<close> over the answers of \<^verbatim>\<open>asyncExists\<close>: it
  clears \<open>all_in_zk\<close> on a part that has no node and enqueues the part for a check when it is
  old enough.
\<close>

fun check_parts_in_zk :: "decls \<Rightarrow> zk_state \<Rightarrow> int \<Rightarrow> DataPart list \<Rightarrow> bool \<times> storage \<Rightarrow> bool \<times> storage" where
  "check_parts_in_zk c zk now [] (all_in_zk, st) = (all_in_zk, st)"
| "check_parts_in_zk c zk now (part # parts) (all_in_zk, st) =
     (if \<not> zk_exists zk (Sub (parts_path st) (name part)) then
        check_parts_in_zk c zk now parts
          (False,
           if modification_time part + MAX_AGE_OF_LOCAL_PART_THAT_WASNT_ADDED_TO_ZOOKEEPER c < now
           then enqueuePartForCheck st (name part) else st)
      else check_parts_in_zk c zk now parts (all_in_zk, st))"

text \<open>
  \<^verbatim>\<open>createLogEntryToMergeParts\<close>. The entry written is returned beside the result; the
  source copies it to \<^verbatim>\<open>out_log_entry\<close> when the caller gave one.
\<close>

definition createLogEntryToMergeParts ::
  "decls \<Rightarrow> storage \<Rightarrow> zk_state \<Rightarrow> DataPart list \<Rightarrow> string \<Rightarrow> nat \<Rightarrow> string \<Rightarrow> bool
     \<Rightarrow> string list \<Rightarrow> int \<Rightarrow> nat \<Rightarrow> int
     \<Rightarrow> (exn + CreateMergeEntryResult \<times> LogEntry option) \<times> storage \<times> zk_state" where
  "createLogEntryToMergeParts c st zk parts merged_name merged_part_uuid merged_part_type
       deduplicate_flag deduplicate_by_columns_arg log_version merge_type_arg now =
     (case check_parts_in_zk c zk now parts (True, st) of
        (all_in_zk, st1) \<Rightarrow>
          if \<not> all_in_zk then (Inr (MissingPart, None), st1, zk)
          else
            (let entry = empty_LogEntry\<lparr> entry_type := MERGE_PARTS,
                                        source_replica := replica_name st1,
                                        new_part_name := merged_name,
                                        new_part_uuid := merged_part_uuid,
                                        new_part_type := merged_part_type,
                                        merge_type := merge_type_arg,
                                        deduplicate := deduplicate_flag,
                                        deduplicate_by_columns := deduplicate_by_columns_arg,
                                        create_time := now,
                                        source_parts := map name parts \<rparr>;
                 ops = [CreateRequest (Sub log_path ''log-'') (LogEntryData entry) PersistentSequential,
                        SetRequest log_path (Str []) log_version]
             in case tryMulti zk ops of
                  (ZOK, cs, zk') \<Rightarrow>
                    (Inr (Ok, Some (entry\<lparr>znode_name := created_znode_name (hd cs)\<rparr>)), st1, zk')
                | (ZBADVERSION, cs, zk') \<Rightarrow> (Inr (LogUpdated, None), st1, zk')
                | (code, cs, zk') \<Rightarrow>
                    (Inl (KeeperMultiException code (length cs) (failed_path ops (length cs))), st1, zk')))"

text \<open>\<^verbatim>\<open>createLogEntryToMutatePart\<close>.\<close>

definition createLogEntryToMutatePart ::
  "decls \<Rightarrow> storage \<Rightarrow> zk_state \<Rightarrow> DataPart \<Rightarrow> nat \<Rightarrow> int \<Rightarrow> int \<Rightarrow> int \<Rightarrow> int
     \<Rightarrow> (exn + CreateMergeEntryResult) \<times> storage \<times> zk_state" where
  "createLogEntryToMutatePart c st zk part new_part_uuid_arg mutation_version alter_version_arg
       log_version now =
     (if \<not> zk_exists zk (Sub (parts_path st) (name part)) then
        (Inr MissingPart,
         if modification_time part + MAX_AGE_OF_LOCAL_PART_THAT_WASNT_ADDED_TO_ZOOKEEPER c < now
         then enqueuePartForCheck st (name part) else st,
         zk)
      else
        (let new_part_info = (info part)\<lparr>mutation := mutation_version\<rparr>;
             new_name = getNewName c (name part) new_part_info;
             entry = empty_LogEntry\<lparr> entry_type := MUTATE_PART,
                                    source_replica := replica_name st,
                                    source_parts := [name part],
                                    new_part_name := new_name,
                                    new_part_uuid := new_part_uuid_arg,
                                    create_time := now,
                                    alter_version := alter_version_arg \<rparr>;
             ops = [CreateRequest (Sub log_path ''log-'') (LogEntryData entry) PersistentSequential,
                    SetRequest log_path (Str []) log_version]
         in case tryMulti zk ops of
              (ZBADVERSION, cs, zk') \<Rightarrow> (Inr LogUpdated, st, zk')
            | (code, cs, zk') \<Rightarrow>
                (case KeeperMultiException_check code ops cs of
                   Some e \<Rightarrow> (Inl e, st, zk')
                 | None \<Rightarrow> (Inr Ok, st, zk'))))"

text \<open>
  The number the next sequential child of a partition's node in \<^verbatim>\<open>block_numbers\<close> gets:
  every block number allocated in the partition so far is below it, and it is 0 when the
  partition never had a block number.
\<close>

definition next_block_number :: "zk_state \<Rightarrow> string \<Rightarrow> nat" where
  "next_block_number zk pid =
     (case zk (Sub block_numbers_path pid) of None \<Rightarrow> 0 | Some pn \<Rightarrow> seq_num pn)"

text \<open>The nodes that allocating a block number in a partition may create or change.\<close>

fun alloc_footprint :: "string \<Rightarrow> zpath \<Rightarrow> bool" where
  "alloc_footprint pid (SubSeq par s n) = (par = Sub ZRoot ''temp'' \<or> par = Sub block_numbers_path pid)"
| "alloc_footprint pid p = (p = Sub ZRoot ''temp'' \<or> p = block_numbers_path \<or> p = Sub block_numbers_path pid)"

text \<open>The nodes one request may create, change or remove.\<close>

fun touches :: "request \<Rightarrow> zpath \<Rightarrow> bool" where
  "touches (CreateRequest q d m) p =
     (p = q \<or> (is_sequential m \<and>
        (case q of
           Sub par pre \<Rightarrow> p = par \<or> (case p of SubSeq par' pre' n \<Rightarrow> par' = par \<and> pre' = pre | other \<Rightarrow> False)
         | other \<Rightarrow> False)))"
| "touches (RemoveRequest q v) p = (p = q)"
| "touches (SetRequest q d v) p = (p = q)"
| "touches (CheckRequest q v) p = (p = q)"

subsection \<open>A small table for concrete runs\<close>

text \<open>
  Concrete values for the parameters, a replica \<open>r1\<close> and a coordination-service state in
  which partition \<open>p\<close> has handed out the block numbers 0, 1 and 2.
\<close>

definition demo_decls :: decls where
  "demo_decls =
     \<lparr> MAX_LEVEL = 999999999, MAX_BLOCK_NUMBER = 999999999,
       MAX_AGE_OF_LOCAL_PART_THAT_WASNT_ADDED_TO_ZOOKEEPER = 300,
       tryParsePartName =
         map_of [(''p_0_0_0'', \<lparr> partition_id = ''p'', min_block = 0, max_block = 0, level = 0, mutation = 0 \<rparr>),
                 (''p_0_3_999999999_999999999'',
                    \<lparr> partition_id = ''p'', min_block = 0, max_block = 3, level = 999999999, mutation = 999999999 \<rparr>),
                 (''p_1_1_0'', \<lparr> partition_id = ''p'', min_block = 1, max_block = 1, level = 0, mutation = 0 \<rparr>),
                 (''p_1_2_1'', \<lparr> partition_id = ''p'', min_block = 1, max_block = 2, level = 1, mutation = 0 \<rparr>),
                 (''p_5_5_0'', \<lparr> partition_id = ''p'', min_block = 5, max_block = 5, level = 0, mutation = 0 \<rparr>)],
       getPartNamePossiblyFake = (\<lambda>i. ''p_0_2_999999999_999999999''),
       getNewName = (\<lambda>n i. n @ ''_m'') \<rparr>"

definition demo_storage :: storage where
  "demo_storage =
     \<lparr> replica_name = ''r1'', existing_nodes_cache = {}, data_parts = [], parts_to_check = [] \<rparr>"

definition demo_zk :: zk_state where
  "demo_zk =
     [ Sub ZRoot ''temp'' \<mapsto> fresh_node (Str []),
       block_numbers_path \<mapsto> fresh_node (Str []),
       Sub block_numbers_path ''p'' \<mapsto> \<lparr> data = Str [], version = 0, seq_num = 3 \<rparr>,
       blocks_path \<mapsto> fresh_node (Str []),
       log_path \<mapsto> \<lparr> data = Str [], version = 7, seq_num = 5 \<rparr>,
       alter_partition_version_path \<mapsto> \<lparr> data = Str [], version = 2, seq_num = 0 \<rparr> ]"

definition demo_attach_entry :: ReplaceRangeEntry where
  "demo_attach_entry =
     \<lparr> drop_range_part_name = ''p_0_0_0'', src_part_names = [''p_1_1_0''],
       new_part_names = [''p_5_5_0''], part_names_checksums = [''ABCD''] \<rparr>"

text \<open>The lock that block number \<open>n\<close> of a partition gives, with holder node \<open>h\<close>.\<close>

definition demo_lock :: "string \<Rightarrow> nat \<Rightarrow> nat \<Rightarrow> EphemeralLock" where
  "demo_lock pid n h =
     \<lparr> lock_path = SubSeq (Sub (Sub ZRoot ''block_numbers'') pid) ''block-'' n,
       holder_path = SubSeq (Sub ZRoot ''temp'') ''abandonable_lock-'' h,
       lock_number = n \<rparr>"

text \<open>A drop range of partition \<open>p\<close> up to block \<open>m\<close>.\<close>

definition demo_range :: "int \<Rightarrow> MergeTreePartInfo" where
  "demo_range m = \<lparr> partition_id = ''p'', min_block = 0, max_block = m, level = 999999999, mutation = 999999999 \<rparr>"

text \<open>Whether a local part has no node under the replica's parts path, and whether it is old.\<close>

definition absent_in_zk :: "storage \<Rightarrow> zk_state \<Rightarrow> DataPart \<Rightarrow> bool" where
  "absent_in_zk st zk part \<longleftrightarrow> \<not> zk_exists zk (Sub (parts_path st) (name part))"

definition stale :: "decls \<Rightarrow> int \<Rightarrow> DataPart \<Rightarrow> bool" where
  "stale c now part \<longleftrightarrow>
     modification_time part + MAX_AGE_OF_LOCAL_PART_THAT_WASNT_ADDED_TO_ZOOKEEPER c < now"

text \<open>Two local parts of partition \<open>p\<close>, an old one and a recent one.\<close>

definition demo_old_part :: DataPart where
  "demo_old_part =
     \<lparr> name = ''p_1_1_0'',
       info = \<lparr> partition_id = ''p'', min_block = 1, max_block = 1, level = 0, mutation = 0 \<rparr>,
       state = Committed, modification_time = 100 \<rparr>"

definition demo_new_part :: DataPart where
  "demo_new_part =
     \<lparr> name = ''p_2_2_0'',
       info = \<lparr> partition_id = ''p'', min_block = 2, max_block = 2, level = 0, mutation = 0 \<rparr>,
       state = Committed, modification_time = 900 \<rparr>"

text \<open>The demo state with both parts registered under the replica's parts path.\<close>

definition demo_zk_parts :: zk_state where
  "demo_zk_parts =
     demo_zk(Sub (Sub (Sub (Sub ZRoot ''replicas'') ''r1'') ''parts'') ''p_1_1_0'' \<mapsto> fresh_node (Str []),
             Sub (Sub (Sub (Sub ZRoot ''replicas'') ''r1'') ''parts'') ''p_2_2_0'' \<mapsto> fresh_node (Str []))"

definition demo_merge_entry :: LogEntry where
  "demo_merge_entry =
     empty_LogEntry\<lparr> entry_type := MERGE_PARTS, source_replica := ''r1'', new_part_name := ''p_1_2_1'',
                      new_part_type := ''Wide'', create_time := 1000,
                      source_parts := [''p_1_1_0'', ''p_2_2_0''], znode_name := Some (''log-'', 5) \<rparr>"

text \<open>The state in which another client has just updated the alter-partition version.\<close>

definition demo_bump_alter_partition_version :: "zk_state \<Rightarrow> zk_state" where
  "demo_bump_alter_partition_version z =
     z(alter_partition_version_path \<mapsto> \<lparr> data = Str [], version = 3, seq_num = 0 \<rparr>)"

subsection \<open>Repair of a lost replica\<close>

text \<open>
  What \<^verbatim>\<open>cloneReplicaIfNeeded\<close> learns from the coordination service beyond single nodes:
  the children of the replicas node, the numbers of the entries under the log node, the
  number of children of a node (\<^verbatim>\<open>stat.numChildren\<close>), and the parser of a log pointer.
\<close>

record clone_env =
  replicas_listing :: "string list"
  log_entries :: "nat list"
  numChildren :: "zpath \<Rightarrow> nat"
  parse_UInt64 :: "string \<Rightarrow> nat"

definition is_lost_path :: "storage \<Rightarrow> zpath" where
  "is_lost_path st = Sub (replica_path st) ''is_lost''"

text \<open>
  One round of the loop of \<^verbatim>\<open>cloneReplicaIfNeeded\<close> that picks the source replica: a
  replica can be cloned when its \<^verbatim>\<open>is_lost\<close> node holds "0" and it has a log pointer and a
  queue; its replication lag is computed in \<^verbatim>\<open>size_t\<close> arithmetic. The result is the stat
  of the replica's \<^verbatim>\<open>is_lost\<close> node and its lag, or nothing when the source says
  \<^verbatim>\<open>continue\<close>.
\<close>

definition source_candidate :: "clone_env \<Rightarrow> zk_state \<Rightarrow> nat \<Rightarrow> string \<Rightarrow> (znode \<times> nat) option" where
  "source_candidate env zk max_log_entry source_replica_name =
     (let source_replica_path = Sub (Sub ZRoot ''replicas'') source_replica_name in
      case tryGet zk (Sub source_replica_path ''is_lost'') of
        None \<Rightarrow> None
      | Some get_is_lost \<Rightarrow>
          if data get_is_lost \<noteq> Str ''0'' then None
          else
            (case tryGet zk (Sub source_replica_path ''log_pointer'') of
               None \<Rightarrow> None
             | Some get_log_pointer \<Rightarrow>
                 (case tryGet zk (Sub source_replica_path ''queue'') of
                    None \<Rightarrow> None
                  | Some get_queue \<Rightarrow>
                      (let source_log_pointer =
                             (case data get_log_pointer of
                                Str s \<Rightarrow> if s = [] then 0 else parse_UInt64 env s
                              | other \<Rightarrow> 0);
                           replica_queue_lag =
                             (max_log_entry + 2 ^ 64 - source_log_pointer mod 2 ^ 64) mod 2 ^ 64;
                           replica_queue_size = numChildren env (Sub source_replica_path ''queue'');
                           replication_lag = (replica_queue_lag + replica_queue_size) mod 2 ^ 64
                       in Some (get_is_lost, replication_lag)))))"

text \<open>
  The loop itself. The accumulator holds the source chosen so far, the stat of its
  \<^verbatim>\<open>is_lost\<close> node, and its lag; the replica never clones itself.
\<close>

fun choose_source ::
  "clone_env \<Rightarrow> storage \<Rightarrow> zk_state \<Rightarrow> nat \<Rightarrow> string list
     \<Rightarrow> string \<times> znode option \<times> nat \<Rightarrow> string \<times> znode option \<times> nat" where
  "choose_source env st zk max_log_entry [] acc = acc"
| "choose_source env st zk max_log_entry (source_replica_name # rest) acc =
     choose_source env st zk max_log_entry rest
       (if source_replica_name = replica_name st then acc
        else
          (case source_candidate env zk max_log_entry source_replica_name of
             None \<Rightarrow> acc
           | Some (get_is_lost, replication_lag) \<Rightarrow>
               if replication_lag < snd (snd acc)
               then (source_replica_name, Some get_is_lost, replication_lag)
               else acc))"

text \<open>
  \<^verbatim>\<open>cloneReplicaIfNeeded\<close>. The result is the exception thrown, if any, with the state the
  function leaves. \<^verbatim>\<open>cloneReplica\<close> is a parameter: it gets the source replica and the stat
  of the source's \<^verbatim>\<open>is_lost\<close> node, and returns the exception it throws, if any, with the
  state it leaves. Clearing the in-memory queue has no effect on the state modelled here.
\<close>

definition cloneReplicaIfNeeded ::
  "clone_env \<Rightarrow> (string \<Rightarrow> znode option \<Rightarrow> storage \<Rightarrow> zk_state \<Rightarrow> exn option \<times> storage \<times> zk_state)
     \<Rightarrow> storage \<Rightarrow> zk_state \<Rightarrow> exn option \<times> storage \<times> zk_state" where
  "cloneReplicaIfNeeded env cloneReplica st zk =
     (case tryGet zk (is_lost_path st) of
        None \<Rightarrow>
          (case zk_create zk (is_lost_path st) (Str ''0'') Persistent of
             (Inl e, zk') \<Rightarrow> (Some e, st, zk')
           | (Inr p, zk') \<Rightarrow> (None, st, zk'))
      | Some is_lost_stat \<Rightarrow>
          if data is_lost_stat = Str ''0'' then (None, st, zk)
          else
            (let max_log_entry =
                   ((if log_entries env = [] then 0 else Max (set (log_entries env))) + 1) mod 2 ^ 64
             in case choose_source env st zk max_log_entry (replicas_listing env) ([], None, 2 ^ 64 - 1) of
                  (chosen_replica, chosen_is_lost_stat, min_replication_lag) \<Rightarrow>
                    if chosen_replica = [] then (Some ALL_REPLICAS_LOST, st, zk)
                    else
                      (let zk1 = removeChildren zk (Sub (replica_path st) ''queue'') in
                       case cloneReplica chosen_replica chosen_is_lost_stat st zk1 of
                         (Some e, st2, zk2) \<Rightarrow> (Some e, st2, zk2)
                       | (None, st2, zk2) \<Rightarrow>
                           (case zk_set zk2 (is_lost_path st) (Str ''0'') of
                              (Inl e, zk3) \<Rightarrow> (Some e, st2, zk3)
                            | (Inr u, zk3) \<Rightarrow> (None, st2, zk3)))))"

text \<open>The source replica that \<^verbatim>\<open>cloneReplicaIfNeeded\<close> picks in a state, with the stat it keeps.\<close>

definition chosen_source :: "clone_env \<Rightarrow> storage \<Rightarrow> zk_state \<Rightarrow> string \<times> znode option" where
  "chosen_source env st zk =
     (case choose_source env st zk
             (((if log_entries env = [] then 0 else Max (set (log_entries env))) + 1) mod 2 ^ 64)
             (replicas_listing env) ([], None, 2 ^ 64 - 1) of
        (chosen_replica, chosen_is_lost_stat, min_replication_lag) \<Rightarrow> (chosen_replica, chosen_is_lost_stat))"

text \<open>
  A table with a lost replica \<open>r1\<close> and a healthy replica \<open>r2\<close>, and two behaviours of
  \<^verbatim>\<open>cloneReplica\<close>: one copies the log pointer and succeeds when the source is \<open>r2\<close>, the
  other always fails after copying it.
\<close>

definition demo_clone_env :: clone_env where
  "demo_clone_env =
     \<lparr> replicas_listing = [''r1'', ''r2''], log_entries = [3, 4],
       numChildren = (\<lambda>p. 2), parse_UInt64 = (\<lambda>s. 4) \<rparr>"

definition demo_zk_lost :: zk_state where
  "demo_zk_lost =
     [ Sub (Sub (Sub ZRoot ''replicas'') ''r1'') ''is_lost'' \<mapsto> \<lparr> data = Str ''1'', version = 1, seq_num = 0 \<rparr>,
       Sub (Sub (Sub ZRoot ''replicas'') ''r1'') ''queue'' \<mapsto> \<lparr> data = Str [], version = 0, seq_num = 1 \<rparr>,
       SubSeq (Sub (Sub (Sub ZRoot ''replicas'') ''r1'') ''queue'') ''queue-'' 0 \<mapsto> fresh_node (Str ''stale''),
       Sub (Sub (Sub ZRoot ''replicas'') ''r2'') ''is_lost'' \<mapsto> fresh_node (Str ''0''),
       Sub (Sub (Sub ZRoot ''replicas'') ''r2'') ''log_pointer'' \<mapsto> fresh_node (Str ''4''),
       Sub (Sub (Sub ZRoot ''replicas'') ''r2'') ''queue'' \<mapsto> fresh_node (Str []) ]"

definition demo_cloneReplica ::
  "string \<Rightarrow> znode option \<Rightarrow> storage \<Rightarrow> zk_state \<Rightarrow> exn option \<times> storage \<times> zk_state" where
  "demo_cloneReplica src stat s z =
     (if src = ''r2'' then None else Some REPLICA_STATUS_CHANGED, s,
      z(Sub (Sub (Sub ZRoot ''replicas'') ''r1'') ''log_pointer'' \<mapsto> fresh_node (Str ''4'')))"

definition demo_cloneReplica_failing ::
  "string \<Rightarrow> znode option \<Rightarrow> storage \<Rightarrow> zk_state \<Rightarrow> exn option \<times> storage \<times> zk_state" where
  "demo_cloneReplica_failing src stat s z =
     (Some REPLICA_STATUS_CHANGED, s,
      z(Sub (Sub (Sub ZRoot ''replicas'') ''r1'') ''log_pointer'' \<mapsto> fresh_node (Str ''4'')))"

subsection \<open>Executing a log entry\<close>

text \<open>
  Modelled from the spec: \<^verbatim>\<open>getPartIfExists\<close> and \<^verbatim>\<open>getActiveContainingPart\<close> belong to
  \<^verbatim>\<open>MergeTreeData\<close>, outside src/. The first finds the part with the given part info in
  one of the given states; the second finds the active (committed) part that covers the
  given part info.
\<close>

definition getPartIfExists ::
  "MergeTreePartInfo \<Rightarrow> MergeTreeDataPartState list \<Rightarrow> DataPart list \<Rightarrow> DataPart option" where
  "getPartIfExists part_info valid_states parts =
     find (\<lambda>p. info p = part_info \<and> state p \<in> set valid_states) parts"

definition getActiveContainingPart :: "MergeTreePartInfo \<Rightarrow> DataPart list \<Rightarrow> DataPart option" where
  "getActiveContainingPart part_info parts =
     find (\<lambda>p. state p = Committed \<and> contains (info p) part_info) parts"

text \<open>
  The functions that \<^verbatim>\<open>executeLogEntry\<close> hands an entry to. Each is a parameter and may do
  anything to the replica and to the coordination service: a \<open>void\<close> function returns the
  exception it throws, if any, the others return it in place of their result.
  \<open>commitAttachedPart\<close> stands for the three statements that attach a valid local part:
  \<^verbatim>\<open>renameTempPartAndReplace\<close>, \<^verbatim>\<open>checkPartChecksumsAndCommit\<close> and \<^verbatim>\<open>writePartLog\<close>.
\<close>

record executors =
  executeDropRange :: "LogEntry \<Rightarrow> storage \<Rightarrow> zk_state \<Rightarrow> exn option \<times> storage \<times> zk_state"
  executeReplaceRange :: "LogEntry \<Rightarrow> storage \<Rightarrow> zk_state \<Rightarrow> (exn + bool) \<times> storage \<times> zk_state"
  attachPartHelperFoundValidPart :: "LogEntry \<Rightarrow> storage \<Rightarrow> exn + DataPart option"
  commitAttachedPart :: "DataPart \<Rightarrow> storage \<Rightarrow> zk_state \<Rightarrow> exn option \<times> storage \<times> zk_state"
  executeFetch :: "LogEntry \<Rightarrow> storage \<Rightarrow> zk_state \<Rightarrow> (exn + bool) \<times> storage \<times> zk_state"
  executeMetadataAlter :: "LogEntry \<Rightarrow> storage \<Rightarrow> zk_state \<Rightarrow> (exn + bool) \<times> storage \<times> zk_state"
  syncPinnedPartUUIDs :: "storage \<Rightarrow> zk_state \<Rightarrow> exn option \<times> storage \<times> zk_state"
  executeClonePartFromShard :: "LogEntry \<Rightarrow> storage \<Rightarrow> zk_state \<Rightarrow> exn option \<times> storage \<times> zk_state"

text \<open>A \<open>void\<close> call followed by \<^verbatim>\<open>return true\<close>.\<close>

fun then_true :: "exn option \<times> storage \<times> zk_state \<Rightarrow> (exn + bool) \<times> storage \<times> zk_state" where
  "then_true (Some e, st, zk) = (Inl e, st, zk)"
| "then_true (None, st, zk) = (Inr True, st, zk)"

text \<open>
  The part that makes an entry superfluous: the pre-committed part of that name if there is
  one, else the active part that covers it.
\<close>

definition existing_part :: "decls \<Rightarrow> storage \<Rightarrow> string \<Rightarrow> exn + DataPart option" where
  "existing_part c st part =
     (case fromPartName c part of
        Inl e \<Rightarrow> Inl e
      | Inr part_info \<Rightarrow>
          (case getPartIfExists part_info [PreCommitted] (data_parts st) of
             Some p \<Rightarrow> Inr (Some p)
           | None \<Rightarrow> Inr (getActiveContainingPart part_info (data_parts st))))"

definition failed_parts_path :: "string \<Rightarrow> zpath" where
  "failed_parts_path part = Sub (Sub (Sub ZRoot ''quorum'') ''failed_parts'') part"

text \<open>The final \<^verbatim>\<open>switch\<close> of \<^verbatim>\<open>executeLogEntry\<close>.\<close>

fun executeLogEntry_switch ::
  "executors \<Rightarrow> LogEntryType \<Rightarrow> LogEntry \<Rightarrow> storage \<Rightarrow> zk_state \<Rightarrow> (exn + bool) \<times> storage \<times> zk_state" where
  "executeLogEntry_switch ex ATTACH_PART entry st zk = executeFetch ex entry st zk"
| "executeLogEntry_switch ex GET_PART entry st zk = executeFetch ex entry st zk"
| "executeLogEntry_switch ex MERGE_PARTS entry st zk = (Inl LOGICAL_ERROR, st, zk)"
| "executeLogEntry_switch ex MUTATE_PART entry st zk = (Inl LOGICAL_ERROR, st, zk)"
| "executeLogEntry_switch ex ALTER_METADATA entry st zk = executeMetadataAlter ex entry st zk"
| "executeLogEntry_switch ex SYNC_PINNED_PART_UUIDS entry st zk = then_true (syncPinnedPartUUIDs ex st zk)"
| "executeLogEntry_switch ex CLONE_PART_FROM_SHARD entry st zk = then_true (executeClonePartFromShard ex entry st zk)"
| "executeLogEntry_switch ex other entry st zk = (Inl LOGICAL_ERROR, st, zk)"

text \<open>
  \<^verbatim>\<open>executeLogEntry\<close> from the ATTACH_PART branch on: what runs when the entry was not
  skipped as already present.
\<close>

definition executeLogEntry_rest ::
  "executors \<Rightarrow> storage \<Rightarrow> zk_state \<Rightarrow> LogEntry \<Rightarrow> (exn + bool) \<times> storage \<times> zk_state" where
  "executeLogEntry_rest ex st zk entry =
     (case (if entry_type entry = ATTACH_PART then attachPartHelperFoundValidPart ex entry st
            else Inr None) of
        Inl e \<Rightarrow> (Inl e, st, zk)
      | Inr (Some part) \<Rightarrow> then_true (commitAttachedPart ex part st zk)
      | Inr None \<Rightarrow>
          if quorum entry \<noteq> 0 \<and> zk_exists zk (failed_parts_path (new_part_name entry))
          then (Inr True, st, zk)
          else executeLogEntry_switch ex (entry_type entry) entry st zk)"

text \<open>\<^verbatim>\<open>executeLogEntry\<close>.\<close>

definition executeLogEntry ::
  "decls \<Rightarrow> executors \<Rightarrow> storage \<Rightarrow> zk_state \<Rightarrow> LogEntry \<Rightarrow> (exn + bool) \<times> storage \<times> zk_state" where
  "executeLogEntry c ex st zk entry =
     (if entry_type entry = DROP_RANGE then then_true (executeDropRange ex entry st zk)
      else if entry_type entry = REPLACE_RANGE then
        (case executeReplaceRange ex entry st zk of
           (Inl e, st1, zk1) \<Rightarrow> (Inl e, st1, zk1)
         | (Inr b, st1, zk1) \<Rightarrow> (Inr True, st1, zk1))
      else
        (let is_get_or_attach = (entry_type entry = GET_PART \<or> entry_type entry = ATTACH_PART) in
         if is_get_or_attach \<or> entry_type entry = MERGE_PARTS \<or> entry_type entry = MUTATE_PART then
           (case existing_part c st (new_part_name entry) of
              Inl e \<Rightarrow> (Inl e, st, zk)
            | Inr (Some p) \<Rightarrow>
                if zk_exists zk (Sub (parts_path st) (name p)) then (Inr True, st, zk)
                else executeLogEntry_rest ex st zk entry
            | Inr None \<Rightarrow> executeLogEntry_rest ex st zk entry)
         else executeLogEntry_rest ex st zk entry))"

text \<open>The four entry types that name a part the replica may already have.\<close>

definition produces_part :: "LogEntry \<Rightarrow> bool" where
  "produces_part entry \<longleftrightarrow>
     entry_type entry = GET_PART \<or> entry_type entry = ATTACH_PART
     \<or> entry_type entry = MERGE_PARTS \<or> entry_type entry = MUTATE_PART"

text \<open>
  Executors for concrete runs: a valid local part is always found for an ATTACH_PART entry
  and committed into the working set, and a fetch adds the part it was asked for.
\<close>

definition demo_fetched_part :: "string \<Rightarrow> DataPart" where
  "demo_fetched_part part =
     \<lparr> name = part,
       info = (case tryParsePartName demo_decls part of Some i \<Rightarrow> i | None \<Rightarrow> empty_part_info),
       state = Committed, modification_time = 1000 \<rparr>"

definition demo_add_part :: "DataPart \<Rightarrow> storage \<Rightarrow> zk_state \<Rightarrow> storage \<times> zk_state" where
  "demo_add_part p st zk =
     (st\<lparr>data_parts := data_parts st @ [p]\<rparr>, zk(Sub (parts_path st) (name p) \<mapsto> fresh_node (Str [])))"

definition demo_executors :: executors where
  "demo_executors =
     \<lparr> executeDropRange = (\<lambda>e st zk. (None, st, zk)),
       executeReplaceRange = (\<lambda>e st zk. (Inr True, st, zk)),
       attachPartHelperFoundValidPart = (\<lambda>e st. Inr (Some (demo_fetched_part (new_part_name e)))),
       commitAttachedPart = (\<lambda>p st zk. (None, demo_add_part p st zk)),
       executeFetch = (\<lambda>e st zk. (Inr True, demo_add_part (demo_fetched_part (new_part_name e)) st zk)),
       executeMetadataAlter = (\<lambda>e st zk. (Inr True, st, zk)),
       syncPinnedPartUUIDs = (\<lambda>st zk. (None, st, zk)),
       executeClonePartFromShard = (\<lambda>e st zk. (None, st, zk)) \<rparr>"

text \<open>A replica that holds the merged part \<open>p_1_2_1\<close> locally.\<close>

definition demo_storage_merged :: storage where
  "demo_storage_merged = demo_storage\<lparr>data_parts := [demo_fetched_part ''p_1_2_1'']\<rparr>"

definition demo_entry :: "LogEntryType \<Rightarrow> string \<Rightarrow> nat \<Rightarrow> LogEntry" where
  "demo_entry t part q = empty_LogEntry\<lparr> entry_type := t, new_part_name := part, quorum := q \<rparr>"

text \<open>The demo state in which the quorum for part \<open>p_1_1_0\<close> has failed.\<close>

definition demo_zk_failed_quorum :: zk_state where
  "demo_zk_failed_quorum = demo_zk(failed_parts_path ''p_1_1_0'' \<mapsto> fresh_node (Str []))"

subsection \<open>Checksums at commit\<close>

text \<open>
  The local part as the commit sees it: its name, its header
  (\<^verbatim>\<open>ReplicatedMergeTreePartHeader::fromColumnsAndChecksums\<close> of its columns and checksums),
  and the two texts written for it when headers are not minimalistic.
\<close>

record PartToCommit =
  commit_name :: string
  local_part_header :: ReplicatedMergeTreePartHeader
  columns_text :: string
  checksums_text :: string

text \<open>
  Modelled from the spec: \<^verbatim>\<open>MinimalisticDataPartChecksums::checkEqual\<close> is declared outside
  src/. Checksums recorded by another replica that do not match the local ones are a hard
  correctness error.
\<close>

definition checkEqual :: "string \<Rightarrow> string \<Rightarrow> exn option" where
  "checkEqual recorded local = (if recorded = local then None else Some CHECKSUM_DOESNT_MATCH)"

definition replica_part_path :: "string \<Rightarrow> string \<Rightarrow> zpath" where
  "replica_part_path replica part = Sub (Sub (Sub (Sub ZRoot ''replicas'') replica) ''parts'') part"

text \<open>
  The header a replica has recorded at a part's node: the node's own text when it is not
  empty, else the header built from the node's \<open>columns\<close> and \<open>checksums\<close> children by
  \<^verbatim>\<open>fromColumnsAndChecksumsZNodes\<close> (declared outside src/, a parameter). With an empty node
  and a child missing, the source throws if the node still exists and goes on to the next
  replica if it is gone.
\<close>

definition read_part_header ::
  "(string \<Rightarrow> string \<Rightarrow> ReplicatedMergeTreePartHeader) \<Rightarrow> zk_state \<Rightarrow> zpath \<Rightarrow> znode
     \<Rightarrow> exn + ReplicatedMergeTreePartHeader option" where
  "read_part_header fromColumnsAndChecksumsZNodes zk current_part_path part_zk =
     (case data part_zk of
        Str s \<Rightarrow>
          if s = [] then
            (case tryGet zk (Sub current_part_path ''columns'') of
               Some (columns_node) \<Rightarrow>
                 (case tryGet zk (Sub current_part_path ''checksums'') of
                    Some (checksums_node) \<Rightarrow>
                      (case data columns_node of
                         Str columns_str \<Rightarrow>
                           (case data checksums_node of
                              Str checksums_str \<Rightarrow>
                                Inr (Some (fromColumnsAndChecksumsZNodes columns_str checksums_str))
                            | other \<Rightarrow> Inl CANNOT_PARSE_TEXT)
                       | other \<Rightarrow> Inl CANNOT_PARSE_TEXT)
                  | None \<Rightarrow> if zk_exists zk current_part_path then Inl LOGICAL_ERROR else Inr None)
             | None \<Rightarrow> if zk_exists zk current_part_path then Inl LOGICAL_ERROR else Inr None)
          else Inl CANNOT_PARSE_TEXT
      | HeaderData h \<Rightarrow> Inr (Some h)
      | other \<Rightarrow> Inl CANNOT_PARSE_TEXT)"

text \<open>How one round of the loop over the replicas ends.\<close>

datatype replica_check =
    Continue "zpath list option" bool
  | Break "zpath list option" bool
  | Throw exn

text \<open>
  The body of the loop of \<^verbatim>\<open>checkPartChecksumsAndAddCommitOps\<close> for one replica.
  \<open>absent_replicas_paths\<close> is \<open>None\<close> for a null pointer.
\<close>

definition check_replica ::
  "(string \<Rightarrow> string \<Rightarrow> ReplicatedMergeTreePartHeader) \<Rightarrow> storage \<Rightarrow> zk_state \<Rightarrow> PartToCommit \<Rightarrow> string
     \<Rightarrow> string \<Rightarrow> zpath list option \<Rightarrow> bool \<Rightarrow> replica_check" where
  "check_replica fz st zk part part_name_arg replica absent_replicas_paths has_been_already_added =
     (let current_part_path = replica_part_path replica part_name_arg in
      case tryGet zk current_part_path of
        None \<Rightarrow>
          Continue (map_option (List.insert current_part_path) absent_replicas_paths)
            has_been_already_added
      | Some part_zk \<Rightarrow>
          (case read_part_header fz zk current_part_path part_zk of
             Inl e \<Rightarrow> Throw e
           | Inr None \<Rightarrow> Continue absent_replicas_paths has_been_already_added
           | Inr (Some replica_part_header) \<Rightarrow>
               if getColumnsHash replica_part_header \<noteq> getColumnsHash (local_part_header part)
               then Throw CHECKSUM_DOESNT_MATCH
               else
                 (case checkEqual (getChecksums replica_part_header)
                         (getChecksums (local_part_header part)) of
                    Some e \<Rightarrow> Throw e
                  | None \<Rightarrow>
                      (let added = (has_been_already_added \<or> replica = replica_name st) in
                       case absent_replicas_paths of
                         Some a \<Rightarrow> Break (Some []) added
                       | None \<Rightarrow> Continue None added))))"

text \<open>The loop, over the replicas in the order the shuffle left them.\<close>

fun check_replicas ::
  "(string \<Rightarrow> string \<Rightarrow> ReplicatedMergeTreePartHeader) \<Rightarrow> storage \<Rightarrow> zk_state \<Rightarrow> PartToCommit \<Rightarrow> string
     \<Rightarrow> string list \<Rightarrow> zpath list option \<Rightarrow> bool \<Rightarrow> exn + zpath list option \<times> bool" where
  "check_replicas fz st zk part part_name_arg [] absent added = Inr (absent, added)"
| "check_replicas fz st zk part part_name_arg (replica # rest) absent added =
     (case check_replica fz st zk part part_name_arg replica absent added of
        Throw e \<Rightarrow> Inl e
      | Break absent1 added1 \<Rightarrow> Inr (absent1, added1)
      | Continue absent1 added1 \<Rightarrow> check_replicas fz st zk part part_name_arg rest absent1 added1)"

text \<open>
  \<^verbatim>\<open>checkPartChecksumsAndAddCommitOps\<close>. \<open>shuffled\<close> is the list of replicas after the shuffle,
  \<open>minimalistic\<close> the setting \<^verbatim>\<open>use_minimalistic_part_header_in_zookeeper\<close>. The result is the
  extended list of requests with the paths of the replicas that lack the part.
\<close>

definition checkPartChecksumsAndAddCommitOps ::
  "(string \<Rightarrow> string \<Rightarrow> ReplicatedMergeTreePartHeader) \<Rightarrow> bool \<Rightarrow> storage \<Rightarrow> zk_state \<Rightarrow> string list
     \<Rightarrow> PartToCommit \<Rightarrow> request list \<Rightarrow> string \<Rightarrow> zpath list option
     \<Rightarrow> exn + request list \<times> zpath list option" where
  "checkPartChecksumsAndAddCommitOps fz minimalistic st zk shuffled part ops part_name_arg absent_replicas_paths =
     (let part_name1 = (if part_name_arg = [] then commit_name part else part_name_arg) in
      case check_replicas fz st zk part part_name1 shuffled absent_replicas_paths False of
        Inl e \<Rightarrow> Inl e
      | Inr (absent, has_been_already_added) \<Rightarrow>
          if \<not> has_been_already_added then
            (let part_path = Sub (parts_path st) part_name1 in
             if minimalistic then
               Inr (ops @ [CreateRequest part_path (HeaderData (local_part_header part)) Persistent], absent)
             else
               Inr (ops @ [CreateRequest part_path (Str []) Persistent,
                           CreateRequest (Sub part_path ''columns'') (Str (columns_text part)) Persistent,
                           CreateRequest (Sub part_path ''checksums'') (Str (checksums_text part)) Persistent],
                    absent))
          else Inr (ops, absent))"

text \<open>
  One pass of the loop of \<^verbatim>\<open>checkPartChecksumsAndCommit\<close>: the order in which the shuffle
  leaves the replicas, and what other clients of the coordination service do between the
  check and the multi-op.
\<close>

record commit_round =
  shuffled_replicas :: "string list"
  others_act :: "zk_state \<Rightarrow> zk_state"

text \<open>The requests that check that the part did not appear on a replica that lacked it.\<close>

definition absent_check_ops :: "zpath list \<Rightarrow> request list" where
  "absent_check_ops absent =
     concat (map (\<lambda>part_path. [CreateRequest part_path (Str []) Persistent,
                                RemoveRequest part_path (-1)]) absent)"

text \<open>
  \<^verbatim>\<open>checkPartChecksumsAndCommit\<close>. The loop runs once per element of \<open>rounds\<close>; the result is
  \<open>None\<close> when the rounds are used up before the function returns. \<open>transaction_isEmpty\<close> and
  \<open>commit\<close> stand for the local transaction of the part.
\<close>

fun checkPartChecksumsAndCommit ::
  "(string \<Rightarrow> string \<Rightarrow> ReplicatedMergeTreePartHeader) \<Rightarrow> bool \<Rightarrow> bool \<Rightarrow> (storage \<Rightarrow> storage)
     \<Rightarrow> PartToCommit \<Rightarrow> commit_round list \<Rightarrow> storage \<Rightarrow> zk_state
     \<Rightarrow> ((exn + unit) \<times> storage \<times> zk_state) option" where
  "checkPartChecksumsAndCommit fz minimalistic transaction_isEmpty commit part [] st zk = None"
| "checkPartChecksumsAndCommit fz minimalistic transaction_isEmpty commit part (round # rounds) st zk =
     (case checkPartChecksumsAndAddCommitOps fz minimalistic st zk (shuffled_replicas round) part []
             (commit_name part) (Some []) of
        Inl e \<Rightarrow> Some (Inl e, st, zk)
      | Inr (ops, absent) \<Rightarrow>
          if transaction_isEmpty then Some (Inr (), st, zk)
          else
            (let absent_part_paths_on_replicas = (case absent of Some a \<Rightarrow> a | None \<Rightarrow> []);
                 ops1 = absent_check_ops absent_part_paths_on_replicas @ ops
             in case tryMulti (others_act round zk) ops1 of
                  (code, cs, zk1) \<Rightarrow>
                    if code = ZOK then Some (Inr (), commit st, zk1)
                    else if length cs < 2 * length absent_part_paths_on_replicas \<and> code = ZNODEEXISTS
                    then checkPartChecksumsAndCommit fz minimalistic transaction_isEmpty commit part rounds st zk1
                    else Some (Inl (KeeperMultiException code (length cs) (failed_path ops1 (length cs))),
                               st, zk1)))"

text \<open>
  A part to commit on replica \<open>r1\<close>, and a state in which replica \<open>r2\<close> has recorded the same
  header for it and replica \<open>r3\<close> a header with other checksums; replica \<open>r4\<close> has no node for
  the part.
\<close>

definition demo_header_of_znodes :: "string \<Rightarrow> string \<Rightarrow> ReplicatedMergeTreePartHeader" where
  "demo_header_of_znodes columns_str checksums_str =
     \<lparr> getColumnsHash = columns_str, getChecksums = checksums_str \<rparr>"

definition demo_part_to_commit :: PartToCommit where
  "demo_part_to_commit =
     \<lparr> commit_name = ''p_1_1_0'',
       local_part_header = \<lparr> getColumnsHash = ''H1'', getChecksums = ''K1'' \<rparr>,
       columns_text = ''columns'', checksums_text = ''checksums'' \<rparr>"

definition demo_zk_headers :: zk_state where
  "demo_zk_headers =
     [ Sub (Sub (Sub ZRoot ''replicas'') ''r1'') ''parts'' \<mapsto> fresh_node (Str []),
       replica_part_path ''r2'' ''p_1_1_0''
         \<mapsto> fresh_node (HeaderData \<lparr> getColumnsHash = ''H1'', getChecksums = ''K1'' \<rparr>),
       replica_part_path ''r3'' ''p_1_1_0''
         \<mapsto> fresh_node (HeaderData \<lparr> getColumnsHash = ''H1'', getChecksums = ''K9'' \<rparr>) ]"

definition demo_round :: "string list \<Rightarrow> commit_round" where
  "demo_round order = \<lparr> shuffled_replicas = order, others_act = (\<lambda>z. z) \<rparr>"

subsection \<open>Quorum tracking\<close>

definition quorum_status_path :: "string \<Rightarrow> bool \<Rightarrow> zpath" where
  "quorum_status_path part is_parallel =
     (if is_parallel then Sub (Sub (Sub ZRoot ''quorum'') ''parallel'') part
      else Sub (Sub ZRoot ''quorum'') ''status'')"

definition quorum_last_part_path :: zpath where
  "quorum_last_part_path = Sub (Sub ZRoot ''quorum'') ''last_part''"

text \<open>
  \<^verbatim>\<open>ReplicatedMergeTreeQuorumAddedParts\<close>: the last part that reached its quorum, for each
  partition. The source parts with an empty map when the node's text is empty.
\<close>

definition parse_added_parts :: "zdata \<Rightarrow> exn + (string \<times> string) list" where
  "parse_added_parts d =
     (case d of
        Str s \<Rightarrow> if s = [] then Inr [] else Inl CANNOT_PARSE_TEXT
      | AddedPartsData added_parts \<Rightarrow> Inr added_parts
      | other \<Rightarrow> Inl CANNOT_PARSE_TEXT)"

text \<open>
  One pass of the loop of \<^verbatim>\<open>updateQuorum\<close> meets other clients of the coordination service
  twice: after it has read the quorum entry, and again before it writes.
\<close>

record quorum_round =
  others_after_read :: "zk_state \<Rightarrow> zk_state"
  others_before_write :: "zk_state \<Rightarrow> zk_state"

text \<open>How a pass ends: the function returns or throws, or the loop continues.\<close>

datatype quorum_step = Finished "exn + unit" zk_state | Again zk_state

text \<open>The four branches on the return code of the write, the same after both writes.\<close>

definition after_write :: "zerror \<Rightarrow> zk_state \<Rightarrow> quorum_step" where
  "after_write code zk =
     (if code = ZOK then Finished (Inr ()) zk
      else if code = ZNONODE then Finished (Inr ()) zk
      else if code = ZBADVERSION then Again zk
      else Finished (Inl (KeeperException code)) zk)"

text \<open>The body of the loop of \<^verbatim>\<open>updateQuorum\<close>.\<close>

definition updateQuorum_round ::
  "decls \<Rightarrow> storage \<Rightarrow> string \<Rightarrow> bool \<Rightarrow> quorum_round \<Rightarrow> zk_state \<Rightarrow> quorum_step" where
  "updateQuorum_round c st part is_parallel round zk =
     (case tryGet zk (quorum_status_path part is_parallel) of
        None \<Rightarrow> Finished (Inr ()) zk
      | Some stat \<Rightarrow>
          (case data stat of
             QuorumData quorum_entry \<Rightarrow>
               if part_name quorum_entry \<noteq> part then Finished (Inr ()) zk
               else
                 (let quorum_entry1 =
                        quorum_entry\<lparr>replicas := insert (replica_name st) (replicas quorum_entry)\<rparr>;
                      zk1 = others_after_read round zk
                  in if required_number_of_replicas quorum_entry1 \<le> card (replicas quorum_entry1) then
                       (if \<not> is_parallel then
                          (case zk_get zk1 quorum_last_part_path of
                             Inl e \<Rightarrow> Finished (Inl e) zk1
                           | Inr added_parts_stat \<Rightarrow>
                               (case parse_added_parts (data added_parts_stat) of
                                  Inl e \<Rightarrow> Finished (Inl e) zk1
                                | Inr added_parts \<Rightarrow>
                                    (case fromPartName c part of
                                       Inl e \<Rightarrow> Finished (Inl e) zk1
                                     | Inr part_info \<Rightarrow>
                                         (case tryMulti (others_before_write round zk1)
                                                 [RemoveRequest (quorum_status_path part is_parallel) (version stat),
                                                  SetRequest quorum_last_part_path
                                                    (AddedPartsData
                                                      (AList.update (partition_id part_info) part added_parts))
                                                    (version added_parts_stat)] of
                                            (code, cs, zk2) \<Rightarrow> after_write code zk2))))
                        else
                          (case tryMulti (others_before_write round zk1)
                                  [RemoveRequest (quorum_status_path part is_parallel) (version stat)] of
                             (code, cs, zk2) \<Rightarrow> after_write code zk2))
                     else
                       (case trySet (others_before_write round zk1) (quorum_status_path part is_parallel)
                               (QuorumData quorum_entry1) (version stat) of
                          (code, zk2) \<Rightarrow> after_write code zk2))
           | other \<Rightarrow> Finished (Inl CANNOT_PARSE_TEXT) zk))"

text \<open>
  \<^verbatim>\<open>updateQuorum\<close>. The loop runs once per element of \<open>rounds\<close>; the result is \<open>None\<close> when the
  rounds are used up before the function returns.
\<close>

fun updateQuorum ::
  "decls \<Rightarrow> storage \<Rightarrow> string \<Rightarrow> bool \<Rightarrow> quorum_round list \<Rightarrow> zk_state
     \<Rightarrow> ((exn + unit) \<times> zk_state) option" where
  "updateQuorum c st part is_parallel [] zk = None"
| "updateQuorum c st part is_parallel (round # rounds) zk =
     (case updateQuorum_round c st part is_parallel round zk of
        Finished r zk1 \<Rightarrow> Some (r, zk1)
      | Again zk1 \<Rightarrow> updateQuorum c st part is_parallel rounds zk1)"

text \<open>A pass during which no other client touches the coordination service.\<close>

definition quiet_round :: quorum_round where
  "quiet_round = \<lparr> others_after_read = (\<lambda>z. z), others_before_write = (\<lambda>z. z) \<rparr>"

text \<open>
  A quorum write of part \<open>p_1_1_0\<close> that needs \<open>required\<close> replicas and has the confirmation of
  \<open>r2\<close>, tracked both under the status node and as a parallel quorum; no partition has a
  last quorum part yet.
\<close>

definition demo_quorum_entry :: "nat \<Rightarrow> string set \<Rightarrow> QuorumEntry" where
  "demo_quorum_entry required confirmed =
     \<lparr> part_name = ''p_1_1_0'', required_number_of_replicas = required, replicas = confirmed \<rparr>"

definition demo_zk_quorum :: "nat \<Rightarrow> zk_state" where
  "demo_zk_quorum required =
     [ quorum_status_path ''p_1_1_0'' False
         \<mapsto> \<lparr> data = QuorumData (demo_quorum_entry required {''r2''}), version = 4, seq_num = 0 \<rparr>,
       quorum_status_path ''p_1_1_0'' True
         \<mapsto> \<lparr> data = QuorumData (demo_quorum_entry required {''r2''}), version = 0, seq_num = 0 \<rparr>,
       quorum_last_part_path \<mapsto> \<lparr> data = Str [], version = 1, seq_num = 0 \<rparr> ]"

text \<open>A pass during which replica \<open>r3\<close> confirms the part just before this replica writes.\<close>

definition demo_racing_round :: quorum_round where
  "demo_racing_round =
     \<lparr> others_after_read = (\<lambda>z. z),
       others_before_write =
         (\<lambda>z. z(quorum_status_path ''p_1_1_0'' False
                   \<mapsto> \<lparr> data = QuorumData (demo_quorum_entry 3 {''r2'', ''r3''}), version = 5, seq_num = 0 \<rparr>)) \<rparr>"

text \<open>The demo state after block number 3 of partition \<open>p\<close> has been allocated.\<close>

definition demo_zk_allocated :: zk_state where
  "demo_zk_allocated =
     demo_zk(Sub ZRoot ''temp'' \<mapsto> \<lparr> data = Str [], version = 0, seq_num = 1 \<rparr>,
             SubSeq (Sub ZRoot ''temp'') ''abandonable_lock-'' 0 \<mapsto> fresh_node (Str []),
             Sub block_numbers_path ''p'' \<mapsto> \<lparr> data = Str [], version = 0, seq_num = 4 \<rparr>,
             SubSeq (Sub block_numbers_path ''p'') ''block-'' 3
               \<mapsto> fresh_node (PathData (SubSeq (Sub ZRoot ''temp'') ''abandonable_lock-'' 0)))"

text \<open>Executors that find no valid local part for an ATTACH_PART entry.\<close>

definition demo_executors_no_local_part :: executors where
  "demo_executors_no_local_part =
     demo_executors\<lparr>attachPartHelperFoundValidPart := (\<lambda>e st. Inr None)\<rparr>"

text \<open>A replica that holds part \<open>p_1_1_0\<close> locally.\<close>

definition demo_storage_inserted :: storage where
  "demo_storage_inserted = demo_storage\<lparr>data_parts := [demo_fetched_part ''p_1_1_0'']\<rparr>"

text \<open>
  A pass during which another replica records a part of partition \<open>q\<close> as last quorum part
  just before this replica writes.
\<close>

definition demo_last_part_round :: quorum_round where
  "demo_last_part_round =
     \<lparr> others_after_read = (\<lambda>z. z),
       others_before_write =
         (\<lambda>z. z(quorum_last_part_path
                   \<mapsto> \<lparr> data = AddedPartsData [(''q'', ''q_5_5_0'')], version = 2, seq_num = 0 \<rparr>)) \<rparr>"

subsection \<open>Merge selection\<close>

text \<open>\<^verbatim>\<open>FutureMergedMutatedPart\<close>: the fields that \<^verbatim>\<open>mergeSelectingTask\<close> passes on.\<close>

record FutureMergedMutatedPart =
  future_parts :: "DataPart list"
  future_name :: string
  future_uuid :: nat
  future_type :: string
  future_merge_type :: nat

text \<open>
  What \<^verbatim>\<open>mergeSelectingTask\<close> reads from code outside src/: the flag \<^verbatim>\<open>is_leader\<close>, which it reads
  twice, the settings, the counters of the queue, the size limits of the merger, the part
  that \<^verbatim>\<open>selectPartsToMerge\<close> fills when it selects one, the size of a part on disk, and, from
  the merge predicate, the mutation version wanted for a part and the version of the log.
\<close>

record selecting_env =
  is_leader_before :: bool
  is_leader_after :: bool
  merge_selecting_sleep_ms :: nat
  max_replicated_merges_in_queue :: nat
  max_replicated_mutations_in_queue :: nat
  queued_merges :: nat
  queued_mutations :: nat
  max_source_parts_size_for_merge :: nat
  max_source_part_size_for_mutation :: nat
  selectPartsToMerge :: "FutureMergedMutatedPart option"
  countMutations :: nat
  getBytesOnDisk :: "DataPart \<Rightarrow> nat"
  getDesiredMutationVersion :: "DataPart \<Rightarrow> (int \<times> int) option"
  getVersion :: int
  generated_uuid :: nat

text \<open>
  Modelled from the spec: \<^verbatim>\<open>getDataPartsVector\<close> belongs to \<^verbatim>\<open>MergeTreeData\<close>, outside src/. It
  lists the parts of the local working set, the committed ones.
\<close>

definition getDataPartsVector :: "storage \<Rightarrow> DataPart list" where
  "getDataPartsVector st = filter (\<lambda>p. state p = Committed) (data_parts st)"

text \<open>What the task does to itself at its end: nothing, \<^verbatim>\<open>schedule()\<close> or \<^verbatim>\<open>scheduleAfter(ms)\<close>.\<close>

datatype schedule = NotScheduled | Schedule | ScheduleAfter nat

text \<open>
  The loop of \<^verbatim>\<open>mergeSelectingTask\<close> that chooses a part to mutate. \<open>create_result\<close> is the
  variable of that name; an exception leaves the loop with the variable as it was, and is
  returned beside it.
\<close>

fun mutate_parts ::
  "decls \<Rightarrow> selecting_env \<Rightarrow> DataPart list \<Rightarrow> CreateMergeEntryResult \<Rightarrow> storage \<Rightarrow> zk_state \<Rightarrow> int
     \<Rightarrow> exn option \<times> CreateMergeEntryResult \<times> storage \<times> zk_state" where
  "mutate_parts c env [] create_result st zk now = (None, create_result, st, zk)"
| "mutate_parts c env (part # parts) create_result st zk now =
     (if max_source_part_size_for_mutation env < getBytesOnDisk env part
      then mutate_parts c env parts create_result st zk now
      else
        (case getDesiredMutationVersion env part of
           None \<Rightarrow> mutate_parts c env parts create_result st zk now
         | Some desired_mutation_version \<Rightarrow>
             (case createLogEntryToMutatePart c st zk part (generated_uuid env)
                     (fst desired_mutation_version) (snd desired_mutation_version) (getVersion env) now of
                (Inl e, st1, zk1) \<Rightarrow> (Some e, create_result, st1, zk1)
              | (Inr r, st1, zk1) \<Rightarrow>
                  if r = Ok then (None, r, st1, zk1)
                  else mutate_parts c env parts r st1 zk1 now)))"

text \<open>
  \<^verbatim>\<open>mergeSelectingTask\<close>. The result is what the task schedules, the exception that the
  \<^verbatim>\<open>catch\<close> clause logged, if any, and the state.
\<close>

definition mergeSelectingTask ::
  "decls \<Rightarrow> selecting_env \<Rightarrow> storage \<Rightarrow> zk_state \<Rightarrow> int
     \<Rightarrow> schedule \<times> exn option \<times> storage \<times> zk_state" where
  "mergeSelectingTask c env st zk now =
     (if \<not> is_leader_before env then (NotScheduled, None, st, zk)
      else
        (case (if max_replicated_merges_in_queue env \<le> queued_merges env + queued_mutations env
               then (None, Other, st, zk)
               else
                 (case (if 0 < max_source_parts_size_for_merge env then selectPartsToMerge env else None) of
                    Some future_merged_part \<Rightarrow>
                      (case createLogEntryToMergeParts c st zk (future_parts future_merged_part)
                              (future_name future_merged_part) (future_uuid future_merged_part)
                              (future_type future_merged_part) False [] (getVersion env)
                              (future_merge_type future_merged_part) now of
                         (Inl e, st1, zk1) \<Rightarrow> (Some e, Other, st1, zk1)
                       | (Inr (r, entry), st1, zk1) \<Rightarrow> (None, r, st1, zk1))
                  | None \<Rightarrow>
                      if 0 < max_source_part_size_for_mutation env \<and> 0 < countMutations env
                         \<and> queued_mutations env < max_replicated_mutations_in_queue env
                      then mutate_parts c env (getDataPartsVector st) Other st zk now
                      else (None, Other, st, zk))) of
           (logged, create_result, st1, zk1) \<Rightarrow>
             if \<not> is_leader_after env then (NotScheduled, logged, st1, zk1)
             else if create_result \<noteq> Ok \<and> create_result \<noteq> LogUpdated
             then (ScheduleAfter (merge_selecting_sleep_ms env), logged, st1, zk1)
             else (Schedule, logged, st1, zk1)))"

text \<open>The parts that the loop of \<^verbatim>\<open>mergeSelectingTask\<close> does not skip.\<close>

definition mutation_candidate :: "selecting_env \<Rightarrow> DataPart \<Rightarrow> bool" where
  "mutation_candidate env part \<longleftrightarrow>
     \<not> max_source_part_size_for_mutation env < getBytesOnDisk env part
     \<and> getDesiredMutationVersion env part \<noteq> None"

text \<open>
  A leader whose queue has room, whose merger selects the merge of the two demo parts, and
  whose merge predicate saw version 6 of the log and wants every part mutated to version 4;
  and a replica that holds the two demo parts.
\<close>

definition demo_selecting_env :: selecting_env where
  "demo_selecting_env =
     \<lparr> is_leader_before = True, is_leader_after = True, merge_selecting_sleep_ms = 5000,
       max_replicated_merges_in_queue = 16, max_replicated_mutations_in_queue = 8,
       queued_merges = 0, queued_mutations = 0,
       max_source_parts_size_for_merge = 100, max_source_part_size_for_mutation = 100,
       selectPartsToMerge =
         Some \<lparr> future_parts = [demo_old_part, demo_new_part], future_name = ''p_1_2_1'',
                future_uuid = 0, future_type = ''Wide'', future_merge_type = 0 \<rparr>,
       countMutations = 1, getBytesOnDisk = (\<lambda>p. 10),
       getDesiredMutationVersion = (\<lambda>p. Some (4, -1)), getVersion = 6, generated_uuid = 0 \<rparr>"

definition demo_storage_two_parts :: storage where
  "demo_storage_two_parts = demo_storage\<lparr>data_parts := [demo_old_part, demo_new_part]\<rparr>"

text \<open>The demo state with only the old part registered under the replica's parts path.\<close>

definition demo_zk_old_part :: zk_state where
  "demo_zk_old_part =
     demo_zk(Sub (Sub (Sub (Sub ZRoot ''replicas'') ''r1'') ''parts'') ''p_1_1_0'' \<mapsto> fresh_node (Str []))"

subsection \<open>Executing a REPLACE_RANGE entry\<close>

text \<open>The \<^verbatim>\<open>PartDescription\<close> of \<^verbatim>\<open>executeReplaceRange\<close>, as its constructor fills it.\<close>

record PartDescription =
  desc_index :: nat
  desc_src_part_name :: string
  desc_src_part_info :: MergeTreePartInfo
  desc_new_part_name :: string
  desc_new_part_info :: MergeTreePartInfo
  desc_checksum_hex :: string

text \<open>
  The loop that fills \<open>all_parts\<close>, from index \<open>i\<close> on: \<open>new_names\<close> are the new part names
  from that index on, the other two lists are read with \<^verbatim>\<open>at(i)\<close>, which throws past their
  end, and both part names are parsed.
\<close>

fun part_descriptions ::
  "decls \<Rightarrow> nat \<Rightarrow> string list \<Rightarrow> string list \<Rightarrow> string list \<Rightarrow> exn + PartDescription list" where
  "part_descriptions c i src_names [] checksums = Inr []"
| "part_descriptions c i src_names (new_name # new_names) checksums =
     (if length src_names \<le> i \<or> length checksums \<le> i then Inl OUT_OF_RANGE
      else
        (case fromPartName c (src_names ! i) of
           Inl e \<Rightarrow> Inl e
         | Inr src_info \<Rightarrow>
             (case fromPartName c new_name of
                Inl e \<Rightarrow> Inl e
              | Inr new_info \<Rightarrow>
                  (case part_descriptions c (Suc i) src_names new_names checksums of
                     Inl e \<Rightarrow> Inl e
                   | Inr descs \<Rightarrow>
                       Inr (\<lparr> desc_index = i, desc_src_part_name = src_names ! i,
                              desc_src_part_info = src_info, desc_new_part_name = new_name,
                              desc_new_part_info = new_info, desc_checksum_hex = checksums ! i \<rparr>
                            # descs)))))"

text \<open>
  What \<^verbatim>\<open>executeReplaceRange\<close> calls outside src/: the queue's \<^verbatim>\<open>removePartProducingOpsInRange\<close>,
  the \<^verbatim>\<open>removePartsInRangeFromWorkingSet\<close> of \<^verbatim>\<open>MergeTreeData\<close>, which returns the parts it
  removed, and the number of children that an \<^verbatim>\<open>exists\<close> answers for a node.
  \<open>obtain_and_commit_parts\<close> stands for the statements between the two places that drop
  parts: they find a source for every part to add, clone or fetch it, and commit the new
  parts to the working set and to the coordination service, through the fetcher, the
  database catalog and \<^verbatim>\<open>MergeTreeData\<close>; they read neither \<open>replace\<close> nor \<open>drop_range\<close> nor
  \<open>parts_to_remove\<close>.
\<close>

record replace_env =
  removePartProducingOpsInRange :: "MergeTreePartInfo \<Rightarrow> LogEntry \<Rightarrow> zk_state \<Rightarrow> exn option \<times> zk_state"
  removePartsInRangeFromWorkingSet :: "MergeTreePartInfo \<Rightarrow> storage \<Rightarrow> (exn + DataPart list) \<times> storage"
  obtain_and_commit_parts :: "PartDescription list \<Rightarrow> storage \<Rightarrow> zk_state \<Rightarrow> exn option \<times> storage \<times> zk_state"
  part_numChildren :: "zpath \<Rightarrow> nat"

text \<open>\<^verbatim>\<open>removePartFromZooKeeper(part_name, ops, has_children)\<close>: the requests it appends.\<close>

definition removePartFromZooKeeper :: "storage \<Rightarrow> string \<Rightarrow> bool \<Rightarrow> request list" where
  "removePartFromZooKeeper st part has_children =
     (let part_path = Sub (parts_path st) part in
      (if has_children
       then [RemoveRequest (Sub part_path ''checksums'') (-1), RemoveRequest (Sub part_path ''columns'') (-1)]
       else [])
      @ [RemoveRequest part_path (-1)])"

text \<open>One \<^verbatim>\<open>asyncTryMultiNoThrow\<close> after the other; the result lists their return codes.\<close>

fun multi_each :: "zk_state \<Rightarrow> request list list \<Rightarrow> zerror list \<times> zk_state" where
  "multi_each zk [] = ([], zk)"
| "multi_each zk (ops # rest) =
     (case tryMulti zk ops of
        (code, cs, zk1) \<Rightarrow> (case multi_each zk1 rest of (codes, zk2) \<Rightarrow> (code # codes, zk2)))"

text \<open>
  \<^verbatim>\<open>tryRemovePartsFromZooKeeperWithRetries\<close>. It asks for every part whether its node exists,
  removes the nodes that do, and throws on the first return code that is neither ZOK nor
  ZNONODE. The coordination client modelled here reports no hardware error, the only reason
  for another try, so the body of the loop runs once.
\<close>

definition tryRemovePartsFromZooKeeperWithRetries ::
  "(zpath \<Rightarrow> nat) \<Rightarrow> storage \<Rightarrow> zk_state \<Rightarrow> string list \<Rightarrow> (exn + bool) \<times> zk_state" where
  "tryRemovePartsFromZooKeeperWithRetries children st zk part_names =
     (case multi_each zk
             (map (\<lambda>part. removePartFromZooKeeper st part (0 < children (Sub (parts_path st) part)))
                (filter (\<lambda>part. zk_exists zk (Sub (parts_path st) part)) part_names)) of
        (codes, zk1) \<Rightarrow>
          (case find (\<lambda>code. code \<noteq> ZOK \<and> code \<noteq> ZNONODE) codes of
             Some code \<Rightarrow> (Inl (KeeperException code), zk1)
           | None \<Rightarrow> (Inr True, zk1)))"

text \<open>
  \<^verbatim>\<open>executeReplaceRange\<close>. \<open>entry_replace\<close> is what \<^verbatim>\<open>entry.replace_range_entry\<close> points to. The
  cancellation of merges in the local merge list has no effect on the state modelled here.
\<close>

definition executeReplaceRange_entry ::
  "decls \<Rightarrow> replace_env \<Rightarrow> LogEntry \<Rightarrow> ReplaceRangeEntry \<Rightarrow> storage \<Rightarrow> zk_state
     \<Rightarrow> (exn + bool) \<times> storage \<times> zk_state" where
  "executeReplaceRange_entry c env entry entry_replace st zk =
     (case fromPartName c (drop_range_part_name entry_replace) of
        Inl e \<Rightarrow> (Inl e, st, zk)
      | Inr parsed_drop_range \<Rightarrow>
          (let replace = \<not> isMovePartitionOrAttachFrom parsed_drop_range in
           case (if replace then removePartProducingOpsInRange env parsed_drop_range entry zk
                 else (None, zk)) of
             (Some e, zk1) \<Rightarrow> (Inl e, st, zk1)
           | (None, zk1) \<Rightarrow>
               (let drop_range = (if replace then parsed_drop_range else empty_part_info) in
                case part_descriptions c 0 (src_part_names entry_replace) (new_part_names entry_replace)
                       (part_names_checksums entry_replace) of
                  Inl e \<Rightarrow> (Inl e, st, zk1)
                | Inr all_parts \<Rightarrow>
                    (let parts_to_add =
                           filter (\<lambda>part_desc.
                                     getActiveContainingPart (desc_new_part_info part_desc) (data_parts st) = None)
                             all_parts
                     in if parts_to_add = [] then
                          (case (if replace then removePartsInRangeFromWorkingSet env drop_range st
                                 else (Inr [], st)) of
                             (Inl e, st1) \<Rightarrow> (Inl e, st1, zk1)
                           | (Inr parts_to_remove, st1) \<Rightarrow>
                               (case tryRemovePartsFromZooKeeperWithRetries (part_numChildren env) st1 zk1
                                       (map name parts_to_remove) of
                                  (Inl e, zk2) \<Rightarrow> (Inl e, st1, zk2)
                                | (Inr success, zk2) \<Rightarrow> (Inr True, st1, zk2)))
                        else
                          (case obtain_and_commit_parts env parts_to_add st zk1 of
                             (Some e, st1, zk2) \<Rightarrow> (Inl e, st1, zk2)
                           | (None, st1, zk2) \<Rightarrow>
                               (case (if replace then removePartsInRangeFromWorkingSet env drop_range st1
                                      else (Inr [], st1)) of
                                  (Inl e, st2) \<Rightarrow> (Inl e, st2, zk2)
                                | (Inr parts_to_remove, st2) \<Rightarrow>
                                    (case tryRemovePartsFromZooKeeperWithRetries (part_numChildren env) st2 zk2
                                            (map name parts_to_remove) of
                                       (Inl e, zk3) \<Rightarrow> (Inl e, st2, zk3)
                                     | (Inr success, zk3) \<Rightarrow> (Inr True, st2, zk3))))))))"

text \<open>
  Collaborators for concrete runs: the queue has nothing to drop, the working set loses the
  parts that the range covers, and every part to add is obtained and committed.
\<close>

definition demo_replace_env :: replace_env where
  "demo_replace_env =
     \<lparr> removePartProducingOpsInRange = (\<lambda>r e zk. (None, zk)),
       removePartsInRangeFromWorkingSet =
         (\<lambda>r st. (Inr (filter (\<lambda>p. contains r (info p)) (data_parts st)),
                  st\<lparr>data_parts := filter (\<lambda>p. \<not> contains r (info p)) (data_parts st)\<rparr>)),
       obtain_and_commit_parts =
         (\<lambda>descs st zk.
            (case foldl (\<lambda>(s, z) d. demo_add_part (demo_fetched_part (desc_new_part_name d)) s z) (st, zk) descs of
               (s, z) \<Rightarrow> (None, s, z))),
       part_numChildren = (\<lambda>p. 0) \<rparr>"

text \<open>A replica that holds part \<open>p_0_0_0\<close>, block 0 of partition \<open>p\<close>, registered under its parts path.\<close>

definition demo_storage_block0 :: storage where
  "demo_storage_block0 = demo_storage\<lparr>data_parts := [demo_fetched_part ''p_0_0_0'']\<rparr>"

definition demo_zk_block0 :: zk_state where
  "demo_zk_block0 =
     demo_zk(Sub (Sub (Sub (Sub ZRoot ''replicas'') ''r1'') ''parts'') ''p_0_0_0'' \<mapsto> fresh_node (Str []))"

text \<open>The entry of a REPLACE PARTITION whose drop range covers the blocks 0 to 3.\<close>

definition demo_replace_entry :: ReplaceRangeEntry where
  "demo_replace_entry =
     \<lparr> drop_range_part_name = ''p_0_3_999999999_999999999'', src_part_names = [''p_1_1_0''],
       new_part_names = [''p_5_5_0''], part_names_checksums = [''ABCD''] \<rparr>"

text \<open>Executors whose search for a valid local part throws.\<close>

definition demo_executors_broken_part :: executors where
  "demo_executors_broken_part =
     demo_executors\<lparr>attachPartHelperFoundValidPart := (\<lambda>e st. Inl CHECKSUM_DOESNT_MATCH)\<rparr>"

text \<open>A pass during which another replica completes the quorum and deletes the entry.\<close>

definition demo_finished_round :: quorum_round where
  "demo_finished_round =
     \<lparr> others_after_read = (\<lambda>z. z),
       others_before_write = (\<lambda>z. z(quorum_status_path ''p_1_1_0'' False := None)) \<rparr>"

section \<open>Properties\<close>

subsection \<open>Block numbers and frames\<close>

lemma zk_create_seq_Inr:
  "zk_create zk (Sub par prefix) d EphemeralSequential = (Inr q, zk') \<Longrightarrow>
     \<exists>pn. zk par = Some pn \<and> q = SubSeq par prefix (seq_num pn)
        \<and> zk' = zk(par \<mapsto> pn\<lparr>seq_num := Suc (seq_num pn)\<rparr>, q \<mapsto> fresh_node d)"
  by (auto simp: zk_create_def is_sequential_def Let_def split: option.splits if_splits)

lemma zk_create_seq_frame:
  "zk_create zk (Sub par prefix) d EphemeralSequential = (r, zk') \<Longrightarrow>
     p \<noteq> par \<Longrightarrow> (\<forall>n. p \<noteq> SubSeq par prefix n) \<Longrightarrow> zk' p = zk p"
  by (auto simp: zk_create_def is_sequential_def Let_def split: option.splits if_splits)

lemma EphemeralLock_number:
  assumes "EphemeralLockInZooKeeper (Sub (Sub (Sub ZRoot ''block_numbers'') pid) ''block-'') (Sub ZRoot ''temp'') zk [] = (Inr lock, zk')"
  shows "\<exists>pn. zk (Sub (Sub ZRoot ''block_numbers'') pid) = Some pn \<and> lock_number lock = seq_num pn
           \<and> zk' (Sub (Sub ZRoot ''block_numbers'') pid) = Some (pn\<lparr>seq_num := Suc (seq_num pn)\<rparr>)"
  using assms
  apply (simp add: EphemeralLockInZooKeeper_def Let_def split: prod.splits sum.splits)
  apply (auto dest!: zk_create_seq_Inr split: zpath.splits if_splits)
  done

lemma EphemeralLock_frame:
  assumes "EphemeralLockInZooKeeper (Sub (Sub block_numbers_path pid) ''block-'') (Sub ZRoot ''temp'') zk [] = (r, zk')"
    and "\<not> alloc_footprint pid p"
  shows "zk' p = zk p"
proof -
  obtain h zk1 where h: "zk_create zk (Sub (Sub ZRoot ''temp'') ''abandonable_lock-'') (Str []) EphemeralSequential = (h, zk1)"
    by (cases "zk_create zk (Sub (Sub ZRoot ''temp'') ''abandonable_lock-'') (Str []) EphemeralSequential") auto
  have p1: "p \<noteq> Sub ZRoot ''temp''" "\<forall>n. p \<noteq> SubSeq (Sub ZRoot ''temp'') ''abandonable_lock-'' n"
     "p \<noteq> Sub block_numbers_path pid" "\<forall>n. p \<noteq> SubSeq (Sub block_numbers_path pid) ''block-'' n"
    using assms(2) by (cases p; auto)+
  have f1: "zk1 p = zk p" using zk_create_seq_frame[OF h p1(1) p1(2)] .
  show ?thesis
  proof (cases h)
    case (Inl e)
    then show ?thesis using assms(1) h f1 by (simp add: EphemeralLockInZooKeeper_def)
  next
    case (Inr hp)
    obtain r2 zk2 where c2: "zk_create zk1 (Sub (Sub block_numbers_path pid) ''block-'') (PathData hp) EphemeralSequential = (r2, zk2)"
      by (cases "zk_create zk1 (Sub (Sub block_numbers_path pid) ''block-'') (PathData hp) EphemeralSequential") auto
    have f2: "zk2 p = zk1 p" using zk_create_seq_frame[OF c2 p1(3) p1(4)] .
    have "zk' = zk2" using assms(1) h Inr c2
      by (auto simp: EphemeralLockInZooKeeper_def split: sum.splits zpath.splits)
    then show ?thesis using f1 f2 by simp
  qed
qed

lemma allocateBlockNumber_number:
  assumes "allocateBlockNumber st zk pid None = (Inr (Some lock), st', zk')"
  shows "lock_number lock = next_block_number zk pid \<and> next_block_number zk' pid = Suc (next_block_number zk pid)"
  using assms
  apply (simp add: allocateBlockNumber_def Let_def existsNodeCached_def zk_exists_def split: prod.splits option.splits if_splits)
  apply (auto elim!: allocateBlockNumber_catch.elims dest!: EphemeralLock_number simp: next_block_number_def tryMulti_def KeeperMultiException_check_def block_numbers_path_def fresh_node_def version_matches_def is_sequential_def split: option.splits if_splits prod.splits zerror.splits)
  done

lemma apply_request_frame:
  "\<not> touches r p \<Longrightarrow> snd (snd (apply_request zk r)) p = zk p"
  by (cases r) (auto simp: Let_def split: option.splits zpath.splits if_splits)

lemma run_requests_frame:
  "\<forall>r \<in> set ops. \<not> touches r p \<Longrightarrow> snd (snd (run_requests zk ops)) p = zk p"
proof (induction ops arbitrary: zk)
  case Nil
  then show ?case by simp
next
  case (Cons r rs)
  obtain e c zk1 where a: "apply_request zk r = (e, c, zk1)" by (cases "apply_request zk r") auto
  have f: "zk1 p = zk p" using apply_request_frame[of r p zk] Cons.prems a by simp
  obtain e2 cs zk2 where b: "run_requests zk1 rs = (e2, cs, zk2)" by (cases "run_requests zk1 rs") auto
  have g: "zk2 p = zk1 p" using Cons.IH[of zk1] Cons.prems b by simp
  show ?case using a b f g by (cases e) simp_all
qed

lemma tryMulti_frame:
  "\<forall>r \<in> set ops. \<not> touches r p \<Longrightarrow> snd (snd (tryMulti zk ops)) p = zk p"
  using run_requests_frame[of ops p zk]
  by (cases "run_requests zk ops") (auto simp: tryMulti_def split: zerror.splits)

lemma alloc_footprint_neq:
  assumes "\<not> alloc_footprint pid p"
  shows "p \<noteq> block_numbers_path" "p \<noteq> Sub block_numbers_path pid"
  using assms by (cases p; simp add: block_numbers_path_def)+

lemma allocateBlockNumber_frame:
  assumes "allocateBlockNumber st zk pid None = (r, st', zk')" and "\<not> alloc_footprint pid p"
  shows "zk' p = zk p"
proof -
  note p1 = alloc_footprint_neq[OF assms(2)]
  define ops where "ops = [CreateRequest (Sub block_numbers_path pid) (Str []) Persistent,
                           SetRequest block_numbers_path (Str []) (-1)]"
  have m: "snd (snd (tryMulti zk ops)) p = zk p"
    by (rule tryMulti_frame) (use p1 in \<open>auto simp: ops_def is_sequential_def\<close>)
  obtain ex st1 where ex: "existsNodeCached st zk (Sub block_numbers_path pid) = (ex, st1)"
    by (cases "existsNodeCached st zk (Sub block_numbers_path pid)") auto
  obtain code cs zkm where tm: "tryMulti zk ops = (code, cs, zkm)"
    by (cases "tryMulti zk ops") auto
  have zkm: "zkm p = zk p" using m tm by simp
  define zk1 where "zk1 = (if ex then zk else zkm)"
  have z1: "zk1 p = zk p" using zkm by (simp add: zk1_def)
  obtain rl zk2 where el: "EphemeralLockInZooKeeper (Sub (Sub block_numbers_path pid) ''block-'') (Sub ZRoot ''temp'') zk1 [] = (rl, zk2)"
    by (cases "EphemeralLockInZooKeeper (Sub (Sub block_numbers_path pid) ''block-'') (Sub ZRoot ''temp'') zk1 []") auto
  have z2: "zk2 p = zk1 p" using EphemeralLock_frame[OF el assms(2)] .
  have "zk' p = zk1 p \<or> zk' p = zk2 p"
  proof (cases ex)
    case True
    then show ?thesis using assms(1) ex el
      by (auto simp add: allocateBlockNumber_def zk1_def Let_def)
  next
    case False
    then show ?thesis using assms(1) ex tm el
      by (auto simp add: allocateBlockNumber_def zk1_def ops_def Let_def split: if_splits option.splits)
  qed
  then show ?thesis using z1 z2 by auto
qed

lemma getFake_result:
  assumes "fst (getFakePartCoveringAllPartsInPartition c st zk pid part_info for_replace_range) = Inr (ret, i, lock)"
  shows "lock_number lock = next_block_number zk pid"
    and "ret \<longleftrightarrow> next_block_number zk pid \<noteq> 0"
    and "for_replace_range \<Longrightarrow> i = \<lparr> partition_id = pid, min_block = 0, max_block = int (next_block_number zk pid),
                      level = MAX_LEVEL c, mutation = MAX_BLOCK_NUMBER c \<rparr>"
    and "\<not> for_replace_range \<Longrightarrow> ret \<Longrightarrow> i = \<lparr> partition_id = pid, min_block = 0, max_block = int (next_block_number zk pid) - 1,
                      level = MAX_LEVEL c, mutation = MAX_BLOCK_NUMBER c \<rparr>"
    and "\<not> for_replace_range \<Longrightarrow> \<not> ret \<Longrightarrow> i = part_info"
proof -
  obtain r st1 zk1 where a: "allocateBlockNumber st zk pid None = (r, st1, zk1)"
    by (cases "allocateBlockNumber st zk pid None") auto
  from assms a obtain l where r: "r = Inr (Some l)"
    by (cases r; simp add: getFakePartCoveringAllPartsInPartition_def split: option.splits)
  have n: "lock_number l = next_block_number zk pid"
    using allocateBlockNumber_number a r by blast
  have l: "lock = l"
    using assms a r by (simp add: getFakePartCoveringAllPartsInPartition_def Let_def split: if_splits)
  show "lock_number lock = next_block_number zk pid" using n l by simp
  show "ret \<longleftrightarrow> next_block_number zk pid \<noteq> 0"
    using assms a r n by (auto simp add: getFakePartCoveringAllPartsInPartition_def Let_def split: if_splits)
  show "for_replace_range \<Longrightarrow> i = \<lparr> partition_id = pid, min_block = 0, max_block = int (next_block_number zk pid),
                      level = MAX_LEVEL c, mutation = MAX_BLOCK_NUMBER c \<rparr>"
    using assms a r n by (auto simp add: getFakePartCoveringAllPartsInPartition_def Let_def split: if_splits)
  show "\<not> for_replace_range \<Longrightarrow> ret \<Longrightarrow> i = \<lparr> partition_id = pid, min_block = 0, max_block = int (next_block_number zk pid) - 1,
                      level = MAX_LEVEL c, mutation = MAX_BLOCK_NUMBER c \<rparr>"
    using assms a r n by (auto simp add: getFakePartCoveringAllPartsInPartition_def Let_def split: if_splits)
  show "\<not> for_replace_range \<Longrightarrow> \<not> ret \<Longrightarrow> i = part_info"
    using assms a r n by (auto simp add: getFakePartCoveringAllPartsInPartition_def Let_def split: if_splits)
qed

lemma getFake_frame:
  assumes "getFakePartCoveringAllPartsInPartition c st zk pid part_info for_replace_range = (r, st', zk')"
    and "\<not> alloc_footprint pid p"
  shows "zk' p = zk p"
proof -
  obtain ra st1 zk1 where a: "allocateBlockNumber st zk pid None = (ra, st1, zk1)"
    by (cases "allocateBlockNumber st zk pid None") auto
  have "zk' = zk1" using assms(1) a
    by (simp add: getFakePartCoveringAllPartsInPartition_def Let_def split: sum.splits option.splits if_splits)
  then show ?thesis using allocateBlockNumber_frame[OF a assms(2)] by simp
qed

lemmas zk_eval_defs =
  replacePartitionFrom_drop_range_def getFakePartCoveringAllPartsInPartition_def
  allocateBlockNumber_def existsNodeCached_def zk_exists_def EphemeralLockInZooKeeper_def
  zk_create_def is_sequential_def fresh_node_def block_numbers_path_def blocks_path_def
  log_path_def alter_partition_version_path_def demo_zk_def demo_storage_def demo_decls_def
  Let_def

lemma log_not_in_alloc_footprint:
  "\<not> alloc_footprint pid log_path" "\<not> alloc_footprint pid (SubSeq log_path s k)"
  "\<not> alloc_footprint pid alter_partition_version_path"
  by (simp_all add: log_path_def block_numbers_path_def alter_partition_version_path_def)

lemma dropAll_empty_partition:
  assumes apv: "zk alter_partition_version_path \<noteq> None"
    and g: "fst (getFakePartCoveringAllPartsInPartition c st (others zk) pid empty_part_info False) = Inr (False, i, l)"
  shows "fst (dropAllPartsInPartition c st zk others blocks pid entry txn_ops detach_flag now) = Inr False"
    and "fst (snd (dropAllPartsInPartition c st zk others blocks pid entry txn_ops detach_flag now)) = entry"
    and "\<not> alloc_footprint pid p \<Longrightarrow>
         snd (snd (snd (dropAllPartsInPartition c st zk others blocks pid entry txn_ops detach_flag now))) p = others zk p"
proof -
  obtain n where n: "zk alter_partition_version_path = Some n" using apv by auto
  obtain st1 zk1 where f: "getFakePartCoveringAllPartsInPartition c st (others zk) pid empty_part_info False = (Inr (False, i, l), st1, zk1)"
    using g by (cases "getFakePartCoveringAllPartsInPartition c st (others zk) pid empty_part_info False") auto
  have d: "dropAllPartsInPartition c st zk others blocks pid entry txn_ops detach_flag now = (Inr False, entry, st1, zk1)"
    using n f by (simp add: dropAllPartsInPartition_def zk_get_def)
  show "fst (dropAllPartsInPartition c st zk others blocks pid entry txn_ops detach_flag now) = Inr False"
    using d by simp
  show "fst (snd (dropAllPartsInPartition c st zk others blocks pid entry txn_ops detach_flag now)) = entry"
    using d by simp
  show "snd (snd (snd (dropAllPartsInPartition c st zk others blocks pid entry txn_ops detach_flag now))) p = others zk p"
    if "\<not> alloc_footprint pid p"
    using d getFake_frame[OF f that] by simp
qed

lemmas zk_eval_defs2 = zk_eval_defs tryMulti_def version_matches_def KeeperMultiException_check_def
  demo_lock_def demo_range_def empty_part_info_def

subsection \<open>Source parts are checked before a merge or mutation is logged\<close>

lemma parts_path_enqueue [simp]: "parts_path (enqueuePartForCheck st x) = parts_path st"
  by (simp add: parts_path_def replica_path_def enqueuePartForCheck_def)

lemma enqueue_append:
  "enqueuePartForCheck (st\<lparr>parts_to_check := parts_to_check st @ xs\<rparr>) x
     = st\<lparr>parts_to_check := parts_to_check st @ (xs @ [x])\<rparr>"
  by (simp add: enqueuePartForCheck_def)

lemma parts_path_upd [simp]: "parts_path (st\<lparr>parts_to_check := xs\<rparr>) = parts_path st"
  by (simp add: parts_path_def replica_path_def)

lemma check_parts_in_zk_eq:
  "check_parts_in_zk c zk now parts (b, st\<lparr>parts_to_check := parts_to_check st @ xs\<rparr>) =
     (b \<and> (\<forall>p \<in> set parts. \<not> absent_in_zk st zk p),
      st\<lparr>parts_to_check := parts_to_check st @ xs
            @ map name (filter (\<lambda>p. absent_in_zk st zk p \<and> stale c now p) parts)\<rparr>)"
proof (induction parts arbitrary: b xs)
  case Nil
  then show ?case by simp
next
  case (Cons part parts)
  show ?case
  proof (cases "absent_in_zk st zk part")
    case True
    show ?thesis
    proof (cases "stale c now part")
      case s: True
      show ?thesis
        using True s Cons.IH[of False "xs @ [name part]"]
        by (simp add: absent_in_zk_def stale_def enqueue_append)
    next
      case s: False
      show ?thesis
        using True s Cons.IH[of False xs]
        by (simp add: absent_in_zk_def stale_def)
    qed
  next
    case False
    then show ?thesis using Cons.IH[of b xs] by (simp add: absent_in_zk_def)
  qed
qed

lemma check_parts_in_zk_start:
  "check_parts_in_zk c zk now parts (True, st) =
     ((\<forall>p \<in> set parts. \<not> absent_in_zk st zk p),
      st\<lparr>parts_to_check := parts_to_check st
            @ map name (filter (\<lambda>p. absent_in_zk st zk p \<and> stale c now p) parts)\<rparr>)"
  using check_parts_in_zk_eq[of c zk now parts True st "[]"] by simp

text \<open>
  C5. Before a MERGE_PARTS or MUTATE_PART entry is appended, every source part is looked up
  under this replica's parts path in the coordination service. If any source part has no
  node there, the result is \<open>MissingPart\<close>, the coordination service is left as it was (no
  log entry is appended), and exactly the absent parts that are older than the threshold
  are enqueued for a check; so a result \<open>Ok\<close> means that every source part had its node.
\<close>

theorem source_parts_verified_before_log_entry:
  "((\<exists>p \<in> set parts. absent_in_zk st zk p) \<longrightarrow>
      createLogEntryToMergeParts c st zk parts merged_name uuid ptype dedup dedup_cols log_version mtype now =
        (Inr (MissingPart, None),
         st\<lparr>parts_to_check := parts_to_check st
               @ map name (filter (\<lambda>p. absent_in_zk st zk p \<and> stale c now p) parts)\<rparr>,
         zk))
   \<and> (fst (createLogEntryToMergeParts c st2 zk2 parts2 merged_name uuid ptype dedup dedup_cols log_version mtype now)
         = Inr (Ok, e) \<longrightarrow> (\<forall>p \<in> set parts2. zk_exists zk2 (Sub (parts_path st2) (name p))))
   \<and> (absent_in_zk st zk part \<longrightarrow>
        createLogEntryToMutatePart c st zk part uuid mutation_version alter_version_arg log_version now =
          (Inr MissingPart, (if stale c now part then enqueuePartForCheck st (name part) else st), zk))
   \<and> (fst (createLogEntryToMutatePart c st2 zk2 part2 uuid mutation_version alter_version_arg log_version now)
         = Inr Ok \<longrightarrow> zk_exists zk2 (Sub (parts_path st2) (name part2)))"
proof (intro conjI impI)
  assume "\<exists>p \<in> set parts. absent_in_zk st zk p"
  then show "createLogEntryToMergeParts c st zk parts merged_name uuid ptype dedup dedup_cols log_version mtype now =
        (Inr (MissingPart, None),
         st\<lparr>parts_to_check := parts_to_check st
               @ map name (filter (\<lambda>p. absent_in_zk st zk p \<and> stale c now p) parts)\<rparr>,
         zk)"
    by (simp add: createLogEntryToMergeParts_def check_parts_in_zk_start)
next
  assume h: "fst (createLogEntryToMergeParts c st2 zk2 parts2 merged_name uuid ptype dedup dedup_cols log_version mtype now)
         = Inr (Ok, e)"
  have "\<forall>p \<in> set parts2. \<not> absent_in_zk st2 zk2 p"
  proof (rule ccontr)
    assume "\<not> (\<forall>p \<in> set parts2. \<not> absent_in_zk st2 zk2 p)"
    then have "fst (createLogEntryToMergeParts c st2 zk2 parts2 merged_name uuid ptype dedup dedup_cols log_version mtype now)
                 = Inr (MissingPart, None)"
      by (simp add: createLogEntryToMergeParts_def check_parts_in_zk_start)
    with h show False by simp
  qed
  then show "\<forall>p \<in> set parts2. zk_exists zk2 (Sub (parts_path st2) (name p))"
    by (simp add: absent_in_zk_def)
next
  assume "absent_in_zk st zk part"
  then show "createLogEntryToMutatePart c st zk part uuid mutation_version alter_version_arg log_version now =
          (Inr MissingPart, (if stale c now part then enqueuePartForCheck st (name part) else st), zk)"
    by (simp add: createLogEntryToMutatePart_def absent_in_zk_def stale_def)
next
  assume h: "fst (createLogEntryToMutatePart c st2 zk2 part2 uuid mutation_version alter_version_arg log_version now)
         = Inr Ok"
  show "zk_exists zk2 (Sub (parts_path st2) (name part2))"
  proof (rule ccontr)
    assume "\<not> zk_exists zk2 (Sub (parts_path st2) (name part2))"
    then have "fst (createLogEntryToMutatePart c st2 zk2 part2 uuid mutation_version alter_version_arg log_version now)
                 = Inr MissingPart"
      by (simp add: createLogEntryToMutatePart_def)
    with h show False by simp
  qed
qed

lemmas merge_eval_defs =
  createLogEntryToMergeParts_def createLogEntryToMutatePart_def absent_in_zk_def stale_def
  parts_path_def replica_path_def enqueuePartForCheck_def demo_old_part_def demo_new_part_def
  demo_zk_parts_def demo_merge_entry_def empty_LogEntry_def zk_eval_defs2

theorem source_parts_verified_before_log_entry_witness:
  "(\<exists>p \<in> set [demo_old_part, demo_new_part]. absent_in_zk demo_storage demo_zk p)
   \<and> fst (createLogEntryToMergeParts demo_decls demo_storage demo_zk_parts [demo_old_part, demo_new_part]
            ''p_1_2_1'' 0 ''Wide'' False [] 7 0 1000) = Inr (Ok, Some demo_merge_entry)
   \<and> absent_in_zk demo_storage demo_zk demo_old_part
   \<and> fst (createLogEntryToMutatePart demo_decls demo_storage demo_zk_parts demo_old_part 0 4 (-1) 7 1000) = Inr Ok
   \<and> createLogEntryToMergeParts demo_decls demo_storage demo_zk [demo_old_part, demo_new_part]
            ''p_1_2_1'' 0 ''Wide'' False [] 7 0 1000
        = (Inr (MissingPart, None), demo_storage\<lparr>parts_to_check := [''p_1_1_0'']\<rparr>, demo_zk)
   \<and> createLogEntryToMutatePart demo_decls demo_storage demo_zk demo_old_part 0 4 (-1) 7 1000
        = (Inr MissingPart, demo_storage\<lparr>parts_to_check := [''p_1_1_0'']\<rparr>, demo_zk)
   \<and> zk_exists demo_zk_parts (Sub (parts_path demo_storage) ''p_1_1_0'')
   \<and> zk_exists demo_zk_parts (Sub (parts_path demo_storage) ''p_2_2_0'')"
proof -
  have h1: "\<exists>p \<in> set [demo_old_part, demo_new_part]. absent_in_zk demo_storage demo_zk p"
    by (auto simp add: merge_eval_defs)
  have h2: "fst (createLogEntryToMergeParts demo_decls demo_storage demo_zk_parts [demo_old_part, demo_new_part]
            ''p_1_2_1'' 0 ''Wide'' False [] 7 0 1000) = Inr (Ok, Some demo_merge_entry)"
    by (simp add: merge_eval_defs)
  have h3: "absent_in_zk demo_storage demo_zk demo_old_part"
    by (simp add: merge_eval_defs)
  have h4: "fst (createLogEntryToMutatePart demo_decls demo_storage demo_zk_parts demo_old_part 0 4 (-1) 7 1000) = Inr Ok"
    by (simp add: merge_eval_defs)
  have f: "map name (filter (\<lambda>p. absent_in_zk demo_storage demo_zk p \<and> stale demo_decls 1000 p)
                      [demo_old_part, demo_new_part]) = [''p_1_1_0'']"
    by (simp add: merge_eval_defs)
  have s: "stale demo_decls 1000 demo_old_part"
    by (simp add: merge_eval_defs)
  have n: "name demo_old_part = ''p_1_1_0''" "name demo_new_part = ''p_2_2_0''"
    "parts_to_check demo_storage = []"
    by (simp_all add: demo_old_part_def demo_new_part_def demo_storage_def)
  show ?thesis
    using h1 h2 h3 h4 f s n
      source_parts_verified_before_log_entry
        [of "[demo_old_part, demo_new_part]" demo_storage demo_zk demo_decls "''p_1_2_1''" 0 "''Wide''" False "[]" 7 0 1000
            demo_storage demo_zk_parts "[demo_old_part, demo_new_part]" "Some demo_merge_entry"
            demo_old_part 4 "-1" demo_old_part]
    by (simp add: enqueuePartForCheck_def)
qed

subsection \<open>Version conflicts\<close>

lemma clear_block_op_requests:
  "r \<in> set (clear_block_op c zk a b path) \<Longrightarrow> r = RemoveRequest path (-1)"
  by (auto simp: clear_block_op_def tryGet_def split: option.splits if_splits)

lemma getClearBlocksInPartitionOps_requests:
  assumes "getClearBlocksInPartitionOps c zk blocks pid a b = Inr reqs" and "r \<in> set reqs"
  shows "\<exists>block_id. r = RemoveRequest (Sub blocks_path block_id) (-1)"
  using assms
  by (auto simp: getClearBlocksInPartitionOps_def Let_def split: if_splits dest!: clear_block_op_requests)

lemma clearBlocksInPartition_frame:
  assumes "clearBlocksInPartition c zk blocks pid a b = (r, zk')"
    and "\<forall>block_id. p \<noteq> Sub blocks_path block_id"
  shows "zk' p = zk p"
proof (cases "getClearBlocksInPartitionOps c zk blocks pid a b")
  case (Inl e)
  then show ?thesis using assms(1) by (simp add: clearBlocksInPartition_def)
next
  case (Inr reqs)
  have "\<forall>r \<in> set reqs. \<not> touches r p"
    using getClearBlocksInPartitionOps_requests[OF Inr] assms(2) by fastforce
  then have "snd (snd (tryMulti zk reqs)) p = zk p" by (rule tryMulti_frame)
  then show ?thesis using assms(1) Inr
    by (auto simp: clearBlocksInPartition_def split: prod.splits)
qed

lemma clearBlocksInPartition_ok:
  "zk blocks_path \<noteq> None \<Longrightarrow> fst (clearBlocksInPartition c zk blocks pid a b) = Inr ()"
  by (simp add: clearBlocksInPartition_def getClearBlocksInPartitionOps_def zk_exists_def Let_def
        split: prod.splits)

lemma tryMulti_log_conflict:
  assumes "zk log_path = Some n" and "zk (SubSeq log_path ''log-'' (seq_num n)) = None"
    and "v \<noteq> -1" and "v \<noteq> version n"
  shows "tryMulti zk [CreateRequest (Sub log_path ''log-'') d PersistentSequential,
                      SetRequest log_path d2 v]
           = (ZBADVERSION, [Some (SubSeq log_path ''log-'' (seq_num n))], zk)"
  using assms
  by (simp add: tryMulti_def is_sequential_def version_matches_def Let_def)

lemma tryMulti_alter_conflict:
  assumes "zk log_path = Some n" and "zk (SubSeq log_path ''log-'' (seq_num n)) = None"
    and "zk alter_partition_version_path = Some a" and "v \<noteq> -1" and "v \<noteq> version a"
  shows "tryMulti zk (CreateRequest (Sub log_path ''log-'') d PersistentSequential
                      # SetRequest alter_partition_version_path d2 v # rest)
           = (ZBADVERSION, [Some (SubSeq log_path ''log-'' (seq_num n))], zk)"
  using assms
  by (simp add: tryMulti_def is_sequential_def version_matches_def Let_def
        log_path_def alter_partition_version_path_def)

lemma blocks_not_in_alloc_footprint:
  "\<not> alloc_footprint pid blocks_path"
  by (simp add: blocks_path_def block_numbers_path_def)

lemma dropAll_conflict:
  assumes apv: "zk alter_partition_version_path = Some a" "version a \<noteq> -1"
    and apv': "others zk alter_partition_version_path = Some a'" "version a' \<noteq> version a"
    and g: "fst (getFakePartCoveringAllPartsInPartition c st (others zk) pid empty_part_info False) = Inr (True, i, l)"
    and b: "others zk blocks_path \<noteq> None"
    and lg: "others zk log_path = Some n" "others zk (SubSeq log_path ''log-'' (seq_num n)) = None"
  shows "fst (dropAllPartsInPartition c st zk others blocks pid entry txn_ops detach_flag now) = Inl CANNOT_ASSIGN_ALTER"
    and "snd (snd (snd (dropAllPartsInPartition c st zk others blocks pid entry txn_ops detach_flag now))) log_path
           = others zk log_path"
    and "snd (snd (snd (dropAllPartsInPartition c st zk others blocks pid entry txn_ops detach_flag now)))
           (SubSeq log_path ''log-'' (seq_num n)) = None"
proof -
  obtain st1 zk1 where f: "getFakePartCoveringAllPartsInPartition c st (others zk) pid empty_part_info False = (Inr (True, i, l), st1, zk1)"
    using g by (cases "getFakePartCoveringAllPartsInPartition c st (others zk) pid empty_part_info False") auto
  have z1: "zk1 log_path = Some n" "zk1 (SubSeq log_path ''log-'' (seq_num n)) = None"
    "zk1 alter_partition_version_path = Some a'" "zk1 blocks_path \<noteq> None"
    using getFake_frame[OF f log_not_in_alloc_footprint(1)]
      getFake_frame[OF f log_not_in_alloc_footprint(2)]
      getFake_frame[OF f log_not_in_alloc_footprint(3)]
      getFake_frame[OF f blocks_not_in_alloc_footprint] lg apv' b by simp_all
  obtain r2 zk2 where cb: "clearBlocksInPartition c zk1 blocks pid (min_block i) (max_block i) = (r2, zk2)"
    by (cases "clearBlocksInPartition c zk1 blocks pid (min_block i) (max_block i)") auto
  have r2: "r2 = Inr ()" using clearBlocksInPartition_ok[where zk=zk1 and c=c and blocks=blocks and pid=pid and a="min_block i" and b="max_block i"] z1(4) cb by simp
  have z2: "zk2 log_path = Some n" "zk2 (SubSeq log_path ''log-'' (seq_num n)) = None"
    "zk2 alter_partition_version_path = Some a'"
    using clearBlocksInPartition_frame[OF cb, of log_path]
      clearBlocksInPartition_frame[OF cb, of "SubSeq log_path ''log-'' (seq_num n)"]
      clearBlocksInPartition_frame[OF cb, of alter_partition_version_path] z1
    by (simp_all add: log_path_def blocks_path_def alter_partition_version_path_def)
  have v: "version a \<noteq> version a'" using apv'(2) by simp
  note tm = tryMulti_alter_conflict[OF z2(1) z2(2) z2(3) apv(2) v]
  have d: "\<exists>e1. dropAllPartsInPartition c st zk others blocks pid entry txn_ops detach_flag now
             = (Inl CANNOT_ASSIGN_ALTER, e1, st1, zk2)"
    using apv(1) f cb r2 tm
    by (simp add: dropAllPartsInPartition_def zk_get_def Let_def)
  show "fst (dropAllPartsInPartition c st zk others blocks pid entry txn_ops detach_flag now) = Inl CANNOT_ASSIGN_ALTER"
    using d by auto
  show "snd (snd (snd (dropAllPartsInPartition c st zk others blocks pid entry txn_ops detach_flag now))) log_path
           = others zk log_path"
    using d z2(1) lg(1) by auto
  show "snd (snd (snd (dropAllPartsInPartition c st zk others blocks pid entry txn_ops detach_flag now)))
           (SubSeq log_path ''log-'' (seq_num n)) = None"
    using d z2(2) by auto
qed

lemma demo_bump_facts:
  "demo_zk alter_partition_version_path = Some \<lparr> data = Str [], version = 2, seq_num = 0 \<rparr>"
  "demo_bump_alter_partition_version demo_zk alter_partition_version_path
     = Some \<lparr> data = Str [], version = 3, seq_num = 0 \<rparr>"
  "demo_bump_alter_partition_version demo_zk blocks_path \<noteq> None"
  "demo_bump_alter_partition_version demo_zk log_path = Some \<lparr> data = Str [], version = 7, seq_num = 5 \<rparr>"
  "demo_bump_alter_partition_version demo_zk (SubSeq log_path ''log-'' 5) = None"
  "fst (getFakePartCoveringAllPartsInPartition demo_decls demo_storage
          (demo_bump_alter_partition_version demo_zk) ''p'' empty_part_info False)
     = Inr (True, demo_range 2, demo_lock ''p'' 3 0)"
  by (simp_all add: demo_bump_alter_partition_version_def zk_eval_defs2)

subsection \<open>A lost replica is repaired before it is trusted\<close>

lemma removeChildren_is_lost:
  "removeChildren zk (Sub (replica_path st) ''queue'') (is_lost_path st) = zk (is_lost_path st)"
  by (simp add: removeChildren_def is_lost_path_def)

text \<open>
  C3. For a replica whose \<^verbatim>\<open>is_lost\<close> flag is set, \<^verbatim>\<open>cloneReplicaIfNeeded\<close> returns without an
  exception exactly when a source replica was found and \<^verbatim>\<open>cloneReplica\<close>, run after the queue
  was cleared, did not throw; only then is the flag set to "0". In every other case an
  exception reaches the caller and the flag's node is exactly as it was, so the repair
  starts again on the next attempt. \<^verbatim>\<open>cloneReplica\<close> stands for any behaviour that leaves
  the replica's own \<^verbatim>\<open>is_lost\<close> node alone, as the source's \<^verbatim>\<open>cloneReplica\<close> does.
\<close>

theorem is_lost_cleared_only_after_clone:
  assumes frame: "\<forall>src stat s z. snd (snd (cloneReplica src stat s z)) (is_lost_path st) = z (is_lost_path st)"
    and lost: "zk (is_lost_path st) = Some n" "data n \<noteq> Str ''0''"
  shows "(fst (cloneReplicaIfNeeded env cloneReplica st zk) = None
            \<longleftrightarrow> fst (chosen_source env st zk) \<noteq> []
                \<and> fst (cloneReplica (fst (chosen_source env st zk)) (snd (chosen_source env st zk)) st
                          (removeChildren zk (Sub (replica_path st) ''queue''))) = None)
         \<and> snd (snd (cloneReplicaIfNeeded env cloneReplica st zk)) (is_lost_path st)
             = (if fst (cloneReplicaIfNeeded env cloneReplica st zk) = None
                then Some (n\<lparr>data := Str ''0'', version := version n + 1\<rparr>)
                else Some n)"
proof -
  obtain src stat lag where cs: "choose_source env st zk
             (((if log_entries env = [] then 0 else Max (set (log_entries env))) + 1) mod 2 ^ 64)
             (replicas_listing env) ([], None, 2 ^ 64 - 1) = (src, stat, lag)"
    by (metis prod_cases3)
  have ch: "chosen_source env st zk = (src, stat)" using cs by (simp add: chosen_source_def)
  define zk1 where "zk1 = removeChildren zk (Sub (replica_path st) ''queue'')"
  obtain r st2 zk2 where cr: "cloneReplica src stat st zk1 = (r, st2, zk2)"
    by (metis prod_cases3)
  have z1: "zk1 (is_lost_path st) = Some n" using lost(1) by (simp add: zk1_def removeChildren_is_lost)
  have z2: "zk2 (is_lost_path st) = Some n" using frame cr z1 by (metis snd_conv)
  show ?thesis
  proof (cases "src = []")
    case True
    then show ?thesis using lost cs ch
      by (simp add: cloneReplicaIfNeeded_def tryGet_def Let_def)
  next
    case False
    show ?thesis
    proof (cases r)
      case None
      have "cloneReplicaIfNeeded env cloneReplica st zk =
              (None, st2, zk2(is_lost_path st \<mapsto> n\<lparr>data := Str ''0'', version := version n + 1\<rparr>))"
        using lost cs False cr None z2
        by (simp add: cloneReplicaIfNeeded_def tryGet_def Let_def zk1_def[symmetric] zk_set_def trySet_def
              version_matches_def)
      then show ?thesis using ch False cr None by (simp add: zk1_def[symmetric])
    next
      case (Some e)
      have "cloneReplicaIfNeeded env cloneReplica st zk = (Some e, st2, zk2)"
        using lost cs False cr Some
        by (simp add: cloneReplicaIfNeeded_def tryGet_def Let_def zk1_def[symmetric])
      then show ?thesis using ch False cr Some z2 by (simp add: zk1_def[symmetric])
    qed
  qed
qed

lemmas clone_eval_defs =
  chosen_source_def source_candidate_def demo_clone_env_def demo_zk_lost_def demo_cloneReplica_def
  demo_cloneReplica_failing_def is_lost_path_def replica_path_def demo_storage_def tryGet_def
  fresh_node_def removeChildren_def Let_def

theorem is_lost_cleared_only_after_clone_witness:
  "(\<forall>src stat s z. snd (snd (demo_cloneReplica src stat s z)) (is_lost_path demo_storage)
       = z (is_lost_path demo_storage))
   \<and> (\<forall>src stat s z. snd (snd (demo_cloneReplica_failing src stat s z)) (is_lost_path demo_storage)
       = z (is_lost_path demo_storage))
   \<and> demo_zk_lost (is_lost_path demo_storage) = Some \<lparr> data = Str ''1'', version = 1, seq_num = 0 \<rparr>
   \<and> data \<lparr> data = Str ''1'', version = 1, seq_num = 0 \<rparr> \<noteq> Str ''0''
   \<and> chosen_source demo_clone_env demo_storage demo_zk_lost = (''r2'', Some (fresh_node (Str ''0'')))
   \<and> fst (cloneReplicaIfNeeded demo_clone_env demo_cloneReplica demo_storage demo_zk_lost) = None
   \<and> snd (snd (cloneReplicaIfNeeded demo_clone_env demo_cloneReplica demo_storage demo_zk_lost))
        (is_lost_path demo_storage) = Some \<lparr> data = Str ''0'', version = 2, seq_num = 0 \<rparr>
   \<and> fst (cloneReplicaIfNeeded demo_clone_env demo_cloneReplica_failing demo_storage demo_zk_lost) \<noteq> None
   \<and> snd (snd (cloneReplicaIfNeeded demo_clone_env demo_cloneReplica_failing demo_storage demo_zk_lost))
        (is_lost_path demo_storage) = Some \<lparr> data = Str ''1'', version = 1, seq_num = 0 \<rparr>"
proof -
  have f1: "\<forall>src stat s z. snd (snd (demo_cloneReplica src stat s z)) (is_lost_path demo_storage)
       = z (is_lost_path demo_storage)"
    by (simp add: clone_eval_defs)
  have f2: "\<forall>src stat s z. snd (snd (demo_cloneReplica_failing src stat s z)) (is_lost_path demo_storage)
       = z (is_lost_path demo_storage)"
    by (simp add: clone_eval_defs)
  have l1: "demo_zk_lost (is_lost_path demo_storage) = Some \<lparr> data = Str ''1'', version = 1, seq_num = 0 \<rparr>"
    by (simp add: clone_eval_defs)
  have l2: "data \<lparr> data = Str ''1'', version = 1, seq_num = 0 \<rparr> \<noteq> Str ''0''"
    by simp
  have c: "chosen_source demo_clone_env demo_storage demo_zk_lost = (''r2'', Some (fresh_node (Str ''0'')))"
    by (simp add: clone_eval_defs)
  have s1: "fst (demo_cloneReplica ''r2'' stat s z) = None" for stat s z
    by (simp add: demo_cloneReplica_def)
  have s2: "fst (demo_cloneReplica_failing src stat s z) \<noteq> None" for src stat s z
    by (simp add: demo_cloneReplica_failing_def)
  show ?thesis
    using f1 f2 l1 l2 c s1 s2
      is_lost_cleared_only_after_clone
        [where cloneReplica=demo_cloneReplica and st=demo_storage and zk=demo_zk_lost
           and n="\<lparr> data = Str ''1'', version = 1, seq_num = 0 \<rparr>" and env=demo_clone_env]
      is_lost_cleared_only_after_clone
        [where cloneReplica=demo_cloneReplica_failing and st=demo_storage and zk=demo_zk_lost
           and n="\<lparr> data = Str ''1'', version = 1, seq_num = 0 \<rparr>" and env=demo_clone_env]
    by simp
qed

subsection \<open>Already-present parts and failed quorums\<close>

text \<open>
  C1, as amended. For every GET_PART, ATTACH_PART, MERGE_PARTS or MUTATE_PART entry, if the
  replica already holds the entry's new part (as a pre-committed part or through an active
  covering part) and that part is registered under the replica's parts path in the
  coordination service, \<^verbatim>\<open>executeLogEntry\<close> returns success and changes neither the
  replica's part set nor the coordination service; executing the entry again gives the
  same result and the same state.
\<close>

theorem replay_of_registered_part_is_noop:
  "produces_part entry
   \<and> existing_part c st (new_part_name entry) = Inr (Some p)
   \<and> zk_exists zk (Sub (parts_path st) (name p))
   \<longrightarrow> executeLogEntry c ex st zk entry = (Inr True, st, zk)
       \<and> executeLogEntry c ex (fst (snd (executeLogEntry c ex st zk entry)))
            (snd (snd (executeLogEntry c ex st zk entry))) entry
          = executeLogEntry c ex st zk entry"
proof (intro impI)
  assume h: "produces_part entry
   \<and> existing_part c st (new_part_name entry) = Inr (Some p)
   \<and> zk_exists zk (Sub (parts_path st) (name p))"
  then have e: "executeLogEntry c ex st zk entry = (Inr True, st, zk)"
    by (auto simp: executeLogEntry_def produces_part_def Let_def)
  then show "executeLogEntry c ex st zk entry = (Inr True, st, zk)
       \<and> executeLogEntry c ex (fst (snd (executeLogEntry c ex st zk entry)))
            (snd (snd (executeLogEntry c ex st zk entry))) entry
          = executeLogEntry c ex st zk entry"
    by simp
qed

lemmas entry_eval_defs =
  executeLogEntry_def executeLogEntry_rest_def existing_part_def getPartIfExists_def
  getActiveContainingPart_def contains_def fromPartName_def produces_part_def failed_parts_path_def
  demo_fetched_part_def demo_add_part_def demo_executors_def demo_storage_merged_def demo_entry_def
  demo_zk_failed_quorum_def parts_path_def replica_path_def empty_LogEntry_def empty_part_info_def
  demo_zk_parts_def demo_zk_def demo_storage_def demo_decls_def zk_exists_def fresh_node_def
  block_numbers_path_def blocks_path_def log_path_def alter_partition_version_path_def Let_def

theorem replay_of_registered_part_is_noop_witness:
  "produces_part (demo_entry MERGE_PARTS ''p_1_2_1'' 0)
   \<and> existing_part demo_decls demo_storage_merged ''p_1_2_1'' = Inr (Some (demo_fetched_part ''p_1_2_1''))
   \<and> zk_exists (demo_zk(Sub (parts_path demo_storage_merged) ''p_1_2_1'' \<mapsto> fresh_node (Str [])))
        (Sub (parts_path demo_storage_merged) (name (demo_fetched_part ''p_1_2_1'')))
   \<and> executeLogEntry demo_decls demo_executors demo_storage_merged
        (demo_zk(Sub (parts_path demo_storage_merged) ''p_1_2_1'' \<mapsto> fresh_node (Str [])))
        (demo_entry MERGE_PARTS ''p_1_2_1'' 0)
      = (Inr True, demo_storage_merged,
         demo_zk(Sub (parts_path demo_storage_merged) ''p_1_2_1'' \<mapsto> fresh_node (Str [])))"
proof -
  have h1: "produces_part (demo_entry MERGE_PARTS ''p_1_2_1'' 0)"
    by (simp add: produces_part_def demo_entry_def)
  have h2: "existing_part demo_decls demo_storage_merged ''p_1_2_1'' = Inr (Some (demo_fetched_part ''p_1_2_1''))"
    by (simp add: entry_eval_defs)
  have h3: "zk_exists (demo_zk(Sub (parts_path demo_storage_merged) ''p_1_2_1'' \<mapsto> fresh_node (Str [])))
        (Sub (parts_path demo_storage_merged) (name (demo_fetched_part ''p_1_2_1'')))"
    by (simp add: zk_exists_def demo_fetched_part_def)
  have n: "new_part_name (demo_entry MERGE_PARTS ''p_1_2_1'' 0) = ''p_1_2_1''"
    by (simp add: demo_entry_def)
  show ?thesis
    using h1 h2 h3 n
      replay_of_registered_part_is_noop
        [where entry="demo_entry MERGE_PARTS ''p_1_2_1'' 0" and c=demo_decls and st=demo_storage_merged
           and p="demo_fetched_part ''p_1_2_1''" and ex=demo_executors
           and zk="demo_zk(Sub (parts_path demo_storage_merged) ''p_1_2_1'' \<mapsto> fresh_node (Str []))"]
    by simp
qed

text \<open>
  The claim as stated asks only that the replica holds the part. Here the replica holds
  \<open>p_1_2_1\<close> as an active part, but the part has no node under the replica's parts path: the
  MERGE_PARTS entry for it is not skipped, and \<^verbatim>\<open>executeLogEntry\<close> throws instead of returning
  success.
\<close>

theorem local_part_without_node_not_skipped_counterexample:
  "produces_part (demo_entry MERGE_PARTS ''p_1_2_1'' 0)
   \<and> existing_part demo_decls demo_storage_merged ''p_1_2_1'' = Inr (Some (demo_fetched_part ''p_1_2_1''))
   \<and> executeLogEntry demo_decls demo_executors demo_storage_merged demo_zk (demo_entry MERGE_PARTS ''p_1_2_1'' 0)
        = (Inl LOGICAL_ERROR, demo_storage_merged, demo_zk)"
  by (simp add: entry_eval_defs)

subsection \<open>Checksums are compared at commit\<close>

lemma check_replica_mismatch:
  assumes "zk (replica_part_path replica pn) = Some node"
    and "read_part_header fz zk (replica_part_path replica pn) node = Inr (Some h)"
    and "getColumnsHash h \<noteq> getColumnsHash (local_part_header part)
         \<or> getChecksums h \<noteq> getChecksums (local_part_header part)"
  shows "check_replica fz st zk part pn replica absent added = Throw CHECKSUM_DOESNT_MATCH"
  using assms by (auto simp: check_replica_def tryGet_def checkEqual_def Let_def)

lemma check_replica_absent:
  assumes "zk (replica_part_path replica pn) = None"
  shows "\<exists>absent1. check_replica fz st zk part pn replica absent added = Continue absent1 added"
  using assms by (simp add: check_replica_def tryGet_def Let_def)

lemma check_replicas_first_recorded:
  assumes "\<forall>x \<in> set skipped. zk (replica_part_path x pn) = None"
    and "\<And>absent. check_replica fz st zk part pn replica absent added = Throw e"
  shows "check_replicas fz st zk part pn (skipped @ replica # rest) absent added = Inl e"
  using assms(1)
proof (induction skipped arbitrary: absent)
  case Nil
  then show ?case using assms(2) by simp
next
  case (Cons x xs)
  then obtain absent1 where "check_replica fz st zk part pn x absent added = Continue absent1 added"
    using check_replica_absent[of zk x pn fz st part absent added] by auto
  then show ?case using Cons by simp
qed

text \<open>
  C7, as amended. The replicas are visited in the order the shuffle leaves them. If the
  first replica that has a node for the part has recorded a header whose columns hash or
  checksums differ from the local part's, \<^verbatim>\<open>checkPartChecksumsAndAddCommitOps\<close> throws
  \<^verbatim>\<open>CHECKSUM_DOESNT_MATCH\<close>, and \<^verbatim>\<open>checkPartChecksumsAndCommit\<close> passes the exception to its
  caller from its first pass, with the replica and the coordination service as they were:
  the mismatch is not retried.
\<close>

theorem checksum_mismatch_is_raised_not_retried:
  "shuffled_replicas round = skipped @ replica # rest
   \<and> (\<forall>x \<in> set skipped. zk (replica_part_path x (commit_name part)) = None)
   \<and> zk (replica_part_path replica (commit_name part)) = Some node
   \<and> read_part_header fz zk (replica_part_path replica (commit_name part)) node = Inr (Some h)
   \<and> (getColumnsHash h \<noteq> getColumnsHash (local_part_header part)
        \<or> getChecksums h \<noteq> getChecksums (local_part_header part))
   \<longrightarrow> checkPartChecksumsAndAddCommitOps fz minimalistic st zk (shuffled_replicas round) part ops
           (commit_name part) absent = Inl CHECKSUM_DOESNT_MATCH
       \<and> checkPartChecksumsAndCommit fz minimalistic transaction_isEmpty commit part (round # rounds) st zk
           = Some (Inl CHECKSUM_DOESNT_MATCH, st, zk)"
proof (intro impI)
  assume h: "shuffled_replicas round = skipped @ replica # rest
   \<and> (\<forall>x \<in> set skipped. zk (replica_part_path x (commit_name part)) = None)
   \<and> zk (replica_part_path replica (commit_name part)) = Some node
   \<and> read_part_header fz zk (replica_part_path replica (commit_name part)) node = Inr (Some h)
   \<and> (getColumnsHash h \<noteq> getColumnsHash (local_part_header part)
        \<or> getChecksums h \<noteq> getChecksums (local_part_header part))"
  have t: "check_replica fz st zk part (commit_name part) replica a False = Throw CHECKSUM_DOESNT_MATCH" for a
    using h check_replica_mismatch[of zk replica "commit_name part" node fz h part st a False] by blast
  have c: "check_replicas fz st zk part (commit_name part) (shuffled_replicas round) a False
             = Inl CHECKSUM_DOESNT_MATCH" for a
    using h check_replicas_first_recorded[of skipped zk "commit_name part" fz st part replica False
        CHECKSUM_DOESNT_MATCH rest a] t
    by simp
  have a: "checkPartChecksumsAndAddCommitOps fz minimalistic st zk (shuffled_replicas round) part o1
           (commit_name part) a1 = Inl CHECKSUM_DOESNT_MATCH" for o1 a1
    using h c by (simp add: checkPartChecksumsAndAddCommitOps_def)
  show "checkPartChecksumsAndAddCommitOps fz minimalistic st zk (shuffled_replicas round) part ops
           (commit_name part) absent = Inl CHECKSUM_DOESNT_MATCH
       \<and> checkPartChecksumsAndCommit fz minimalistic transaction_isEmpty commit part (round # rounds) st zk
           = Some (Inl CHECKSUM_DOESNT_MATCH, st, zk)"
    using a by simp
qed

lemmas header_eval_defs =
  checkPartChecksumsAndAddCommitOps_def check_replica_def read_part_header_def checkEqual_def
  replica_part_path_def absent_check_ops_def demo_header_of_znodes_def demo_part_to_commit_def
  demo_zk_headers_def demo_round_def parts_path_def replica_path_def demo_storage_def tryGet_def
  tryMulti_def zk_exists_def fresh_node_def is_sequential_def Let_def

theorem checksum_mismatch_is_raised_not_retried_witness:
  "shuffled_replicas (demo_round [''r4'', ''r3'', ''r2'']) = [''r4''] @ ''r3'' # [''r2'']
   \<and> demo_zk_headers (replica_part_path ''r4'' ''p_1_1_0'') = None
   \<and> demo_zk_headers (replica_part_path ''r3'' ''p_1_1_0'')
        = Some (fresh_node (HeaderData \<lparr> getColumnsHash = ''H1'', getChecksums = ''K9'' \<rparr>))
   \<and> read_part_header demo_header_of_znodes demo_zk_headers (replica_part_path ''r3'' ''p_1_1_0'')
          (fresh_node (HeaderData \<lparr> getColumnsHash = ''H1'', getChecksums = ''K9'' \<rparr>))
        = Inr (Some \<lparr> getColumnsHash = ''H1'', getChecksums = ''K9'' \<rparr>)
   \<and> ''K9'' \<noteq> getChecksums (local_part_header demo_part_to_commit)
   \<and> checkPartChecksumsAndCommit demo_header_of_znodes True False (\<lambda>st. st) demo_part_to_commit
         [demo_round [''r4'', ''r3'', ''r2'']] demo_storage demo_zk_headers
        = Some (Inl CHECKSUM_DOESNT_MATCH, demo_storage, demo_zk_headers)"
proof -
  have h1: "shuffled_replicas (demo_round [''r4'', ''r3'', ''r2'']) = [''r4''] @ ''r3'' # [''r2'']"
    by (simp add: demo_round_def)
  have h2: "\<forall>x \<in> set [''r4'']. demo_zk_headers (replica_part_path x (commit_name demo_part_to_commit)) = None"
    by (simp add: header_eval_defs)
  have h3: "demo_zk_headers (replica_part_path ''r3'' (commit_name demo_part_to_commit))
        = Some (fresh_node (HeaderData \<lparr> getColumnsHash = ''H1'', getChecksums = ''K9'' \<rparr>))"
    by (simp add: header_eval_defs)
  have h4: "read_part_header demo_header_of_znodes demo_zk_headers
          (replica_part_path ''r3'' (commit_name demo_part_to_commit))
          (fresh_node (HeaderData \<lparr> getColumnsHash = ''H1'', getChecksums = ''K9'' \<rparr>))
        = Inr (Some \<lparr> getColumnsHash = ''H1'', getChecksums = ''K9'' \<rparr>)"
    by (simp add: header_eval_defs)
  have h5: "getColumnsHash \<lparr> getColumnsHash = ''H1'', getChecksums = ''K9'' \<rparr>
              \<noteq> getColumnsHash (local_part_header demo_part_to_commit)
        \<or> getChecksums \<lparr> getColumnsHash = ''H1'', getChecksums = ''K9'' \<rparr>
              \<noteq> getChecksums (local_part_header demo_part_to_commit)"
    by (simp add: demo_part_to_commit_def)
  have n: "commit_name demo_part_to_commit = ''p_1_1_0''"
    by (simp add: demo_part_to_commit_def)
  note t = checksum_mismatch_is_raised_not_retried
      [where round="demo_round [''r4'', ''r3'', ''r2'']" and skipped="[''r4'']" and replica="''r3''"
         and rest="[''r2'']" and zk=demo_zk_headers and part=demo_part_to_commit
         and node="fresh_node (HeaderData \<lparr> getColumnsHash = ''H1'', getChecksums = ''K9'' \<rparr>)"
         and fz=demo_header_of_znodes and h="\<lparr> getColumnsHash = ''H1'', getChecksums = ''K9'' \<rparr>"
         and minimalistic=True and st=demo_storage and transaction_isEmpty=False and commit="\<lambda>st. st"
         and rounds="[]", THEN mp, OF conjI[OF h1 conjI[OF h2 conjI[OF h3 conjI[OF h4 h5]]]]]
  have h2a: "demo_zk_headers (replica_part_path ''r4'' ''p_1_1_0'') = None"
    by (simp add: header_eval_defs)
  have k: "''K9'' \<noteq> getChecksums (local_part_header demo_part_to_commit)"
    by (simp add: demo_part_to_commit_def)
  show ?thesis
    using h1 h2a h3[unfolded n] h4[unfolded n] k t[THEN conjunct2] by blast
qed

text \<open>
  The claim as stated covers every replica that has recorded a differing header. Here
  replica \<open>r3\<close> has recorded other checksums than the local part's, but replica \<open>r2\<close>, whose
  header matches, is visited first; the check stops there and the commit succeeds.
\<close>

theorem mismatch_on_later_replica_counterexample:
  "demo_zk_headers (replica_part_path ''r3'' ''p_1_1_0'')
        = Some (fresh_node (HeaderData \<lparr> getColumnsHash = ''H1'', getChecksums = ''K9'' \<rparr>))
   \<and> read_part_header demo_header_of_znodes demo_zk_headers (replica_part_path ''r3'' ''p_1_1_0'')
          (fresh_node (HeaderData \<lparr> getColumnsHash = ''H1'', getChecksums = ''K9'' \<rparr>))
        = Inr (Some \<lparr> getColumnsHash = ''H1'', getChecksums = ''K9'' \<rparr>)
   \<and> ''K9'' \<noteq> getChecksums (local_part_header demo_part_to_commit)
   \<and> map_option fst
        (checkPartChecksumsAndCommit demo_header_of_znodes True False (\<lambda>st. st) demo_part_to_commit
           [demo_round [''r2'', ''r3'']] demo_storage demo_zk_headers)
        = Some (Inr ())"
  by (simp add: header_eval_defs)

subsection \<open>Quorum updates\<close>

lemma status_neq_last_part [simp]:
  "quorum_status_path part is_parallel \<noteq> quorum_last_part_path"
  "quorum_last_part_path \<noteq> quorum_status_path part is_parallel"
  by (auto simp: quorum_status_path_def quorum_last_part_path_def)

lemma tryMulti_remove_set:
  assumes "zk p = Some n" and "version_matches v n" and "zk q = Some m" and "version_matches w m" and "p \<noteq> q"
  shows "tryMulti zk [RemoveRequest p v, SetRequest q d w]
           = (ZOK, [None, None], zk(p := None, q \<mapsto> m\<lparr>data := d, version := version m + 1\<rparr>))"
  using assms by (simp add: tryMulti_def)

lemma tryMulti_remove:
  assumes "zk p = Some n" and "version_matches v n"
  shows "tryMulti zk [RemoveRequest p v] = (ZOK, [None], zk(p := None))"
  using assms by (simp add: tryMulti_def)

lemma tryMulti_remove_conflict:
  assumes "zk p = Some n" and "\<not> version_matches v n"
  shows "tryMulti zk (RemoveRequest p v # rest) = (ZBADVERSION, [], zk)"
  using assms by (simp add: tryMulti_def)

lemma trySet_ok:
  assumes "zk p = Some n" and "version_matches v n"
  shows "trySet zk p d v = (ZOK, zk(p \<mapsto> n\<lparr>data := d, version := version n + 1\<rparr>))"
  using assms by (simp add: trySet_def)

lemma trySet_conflict:
  assumes "zk p = Some n" and "\<not> version_matches v n"
  shows "trySet zk p d v = (ZBADVERSION, zk)"
  using assms by (simp add: trySet_def)

lemma version_matches_self [simp]: "version_matches (version n) n"
  by (simp add: version_matches_def)

lemma round_reached_not_parallel:
  assumes "zk (quorum_status_path part False) = Some stat"
    and "data stat = QuorumData qe" and "part_name qe = part"
    and "required_number_of_replicas qe \<le> card (insert (replica_name st) (replicas qe))"
    and "zk quorum_last_part_path = Some lp" and "parse_added_parts (data lp) = Inr added"
    and "tryParsePartName c part = Some part_info"
  shows "updateQuorum_round c st part False quiet_round zk =
           Finished (Inr ())
             (zk(quorum_status_path part False := None,
                 quorum_last_part_path \<mapsto>
                   lp\<lparr>data := AddedPartsData (AList.update (partition_id part_info) part added),
                      version := version lp + 1\<rparr>))"
  using assms
  by (simp add: updateQuorum_round_def tryGet_def zk_get_def fromPartName_def quiet_round_def
        tryMulti_remove_set after_write_def Let_def)

lemma round_reached_parallel:
  assumes "zk (quorum_status_path part True) = Some stat"
    and "data stat = QuorumData qe" and "part_name qe = part"
    and "required_number_of_replicas qe \<le> card (insert (replica_name st) (replicas qe))"
  shows "updateQuorum_round c st part True quiet_round zk =
           Finished (Inr ()) (zk(quorum_status_path part True := None))"
  using assms
  by (simp add: updateQuorum_round_def tryGet_def quiet_round_def tryMulti_remove after_write_def Let_def)

lemma round_not_reached:
  assumes "zk (quorum_status_path part is_parallel) = Some stat"
    and "data stat = QuorumData qe" and "part_name qe = part"
    and "card (insert (replica_name st) (replicas qe)) < required_number_of_replicas qe"
  shows "updateQuorum_round c st part is_parallel quiet_round zk =
           Finished (Inr ())
             (zk(quorum_status_path part is_parallel \<mapsto>
                   stat\<lparr>data := QuorumData (qe\<lparr>replicas := insert (replica_name st) (replicas qe)\<rparr>),
                        version := version stat + 1\<rparr>))"
  using assms
  by (simp add: updateQuorum_round_def tryGet_def quiet_round_def trySet_ok after_write_def Let_def)

lemma round_conflict:
  assumes "zk (quorum_status_path part is_parallel) = Some stat"
    and "data stat = QuorumData qe" and "part_name qe = part"
    and "others_before_write round (others_after_read round zk) (quorum_status_path part is_parallel) = Some stat2"
    and "\<not> version_matches (version stat) stat2"
    and "is_parallel \<or> card (insert (replica_name st) (replicas qe)) < required_number_of_replicas qe
         \<or> (\<exists>lp added part_info. others_after_read round zk quorum_last_part_path = Some lp
               \<and> parse_added_parts (data lp) = Inr added \<and> tryParsePartName c part = Some part_info)"
  shows "updateQuorum_round c st part is_parallel round zk
           = Again (others_before_write round (others_after_read round zk))"
proof (cases "required_number_of_replicas qe \<le> card (insert (replica_name st) (replicas qe))")
  case False
  then show ?thesis using assms(1-5)
    by (simp add: updateQuorum_round_def tryGet_def trySet_conflict after_write_def Let_def)
next
  case True
  show ?thesis
  proof (cases is_parallel)
    case p: True
    then show ?thesis using True assms(1-5)
      by (simp add: updateQuorum_round_def tryGet_def tryMulti_remove_conflict after_write_def Let_def)
  next
    case p: False
    then obtain lp added part_info where "others_after_read round zk quorum_last_part_path = Some lp"
      "parse_added_parts (data lp) = Inr added" "tryParsePartName c part = Some part_info"
      using True assms(6) by auto
    then show ?thesis using True p assms(1-5)
      by (simp add: updateQuorum_round_def tryGet_def zk_get_def fromPartName_def
            tryMulti_remove_conflict after_write_def Let_def)
  qed
qed

lemma quiet_round_finishes:
  "\<exists>r zk1. updateQuorum_round c st part is_parallel quiet_round zk = Finished r zk1"
proof (cases "zk (quorum_status_path part is_parallel)")
  case None
  then show ?thesis by (simp add: updateQuorum_round_def tryGet_def)
next
  case (Some stat)
  show ?thesis
  proof (cases "data stat")
    case (QuorumData qe)
    show ?thesis
    proof (cases "part_name qe = part")
      case False
      then show ?thesis using Some QuorumData by (simp add: updateQuorum_round_def tryGet_def)
    next
      case pn: True
      show ?thesis
      proof (cases "required_number_of_replicas qe \<le> card (insert (replica_name st) (replicas qe))")
        case False
        then show ?thesis using round_not_reached[where zk=zk and part=part and is_parallel=is_parallel and stat=stat and qe=qe and st=st and c=c] Some QuorumData pn by simp
      next
        case True
        show ?thesis
        proof (cases is_parallel)
          case p: True
          then show ?thesis using round_reached_parallel[where zk=zk and part=part and stat=stat and qe=qe and st=st and c=c] Some QuorumData pn True by simp
        next
          case p: False
          show ?thesis
          proof (cases "zk quorum_last_part_path")
            case None
            then show ?thesis using Some QuorumData pn True p
              by (simp add: updateQuorum_round_def tryGet_def zk_get_def quiet_round_def Let_def)
          next
            case lp: (Some lp)
            show ?thesis
            proof (cases "parse_added_parts (data lp)")
              case (Inl e)
              then show ?thesis using Some QuorumData pn True p lp
                by (simp add: updateQuorum_round_def tryGet_def zk_get_def quiet_round_def Let_def)
            next
              case (Inr added)
              show ?thesis
              proof (cases "tryParsePartName c part")
                case None
                then show ?thesis using Some QuorumData pn True p lp Inr
                  by (simp add: updateQuorum_round_def tryGet_def zk_get_def quiet_round_def
                        fromPartName_def Let_def)
              next
                case (Some part_info)
                then show ?thesis
                  using round_reached_not_parallel[where zk=zk and part=part and stat=stat and qe=qe and st=st and lp=lp and added=added and c=c and part_info=part_info]
                    \<open>zk (quorum_status_path part is_parallel) = Some stat\<close> QuorumData pn True p lp Inr
                  by simp
              qed
            qed
          qed
        qed
      qed
    qed
  qed (use Some in \<open>simp_all add: updateQuorum_round_def tryGet_def\<close>)
qed

lemma updateQuorum_returns:
  "updateQuorum c st part is_parallel (noisy @ quiet_round # rest) zk \<noteq> None"
proof (induction noisy arbitrary: zk)
  case Nil
  obtain r zk1 where "updateQuorum_round c st part is_parallel quiet_round zk = Finished r zk1"
    using quiet_round_finishes by blast
  then show ?case by simp
next
  case (Cons round noisy)
  show ?case
  proof (cases "updateQuorum_round c st part is_parallel round zk")
    case (Finished r zk1)
    then show ?thesis by simp
  next
    case (Again zk1)
    then show ?thesis using Cons.IH[of zk1] by simp
  qed
qed

lemmas quorum_eval_defs =
  demo_zk_quorum_def demo_quorum_entry_def demo_racing_round_def quorum_status_path_def
  quorum_last_part_path_def parse_added_parts_def demo_storage_def demo_decls_def
  version_matches_def quiet_round_def

subsection \<open>Drop ranges cover every allocated block\<close>

lemma zk_create_seq_Inr_fresh:
  "zk_create zk (Sub par prefix) d EphemeralSequential = (Inr q, zk') \<Longrightarrow>
     \<exists>pn. zk par = Some pn \<and> q = SubSeq par prefix (seq_num pn) \<and> zk q = None
        \<and> zk' = zk(par \<mapsto> pn\<lparr>seq_num := Suc (seq_num pn)\<rparr>, q \<mapsto> fresh_node d)"
  by (auto simp: zk_create_def is_sequential_def Let_def split: option.splits if_splits)

lemma EphemeralLock_node:
  assumes "EphemeralLockInZooKeeper (Sub (Sub (Sub ZRoot ''block_numbers'') pid) ''block-'') (Sub ZRoot ''temp'') zk [] = (Inr lock, zk')"
  shows "lock_path lock = SubSeq (Sub (Sub ZRoot ''block_numbers'') pid) ''block-'' (lock_number lock)
         \<and> zk' (lock_path lock) \<noteq> None \<and> zk (lock_path lock) = None"
  using assms
  apply (simp add: EphemeralLockInZooKeeper_def Let_def split: prod.splits sum.splits)
  apply (auto dest!: zk_create_seq_Inr_fresh split: zpath.splits if_splits)
  done

lemma allocateBlockNumber_lock_node:
  assumes "allocateBlockNumber st zk pid None = (Inr (Some lock), st', zk')"
  shows "lock_path lock = SubSeq (Sub block_numbers_path pid) ''block-'' (lock_number lock)
         \<and> zk' (lock_path lock) \<noteq> None \<and> zk (lock_path lock) = None"
  using assms
  apply (simp add: allocateBlockNumber_def Let_def existsNodeCached_def zk_exists_def split: prod.splits option.splits if_splits)
  apply (auto elim!: allocateBlockNumber_catch.elims dest!: EphemeralLock_node simp: tryMulti_def KeeperMultiException_check_def block_numbers_path_def fresh_node_def version_matches_def is_sequential_def split: option.splits if_splits prod.splits zerror.splits)
  done

lemma getFake_state:
  assumes "getFakePartCoveringAllPartsInPartition c st zk pid part_info for_replace_range = (Inr (ret, i, lock), st', zk')"
  shows "lock_path lock = SubSeq (Sub block_numbers_path pid) ''block-'' (lock_number lock)"
    and "zk (lock_path lock) = None" and "zk' (lock_path lock) \<noteq> None"
    and "next_block_number zk' pid = Suc (lock_number lock)"
proof -
  obtain r st1 zk1 where a: "allocateBlockNumber st zk pid None = (r, st1, zk1)"
    by (cases "allocateBlockNumber st zk pid None") auto
  from assms a obtain l where r: "r = Inr (Some l)"
    by (cases r; simp add: getFakePartCoveringAllPartsInPartition_def split: option.splits)
  have l: "lock = l" "zk' = zk1"
    using assms a r by (simp_all add: getFakePartCoveringAllPartsInPartition_def Let_def split: if_splits)
  note n = allocateBlockNumber_number[OF a[unfolded r]]
  note m = allocateBlockNumber_lock_node[OF a[unfolded r]]
  show "lock_path lock = SubSeq (Sub block_numbers_path pid) ''block-'' (lock_number lock)"
    using m l by simp
  show "zk (lock_path lock) = None" using m l by auto
  show "zk' (lock_path lock) \<noteq> None" using m l by auto
  show "next_block_number zk' pid = Suc (lock_number lock)" using n l by simp
qed

text \<open>
  C4. \<^verbatim>\<open>getFakePartCoveringAllPartsInPartition\<close> allocates a fresh delimiting block number R:
  R is the next number of the partition's sequence, the lock node of that number did not
  exist before the call and exists after it, and the sequence stands at R + 1 afterwards, so
  that no later allocation gets R again. It returns true exactly when R is not 0, and then the
  part info it builds has \<open>min_block\<close> 0, \<open>max_block\<close> R - 1 (R for the replace-range variant),
  level \<open>MAX_LEVEL\<close> and mutation \<open>MAX_BLOCK_NUMBER\<close>, so that its block interval contains every
  block number allocated in the partition before: all numbers below R, and in particular the
  number of any lock that \<^verbatim>\<open>allocateBlockNumber\<close> handed out just before. When it returns
  false (R = 0, no block number was ever allocated in the partition),
  \<^verbatim>\<open>dropAllPartsInPartition\<close> returns false and leaves the log node and its entries as they
  were: no DROP_RANGE entry is appended.
\<close>

theorem fake_part_allocates_and_covers_blocks:
  "(getFakePartCoveringAllPartsInPartition c st zk pid part_info for_replace_range
      = (Inr (ret, i, lock), st', zk') \<longrightarrow>
      lock_number lock = next_block_number zk pid
      \<and> lock_path lock = SubSeq (Sub block_numbers_path pid) ''block-'' (lock_number lock)
      \<and> zk (lock_path lock) = None
      \<and> zk' (lock_path lock) \<noteq> None
      \<and> next_block_number zk' pid = Suc (lock_number lock)
      \<and> (ret \<longleftrightarrow> next_block_number zk pid \<noteq> 0)
      \<and> (ret \<longrightarrow>
            i = \<lparr> partition_id = pid, min_block = 0,
                  max_block = (if for_replace_range then int (lock_number lock) else int (lock_number lock) - 1),
                  level = MAX_LEVEL c, mutation = MAX_BLOCK_NUMBER c \<rparr>
            \<and> (\<forall>n < next_block_number zk pid. int n \<in> block_interval i)))
   \<and> (fst (allocateBlockNumber st0 zk0 pid None) = Inr (Some lock0)
      \<and> fst (getFakePartCoveringAllPartsInPartition c st1
                (snd (snd (allocateBlockNumber st0 zk0 pid None))) pid part_info for_replace_range)
           = Inr (True, i1, lock1)
      \<longrightarrow> int (lock_number lock0) \<in> block_interval i1 \<and> lock_number lock0 < lock_number lock1)
   \<and> (zk3 alter_partition_version_path \<noteq> None
      \<and> fst (getFakePartCoveringAllPartsInPartition c st3 (others zk3) pid3 empty_part_info False) = Inr (False, i2, lock2)
      \<longrightarrow> next_block_number (others zk3) pid3 = 0
          \<and> fst (dropAllPartsInPartition c st3 zk3 others blocks pid3 entry txn_ops detach_flag now) = Inr False
          \<and> snd (snd (snd (dropAllPartsInPartition c st3 zk3 others blocks pid3 entry txn_ops detach_flag now))) log_path
              = others zk3 log_path
          \<and> (\<forall>k. snd (snd (snd (dropAllPartsInPartition c st3 zk3 others blocks pid3 entry txn_ops detach_flag now)))
                    (SubSeq log_path ''log-'' k)
              = others zk3 (SubSeq log_path ''log-'' k)))"
proof (intro conjI impI)
  assume f: "getFakePartCoveringAllPartsInPartition c st zk pid part_info for_replace_range
      = (Inr (ret, i, lock), st', zk')"
  then have h: "fst (getFakePartCoveringAllPartsInPartition c st zk pid part_info for_replace_range) = Inr (ret, i, lock)"
    by simp
  show n: "lock_number lock = next_block_number zk pid" using getFake_result(1)[OF h] .
  show "lock_path lock = SubSeq (Sub block_numbers_path pid) ''block-'' (lock_number lock)"
    using getFake_state(1)[OF f] .
  show "zk (lock_path lock) = None" using getFake_state(2)[OF f] .
  show "zk' (lock_path lock) \<noteq> None" using getFake_state(3)[OF f] .
  show "next_block_number zk' pid = Suc (lock_number lock)" using getFake_state(4)[OF f] .
  show r: "ret \<longleftrightarrow> next_block_number zk pid \<noteq> 0" using getFake_result(2)[OF h] .
  show i: "i = \<lparr> partition_id = pid, min_block = 0,
                  max_block = (if for_replace_range then int (lock_number lock) else int (lock_number lock) - 1),
                  level = MAX_LEVEL c, mutation = MAX_BLOCK_NUMBER c \<rparr>" if "ret"
    using that n getFake_result(3)[OF h] getFake_result(4)[OF h] by (cases for_replace_range) simp_all
  show "\<forall>n < next_block_number zk pid. int n \<in> block_interval i" if "ret"
    using i[OF that] n by (auto simp: block_interval_def)
next
  assume h: "fst (allocateBlockNumber st0 zk0 pid None) = Inr (Some lock0)
      \<and> fst (getFakePartCoveringAllPartsInPartition c st1
                (snd (snd (allocateBlockNumber st0 zk0 pid None))) pid part_info for_replace_range)
           = Inr (True, i1, lock1)"
  define zk1 where "zk1 = snd (snd (allocateBlockNumber st0 zk0 pid None))"
  obtain st' where a: "allocateBlockNumber st0 zk0 pid None = (Inr (Some lock0), st', zk1)"
    using h by (cases "allocateBlockNumber st0 zk0 pid None") (auto simp: zk1_def)
  have g: "fst (getFakePartCoveringAllPartsInPartition c st1 zk1 pid part_info for_replace_range) = Inr (True, i1, lock1)"
    using h by (simp add: zk1_def)
  have n0: "lock_number lock0 = next_block_number zk0 pid"
    and n1: "next_block_number zk1 pid = Suc (next_block_number zk0 pid)"
    using allocateBlockNumber_number[OF a] by simp_all
  have l1: "lock_number lock1 = next_block_number zk1 pid" using getFake_result(1)[OF g] .
  have i1: "i1 = \<lparr> partition_id = pid, min_block = 0,
                  max_block = (if for_replace_range then int (lock_number lock1) else int (lock_number lock1) - 1),
                  level = MAX_LEVEL c, mutation = MAX_BLOCK_NUMBER c \<rparr>"
    using l1 getFake_result(3)[OF g] getFake_result(4)[OF g] by (cases for_replace_range) simp_all
  show "int (lock_number lock0) \<in> block_interval i1" using i1 l1 n0 n1 by (auto simp: block_interval_def)
  show "lock_number lock0 < lock_number lock1" using l1 n0 n1 by simp
next
  assume h: "zk3 alter_partition_version_path \<noteq> None
      \<and> fst (getFakePartCoveringAllPartsInPartition c st3 (others zk3) pid3 empty_part_info False) = Inr (False, i2, lock2)"
  then have apv: "zk3 alter_partition_version_path \<noteq> None"
    and g: "fst (getFakePartCoveringAllPartsInPartition c st3 (others zk3) pid3 empty_part_info False) = Inr (False, i2, lock2)"
    by simp_all
  show "next_block_number (others zk3) pid3 = 0" using getFake_result(2)[OF g] by simp
  show "fst (dropAllPartsInPartition c st3 zk3 others blocks pid3 entry txn_ops detach_flag now) = Inr False"
    using dropAll_empty_partition(1)[where zk=zk3 and others=others, OF apv g] .
  show "snd (snd (snd (dropAllPartsInPartition c st3 zk3 others blocks pid3 entry txn_ops detach_flag now))) log_path
              = others zk3 log_path"
    using dropAll_empty_partition(3)[where zk=zk3 and others=others, OF apv g log_not_in_alloc_footprint(1)] .
  show "\<forall>k. snd (snd (snd (dropAllPartsInPartition c st3 zk3 others blocks pid3 entry txn_ops detach_flag now)))
                    (SubSeq log_path ''log-'' k)
              = others zk3 (SubSeq log_path ''log-'' k)"
    using dropAll_empty_partition(3)[where zk=zk3 and others=others, OF apv g log_not_in_alloc_footprint(2)] by blast
qed

lemma demo_getFake:
  "getFakePartCoveringAllPartsInPartition demo_decls demo_storage demo_zk ''p'' empty_part_info False
     = (Inr (True, demo_range 2, demo_lock ''p'' 3 0),
        demo_storage\<lparr>existing_nodes_cache := {Sub block_numbers_path ''p''}\<rparr>, demo_zk_allocated)"
  by (simp add: zk_eval_defs2 demo_zk_allocated_def)

theorem fake_part_allocates_and_covers_blocks_witness:
  "getFakePartCoveringAllPartsInPartition demo_decls demo_storage demo_zk ''p'' empty_part_info False
     = (Inr (True, demo_range 2, demo_lock ''p'' 3 0),
        demo_storage\<lparr>existing_nodes_cache := {Sub block_numbers_path ''p''}\<rparr>, demo_zk_allocated)
   \<and> fst (allocateBlockNumber demo_storage demo_zk ''p'' None) = Inr (Some (demo_lock ''p'' 3 0))
   \<and> fst (getFakePartCoveringAllPartsInPartition demo_decls demo_storage
            (snd (snd (allocateBlockNumber demo_storage demo_zk ''p'' None))) ''p'' empty_part_info False)
       = Inr (True, demo_range 3, demo_lock ''p'' 4 1)
   \<and> demo_zk alter_partition_version_path \<noteq> None
   \<and> fst (getFakePartCoveringAllPartsInPartition demo_decls demo_storage ((\<lambda>z. z) demo_zk) ''e'' empty_part_info False)
       = Inr (False, empty_part_info, demo_lock ''e'' 0 0)
   \<and> next_block_number demo_zk ''p'' = 3
   \<and> next_block_number demo_zk_allocated ''p'' = 4
   \<and> demo_zk (SubSeq (Sub block_numbers_path ''p'') ''block-'' 3) = None
   \<and> demo_zk_allocated (SubSeq (Sub block_numbers_path ''p'') ''block-'' 3) \<noteq> None
   \<and> {0, 1, 2} \<subseteq> block_interval (demo_range 2)
   \<and> (3::int) \<in> block_interval (demo_range 3)
   \<and> fst (dropAllPartsInPartition demo_decls demo_storage demo_zk (\<lambda>z. z) [] ''e'' empty_LogEntry [] False 0)
       = Inr False
   \<and> snd (snd (snd (dropAllPartsInPartition demo_decls demo_storage demo_zk (\<lambda>z. z) [] ''e'' empty_LogEntry [] False 0)))
        log_path = demo_zk log_path"
proof -
  note h1 = demo_getFake
  have h2: "fst (allocateBlockNumber demo_storage demo_zk ''p'' None) = Inr (Some (demo_lock ''p'' 3 0))"
    by (simp add: zk_eval_defs2)
  have h3: "fst (getFakePartCoveringAllPartsInPartition demo_decls demo_storage
            (snd (snd (allocateBlockNumber demo_storage demo_zk ''p'' None))) ''p'' empty_part_info False)
       = Inr (True, demo_range 3, demo_lock ''p'' 4 1)"
    by (simp add: zk_eval_defs2)
  have h4: "demo_zk alter_partition_version_path \<noteq> None"
    by (simp add: zk_eval_defs2)
  have h5: "fst (getFakePartCoveringAllPartsInPartition demo_decls demo_storage ((\<lambda>z. z) demo_zk) ''e'' empty_part_info False)
       = Inr (False, empty_part_info, demo_lock ''e'' 0 0)"
    by (simp add: zk_eval_defs2)
  have n: "next_block_number demo_zk ''p'' = 3"
    by (simp add: next_block_number_def zk_eval_defs2)
  have lp: "lock_path (demo_lock ''p'' 3 0) = SubSeq (Sub block_numbers_path ''p'') ''block-'' 3"
    "lock_number (demo_lock ''p'' 3 0) = 3"
    by (simp_all add: demo_lock_def block_numbers_path_def)
  note t = fake_part_allocates_and_covers_blocks
        [where c=demo_decls and st=demo_storage and zk=demo_zk and pid="''p''" and part_info=empty_part_info
           and for_replace_range=False and ret=True and i="demo_range 2" and lock="demo_lock ''p'' 3 0"
           and st'="demo_storage\<lparr>existing_nodes_cache := {Sub block_numbers_path ''p''}\<rparr>"
           and zk'=demo_zk_allocated
           and ?st0.0=demo_storage and ?zk0.0=demo_zk and ?lock0.0="demo_lock ''p'' 3 0" and ?st1.0=demo_storage
           and ?i1.0="demo_range 3" and ?lock1.0="demo_lock ''p'' 4 1"
           and ?zk3.0=demo_zk and ?st3.0=demo_storage and others="\<lambda>z. z" and ?pid3.0="''e''"
           and ?i2.0=empty_part_info and ?lock2.0="demo_lock ''e'' 0 0"
           and blocks="[]" and entry=empty_LogEntry and txn_ops="[]" and detach_flag=False and now=0]
  note t1 = t[THEN conjunct1, THEN mp, OF h1]
  note t2 = t[THEN conjunct2, THEN conjunct1, THEN mp, OF conjI[OF h2 h3]]
  note t3 = t[THEN conjunct2, THEN conjunct2, THEN mp, OF conjI[OF h4 h5]]
  have a1: "next_block_number demo_zk_allocated ''p'' = 4"
    using t1 lp by simp
  have a2: "demo_zk (SubSeq (Sub block_numbers_path ''p'') ''block-'' 3) = None"
    using t1 lp by simp
  have a3: "demo_zk_allocated (SubSeq (Sub block_numbers_path ''p'') ''block-'' 3) \<noteq> None"
    using t1 lp by simp
  have a4: "{0, 1, 2} \<subseteq> block_interval (demo_range 2)"
    using t1 n by (simp add: block_interval_def demo_range_def)
  have a5: "(3::int) \<in> block_interval (demo_range 3)"
    using t2 lp by simp
  have a6: "fst (dropAllPartsInPartition demo_decls demo_storage demo_zk (\<lambda>z. z) [] ''e'' empty_LogEntry [] False 0)
       = Inr False"
    using t3 by simp
  have a7: "snd (snd (snd (dropAllPartsInPartition demo_decls demo_storage demo_zk (\<lambda>z. z) [] ''e'' empty_LogEntry [] False 0)))
        log_path = demo_zk log_path"
    using t3 by simp
  show ?thesis
    using h1 h2 h3 h4 h5 n a1 a2 a3 a4 a5 a6 a7 by blast
qed

subsection \<open>Local parts without a node, and failed quorums\<close>

text \<open>
  C9, as amended. The already-present skip of \<^verbatim>\<open>executeLogEntry\<close> also requires the existing or
  covering part to have its node under the replica's parts path. For every GET_PART,
  ATTACH_PART, MERGE_PARTS or MUTATE_PART entry whose part exists locally without such a node,
  the entry is not skipped as already present, and execution proceeds, unless the entry
  carries a quorum marker and its part is listed under the quorum's failed parts: an
  ATTACH_PART entry goes to the search for a valid local part, whose exception is the
  result and whose part, when it finds one, is committed; otherwise an entry whose quorum
  has failed returns success with nothing done, a GET_PART or ATTACH_PART entry is fetched,
  and a MERGE_PARTS or MUTATE_PART entry ends in the logical error that sends it to its own
  executor.
\<close>

theorem local_part_without_node_is_executed:
  "produces_part entry
   \<and> existing_part c st (new_part_name entry) = Inr (Some p)
   \<and> \<not> zk_exists zk (Sub (parts_path st) (name p))
   \<longrightarrow> (entry_type entry = ATTACH_PART \<and> attachPartHelperFoundValidPart ex entry st = Inl e
          \<longrightarrow> executeLogEntry c ex st zk entry = (Inl e, st, zk))
       \<and> (entry_type entry = ATTACH_PART \<and> attachPartHelperFoundValidPart ex entry st = Inr (Some part)
          \<longrightarrow> executeLogEntry c ex st zk entry =
                (case commitAttachedPart ex part st zk of
                   (Some e, st1, zk1) \<Rightarrow> (Inl e, st1, zk1)
                 | (None, st1, zk1) \<Rightarrow> (Inr True, st1, zk1)))
       \<and> ((entry_type entry = ATTACH_PART \<longrightarrow> attachPartHelperFoundValidPart ex entry st = Inr None)
          \<longrightarrow> executeLogEntry c ex st zk entry =
                (if quorum entry \<noteq> 0 \<and> zk_exists zk (failed_parts_path (new_part_name entry))
                 then (Inr True, st, zk)
                 else if entry_type entry = GET_PART \<or> entry_type entry = ATTACH_PART
                 then executeFetch ex entry st zk
                 else (Inl LOGICAL_ERROR, st, zk)))"
proof (intro impI)
  assume h: "produces_part entry
   \<and> existing_part c st (new_part_name entry) = Inr (Some p)
   \<and> \<not> zk_exists zk (Sub (parts_path st) (name p))"
  then have e: "executeLogEntry c ex st zk entry = executeLogEntry_rest ex st zk entry"
    by (auto simp: executeLogEntry_def produces_part_def Let_def)
  have t: "entry_type entry = GET_PART \<or> entry_type entry = ATTACH_PART
           \<or> entry_type entry = MERGE_PARTS \<or> entry_type entry = MUTATE_PART"
    using h by (simp add: produces_part_def)
  have a: "executeLogEntry c ex st zk entry = (Inl e, st, zk)"
    if "entry_type entry = ATTACH_PART \<and> attachPartHelperFoundValidPart ex entry st = Inl e"
    using that e by (simp add: executeLogEntry_rest_def)
  have b: "executeLogEntry c ex st zk entry =
                (case commitAttachedPart ex part st zk of
                   (Some e, st1, zk1) \<Rightarrow> (Inl e, st1, zk1)
                 | (None, st1, zk1) \<Rightarrow> (Inr True, st1, zk1))"
    if "entry_type entry = ATTACH_PART \<and> attachPartHelperFoundValidPart ex entry st = Inr (Some part)"
  proof -
    obtain r st1 zk1 where c: "commitAttachedPart ex part st zk = (r, st1, zk1)"
      by (cases "commitAttachedPart ex part st zk") auto
    show ?thesis using that e c by (cases r) (simp_all add: executeLogEntry_rest_def)
  qed
  have d: "executeLogEntry c ex st zk entry =
                (if quorum entry \<noteq> 0 \<and> zk_exists zk (failed_parts_path (new_part_name entry))
                 then (Inr True, st, zk)
                 else if entry_type entry = GET_PART \<or> entry_type entry = ATTACH_PART
                 then executeFetch ex entry st zk
                 else (Inl LOGICAL_ERROR, st, zk))"
    if "entry_type entry = ATTACH_PART \<longrightarrow> attachPartHelperFoundValidPart ex entry st = Inr None"
    using that e t by (auto simp: executeLogEntry_rest_def)
  show "(entry_type entry = ATTACH_PART \<and> attachPartHelperFoundValidPart ex entry st = Inl e
          \<longrightarrow> executeLogEntry c ex st zk entry = (Inl e, st, zk))
       \<and> (entry_type entry = ATTACH_PART \<and> attachPartHelperFoundValidPart ex entry st = Inr (Some part)
          \<longrightarrow> executeLogEntry c ex st zk entry =
                (case commitAttachedPart ex part st zk of
                   (Some e, st1, zk1) \<Rightarrow> (Inl e, st1, zk1)
                 | (None, st1, zk1) \<Rightarrow> (Inr True, st1, zk1)))
       \<and> ((entry_type entry = ATTACH_PART \<longrightarrow> attachPartHelperFoundValidPart ex entry st = Inr None)
          \<longrightarrow> executeLogEntry c ex st zk entry =
                (if quorum entry \<noteq> 0 \<and> zk_exists zk (failed_parts_path (new_part_name entry))
                 then (Inr True, st, zk)
                 else if entry_type entry = GET_PART \<or> entry_type entry = ATTACH_PART
                 then executeFetch ex entry st zk
                 else (Inl LOGICAL_ERROR, st, zk)))"
    using a b d by blast
qed

lemmas entry_eval_defs2 = entry_eval_defs demo_executors_no_local_part_def demo_storage_inserted_def

theorem local_part_without_node_is_executed_witness:
  "produces_part (demo_entry GET_PART ''p_1_2_1'' 0)
   \<and> produces_part (demo_entry MUTATE_PART ''p_1_2_1'' 0)
   \<and> produces_part (demo_entry ATTACH_PART ''p_1_2_1'' 0)
   \<and> existing_part demo_decls demo_storage_merged ''p_1_2_1'' = Inr (Some (demo_fetched_part ''p_1_2_1''))
   \<and> \<not> zk_exists demo_zk (Sub (parts_path demo_storage_merged) (name (demo_fetched_part ''p_1_2_1'')))
   \<and> executeLogEntry demo_decls demo_executors demo_storage_merged demo_zk (demo_entry GET_PART ''p_1_2_1'' 0)
       = executeFetch demo_executors (demo_entry GET_PART ''p_1_2_1'' 0) demo_storage_merged demo_zk
   \<and> executeLogEntry demo_decls demo_executors demo_storage_merged demo_zk (demo_entry MUTATE_PART ''p_1_2_1'' 0)
       = (Inl LOGICAL_ERROR, demo_storage_merged, demo_zk)
   \<and> executeLogEntry demo_decls demo_executors demo_storage_merged demo_zk (demo_entry ATTACH_PART ''p_1_2_1'' 0)
       = (Inr True, demo_add_part (demo_fetched_part ''p_1_2_1'') demo_storage_merged demo_zk)
   \<and> executeLogEntry demo_decls demo_executors_no_local_part demo_storage_merged demo_zk
        (demo_entry ATTACH_PART ''p_1_2_1'' 0)
       = executeFetch demo_executors_no_local_part (demo_entry ATTACH_PART ''p_1_2_1'' 0) demo_storage_merged demo_zk
   \<and> executeLogEntry demo_decls demo_executors_broken_part demo_storage_merged demo_zk
        (demo_entry ATTACH_PART ''p_1_2_1'' 0)
       = (Inl CHECKSUM_DOESNT_MATCH, demo_storage_merged, demo_zk)
   \<and> existing_part demo_decls demo_storage_inserted ''p_1_1_0'' = Inr (Some (demo_fetched_part ''p_1_1_0''))
   \<and> \<not> zk_exists demo_zk_failed_quorum
         (Sub (parts_path demo_storage_inserted) (name (demo_fetched_part ''p_1_1_0'')))
   \<and> zk_exists demo_zk_failed_quorum (failed_parts_path ''p_1_1_0'')
   \<and> executeLogEntry demo_decls demo_executors demo_storage_inserted demo_zk_failed_quorum
        (demo_entry GET_PART ''p_1_1_0'' 2)
       = (Inr True, demo_storage_inserted, demo_zk_failed_quorum)"
proof -
  have h1: "produces_part (demo_entry GET_PART ''p_1_2_1'' 0)"
    "produces_part (demo_entry MUTATE_PART ''p_1_2_1'' 0)"
    "produces_part (demo_entry ATTACH_PART ''p_1_2_1'' 0)"
    by (simp_all add: produces_part_def demo_entry_def)
  have h2: "existing_part demo_decls demo_storage_merged ''p_1_2_1'' = Inr (Some (demo_fetched_part ''p_1_2_1''))"
    by (simp add: entry_eval_defs)
  have h3: "\<not> zk_exists demo_zk (Sub (parts_path demo_storage_merged) (name (demo_fetched_part ''p_1_2_1'')))"
    by (simp add: entry_eval_defs)
  have n: "new_part_name (demo_entry t ''p_1_2_1'' 0) = ''p_1_2_1''"
    "quorum (demo_entry t ''p_1_2_1'' 0) = 0" "entry_type (demo_entry t ''p_1_2_1'' 0) = t" for t
    by (simp_all add: demo_entry_def)
  have hyp: "produces_part (demo_entry t ''p_1_2_1'' 0)
     \<and> existing_part demo_decls demo_storage_merged (new_part_name (demo_entry t ''p_1_2_1'' 0))
          = Inr (Some (demo_fetched_part ''p_1_2_1''))
     \<and> \<not> zk_exists demo_zk (Sub (parts_path demo_storage_merged) (name (demo_fetched_part ''p_1_2_1'')))"
    if "t = GET_PART \<or> t = MUTATE_PART \<or> t = ATTACH_PART" for t
    using that h1 h2 h3 by (auto simp add: n)
  have found: "attachPartHelperFoundValidPart demo_executors (demo_entry ATTACH_PART ''p_1_2_1'' 0) demo_storage_merged
                 = Inr (Some (demo_fetched_part ''p_1_2_1''))"
    and commit: "commitAttachedPart demo_executors (demo_fetched_part ''p_1_2_1'') demo_storage_merged demo_zk
                 = (None, demo_add_part (demo_fetched_part ''p_1_2_1'') demo_storage_merged demo_zk)"
    and none: "attachPartHelperFoundValidPart demo_executors_no_local_part (demo_entry ATTACH_PART ''p_1_2_1'' 0)
                 demo_storage_merged = Inr None"
    by (simp_all add: demo_executors_def demo_executors_no_local_part_def demo_entry_def)
  note cg = local_part_without_node_is_executed
        [where entry="demo_entry GET_PART ''p_1_2_1'' 0" and c=demo_decls and st=demo_storage_merged
           and p="demo_fetched_part ''p_1_2_1''" and ex=demo_executors and zk=demo_zk, THEN mp, OF hyp,
         THEN conjunct2, THEN conjunct2]
  note cm = local_part_without_node_is_executed
        [where entry="demo_entry MUTATE_PART ''p_1_2_1'' 0" and c=demo_decls and st=demo_storage_merged
           and p="demo_fetched_part ''p_1_2_1''" and ex=demo_executors and zk=demo_zk, THEN mp, OF hyp,
         THEN conjunct2, THEN conjunct2]
  note ca = local_part_without_node_is_executed
        [where entry="demo_entry ATTACH_PART ''p_1_2_1'' 0" and c=demo_decls and st=demo_storage_merged
           and p="demo_fetched_part ''p_1_2_1''" and ex=demo_executors and zk=demo_zk
           and part="demo_fetched_part ''p_1_2_1''", THEN mp, OF hyp,
         THEN conjunct2, THEN conjunct1]
  note cn = local_part_without_node_is_executed
        [where entry="demo_entry ATTACH_PART ''p_1_2_1'' 0" and c=demo_decls and st=demo_storage_merged
           and p="demo_fetched_part ''p_1_2_1''" and ex=demo_executors_no_local_part and zk=demo_zk,
         THEN mp, OF hyp, THEN conjunct2, THEN conjunct2]
  have g: "executeLogEntry demo_decls demo_executors demo_storage_merged demo_zk (demo_entry GET_PART ''p_1_2_1'' 0)
       = executeFetch demo_executors (demo_entry GET_PART ''p_1_2_1'' 0) demo_storage_merged demo_zk"
    using cg by (simp add: n)
  have m: "executeLogEntry demo_decls demo_executors demo_storage_merged demo_zk (demo_entry MUTATE_PART ''p_1_2_1'' 0)
       = (Inl LOGICAL_ERROR, demo_storage_merged, demo_zk)"
    using cm by (simp add: n)
  have a: "executeLogEntry demo_decls demo_executors demo_storage_merged demo_zk (demo_entry ATTACH_PART ''p_1_2_1'' 0)
       = (Inr True, demo_add_part (demo_fetched_part ''p_1_2_1'') demo_storage_merged demo_zk)"
    using ca found commit by (simp add: n)
  have f: "executeLogEntry demo_decls demo_executors_no_local_part demo_storage_merged demo_zk
        (demo_entry ATTACH_PART ''p_1_2_1'' 0)
       = executeFetch demo_executors_no_local_part (demo_entry ATTACH_PART ''p_1_2_1'' 0) demo_storage_merged demo_zk"
    using cn none by (simp add: n)
  have broken: "attachPartHelperFoundValidPart demo_executors_broken_part (demo_entry ATTACH_PART ''p_1_2_1'' 0)
                 demo_storage_merged = Inl CHECKSUM_DOESNT_MATCH"
    by (simp add: demo_executors_broken_part_def)
  note cb = local_part_without_node_is_executed
        [where entry="demo_entry ATTACH_PART ''p_1_2_1'' 0" and c=demo_decls and st=demo_storage_merged
           and p="demo_fetched_part ''p_1_2_1''" and ex=demo_executors_broken_part and zk=demo_zk
           and e=CHECKSUM_DOESNT_MATCH, THEN mp, OF hyp, THEN conjunct1]
  have b: "executeLogEntry demo_decls demo_executors_broken_part demo_storage_merged demo_zk
        (demo_entry ATTACH_PART ''p_1_2_1'' 0)
       = (Inl CHECKSUM_DOESNT_MATCH, demo_storage_merged, demo_zk)"
    using cb broken by (simp add: n)
  have q1: "produces_part (demo_entry GET_PART ''p_1_1_0'' 2)"
    by (simp add: produces_part_def demo_entry_def)
  have q2: "existing_part demo_decls demo_storage_inserted ''p_1_1_0'' = Inr (Some (demo_fetched_part ''p_1_1_0''))"
    by (simp add: entry_eval_defs2)
  have q3: "\<not> zk_exists demo_zk_failed_quorum
         (Sub (parts_path demo_storage_inserted) (name (demo_fetched_part ''p_1_1_0'')))"
    by (simp add: entry_eval_defs2)
  have q4: "zk_exists demo_zk_failed_quorum (failed_parts_path ''p_1_1_0'')"
    by (simp add: demo_zk_failed_quorum_def zk_exists_def)
  have nq: "new_part_name (demo_entry GET_PART ''p_1_1_0'' 2) = ''p_1_1_0''"
    "quorum (demo_entry GET_PART ''p_1_1_0'' 2) = 2" "entry_type (demo_entry GET_PART ''p_1_1_0'' 2) = GET_PART"
    by (simp_all add: demo_entry_def)
  have hq: "produces_part (demo_entry GET_PART ''p_1_1_0'' 2)
     \<and> existing_part demo_decls demo_storage_inserted (new_part_name (demo_entry GET_PART ''p_1_1_0'' 2))
          = Inr (Some (demo_fetched_part ''p_1_1_0''))
     \<and> \<not> zk_exists demo_zk_failed_quorum
           (Sub (parts_path demo_storage_inserted) (name (demo_fetched_part ''p_1_1_0'')))"
    using q1 q2 q3 by (simp add: nq)
  note cq = local_part_without_node_is_executed
        [where entry="demo_entry GET_PART ''p_1_1_0'' 2" and c=demo_decls and st=demo_storage_inserted
           and p="demo_fetched_part ''p_1_1_0''" and ex=demo_executors and zk=demo_zk_failed_quorum,
         THEN mp, OF hq, THEN conjunct2, THEN conjunct2]
  have s: "executeLogEntry demo_decls demo_executors demo_storage_inserted demo_zk_failed_quorum
        (demo_entry GET_PART ''p_1_1_0'' 2)
       = (Inr True, demo_storage_inserted, demo_zk_failed_quorum)"
    using cq q4 by (simp add: nq)
  show ?thesis
    using h1 h2 h3 g m a f b q2 q3 q4 s by blast
qed

text \<open>
  The claim as stated has every such entry executed. The replica below holds \<open>p_1_1_0\<close>
  locally without a node under its parts path, and the GET_PART entry for the part carries
  a quorum marker while the part is listed under the quorum's failed parts: the entry is
  skipped after all. \<^verbatim>\<open>executeLogEntry\<close> returns success and leaves the replica and the
  coordination service as they were, where the fetch would have registered the part.
\<close>

theorem failed_quorum_entry_skipped_counterexample:
  "produces_part (demo_entry GET_PART ''p_1_1_0'' 2)
   \<and> existing_part demo_decls demo_storage_inserted ''p_1_1_0'' = Inr (Some (demo_fetched_part ''p_1_1_0''))
   \<and> \<not> zk_exists demo_zk_failed_quorum
         (Sub (parts_path demo_storage_inserted) (name (demo_fetched_part ''p_1_1_0'')))
   \<and> executeLogEntry demo_decls demo_executors demo_storage_inserted demo_zk_failed_quorum
        (demo_entry GET_PART ''p_1_1_0'' 2)
       = (Inr True, demo_storage_inserted, demo_zk_failed_quorum)
   \<and> zk_exists
        (snd (snd (executeFetch demo_executors (demo_entry GET_PART ''p_1_1_0'' 2) demo_storage_inserted
                     demo_zk_failed_quorum)))
        (Sub (parts_path demo_storage_inserted) ''p_1_1_0'')"
  by (simp add: entry_eval_defs2)

text \<open>
  C10. For every GET_PART entry, and every ATTACH_PART entry that reaches the check because
  no valid local part was found for it, that carries a quorum marker and whose part name is
  listed under the quorum's failed parts, \<^verbatim>\<open>executeLogEntry\<close> leaves the local part set and the
  coordination service as they were, whatever \<^verbatim>\<open>executeFetch\<close> would do: nothing is fetched.
  It returns success; only a part name that does not parse makes the lookup of the local
  part, the first statement for these entries, throw instead.
\<close>

theorem failed_quorum_entry_returns_without_fetch:
  "(entry_type entry = GET_PART
      \<or> entry_type entry = ATTACH_PART \<and> attachPartHelperFoundValidPart ex entry st = Inr None)
   \<and> quorum entry \<noteq> 0
   \<and> zk_exists zk (failed_parts_path (new_part_name entry))
   \<longrightarrow> executeLogEntry c (ex\<lparr>executeFetch := fetch\<rparr>) st zk entry
         = (if tryParsePartName c (new_part_name entry) = None then Inl BAD_DATA_PART_NAME else Inr True,
            st, zk)"
proof (intro impI)
  assume h: "(entry_type entry = GET_PART
      \<or> entry_type entry = ATTACH_PART \<and> attachPartHelperFoundValidPart ex entry st = Inr None)
   \<and> quorum entry \<noteq> 0
   \<and> zk_exists zk (failed_parts_path (new_part_name entry))"
  then have r: "executeLogEntry_rest (ex\<lparr>executeFetch := fetch\<rparr>) st zk entry = (Inr True, st, zk)"
    by (auto simp: executeLogEntry_rest_def)
  show "executeLogEntry c (ex\<lparr>executeFetch := fetch\<rparr>) st zk entry
         = (if tryParsePartName c (new_part_name entry) = None then Inl BAD_DATA_PART_NAME else Inr True,
            st, zk)"
  proof (cases "tryParsePartName c (new_part_name entry)")
    case None
    then have "existing_part c st (new_part_name entry) = Inl BAD_DATA_PART_NAME"
      by (simp add: existing_part_def fromPartName_def)
    then show ?thesis using h None by (auto simp: executeLogEntry_def Let_def)
  next
    case (Some i)
    then have "\<exists>x. existing_part c st (new_part_name entry) = Inr x"
      by (simp add: existing_part_def fromPartName_def split: option.splits)
    then obtain x where x: "existing_part c st (new_part_name entry) = Inr x" by blast
    show ?thesis using h r x Some by (cases x) (auto simp: executeLogEntry_def Let_def)
  qed
qed

theorem failed_quorum_entry_returns_without_fetch_witness:
  "entry_type (demo_entry GET_PART ''p_1_1_0'' 2) = GET_PART
   \<and> entry_type (demo_entry ATTACH_PART ''p_1_1_0'' 2) = ATTACH_PART
   \<and> attachPartHelperFoundValidPart demo_executors_no_local_part (demo_entry ATTACH_PART ''p_1_1_0'' 2) demo_storage
       = Inr None
   \<and> quorum (demo_entry GET_PART ''p_1_1_0'' 2) = 2
   \<and> quorum (demo_entry ATTACH_PART ''p_1_1_0'' 2) = 2
   \<and> zk_exists demo_zk_failed_quorum (failed_parts_path ''p_1_1_0'')
   \<and> tryParsePartName demo_decls ''p_1_1_0'' \<noteq> None
   \<and> tryParsePartName demo_decls ''nonsense'' = None
   \<and> executeLogEntry demo_decls demo_executors demo_storage demo_zk_failed_quorum
        (demo_entry GET_PART ''p_1_1_0'' 2) = (Inr True, demo_storage, demo_zk_failed_quorum)
   \<and> executeLogEntry demo_decls demo_executors_no_local_part demo_storage demo_zk_failed_quorum
        (demo_entry ATTACH_PART ''p_1_1_0'' 2) = (Inr True, demo_storage, demo_zk_failed_quorum)
   \<and> executeLogEntry demo_decls demo_executors demo_storage
        (demo_zk(failed_parts_path ''nonsense'' \<mapsto> fresh_node (Str [])))
        (demo_entry GET_PART ''nonsense'' 2)
       = (Inl BAD_DATA_PART_NAME, demo_storage, demo_zk(failed_parts_path ''nonsense'' \<mapsto> fresh_node (Str [])))
   \<and> data_parts (fst (snd (executeFetch demo_executors (demo_entry GET_PART ''p_1_1_0'' 2) demo_storage
                              demo_zk_failed_quorum)))
       = [demo_fetched_part ''p_1_1_0'']"
proof -
  have n: "new_part_name (demo_entry t x q) = x"
    "quorum (demo_entry t x q) = q" "entry_type (demo_entry t x q) = t" for t x q
    by (simp_all add: demo_entry_def)
  have none: "attachPartHelperFoundValidPart demo_executors_no_local_part (demo_entry ATTACH_PART ''p_1_1_0'' 2)
                demo_storage = Inr None"
    by (simp add: demo_executors_no_local_part_def)
  have z: "zk_exists demo_zk_failed_quorum (failed_parts_path ''p_1_1_0'')"
    "zk_exists (demo_zk(failed_parts_path ''nonsense'' \<mapsto> fresh_node (Str []))) (failed_parts_path ''nonsense'')"
    by (simp_all add: demo_zk_failed_quorum_def zk_exists_def)
  have t: "tryParsePartName demo_decls ''p_1_1_0'' \<noteq> None" "tryParsePartName demo_decls ''nonsense'' = None"
    by (simp_all add: demo_decls_def)
  have u: "demo_executors\<lparr>executeFetch := executeFetch demo_executors\<rparr> = demo_executors"
    "demo_executors_no_local_part\<lparr>executeFetch := executeFetch demo_executors\<rparr> = demo_executors_no_local_part"
    by (simp_all add: demo_executors_no_local_part_def demo_executors_def)
  have g: "executeLogEntry demo_decls demo_executors demo_storage demo_zk_failed_quorum
        (demo_entry GET_PART ''p_1_1_0'' 2) = (Inr True, demo_storage, demo_zk_failed_quorum)"
    using z t u
      failed_quorum_entry_returns_without_fetch
        [where entry="demo_entry GET_PART ''p_1_1_0'' 2" and ex=demo_executors and st=demo_storage
           and zk=demo_zk_failed_quorum and c=demo_decls and fetch="executeFetch demo_executors"]
    by (simp add: n)
  have a: "executeLogEntry demo_decls demo_executors_no_local_part demo_storage demo_zk_failed_quorum
        (demo_entry ATTACH_PART ''p_1_1_0'' 2) = (Inr True, demo_storage, demo_zk_failed_quorum)"
    using z t u none
      failed_quorum_entry_returns_without_fetch
        [where entry="demo_entry ATTACH_PART ''p_1_1_0'' 2" and ex=demo_executors_no_local_part
           and st=demo_storage and zk=demo_zk_failed_quorum and c=demo_decls
           and fetch="executeFetch demo_executors"]
    by (simp add: n)
  have b: "executeLogEntry demo_decls demo_executors demo_storage
        (demo_zk(failed_parts_path ''nonsense'' \<mapsto> fresh_node (Str [])))
        (demo_entry GET_PART ''nonsense'' 2)
       = (Inl BAD_DATA_PART_NAME, demo_storage, demo_zk(failed_parts_path ''nonsense'' \<mapsto> fresh_node (Str [])))"
    using z t u
      failed_quorum_entry_returns_without_fetch
        [where entry="demo_entry GET_PART ''nonsense'' 2" and ex=demo_executors and st=demo_storage
           and zk="demo_zk(failed_parts_path ''nonsense'' \<mapsto> fresh_node (Str []))" and c=demo_decls
           and fetch="executeFetch demo_executors"]
    by (simp add: n)
  have f: "data_parts (fst (snd (executeFetch demo_executors (demo_entry GET_PART ''p_1_1_0'' 2) demo_storage
                              demo_zk_failed_quorum)))
       = [demo_fetched_part ''p_1_1_0'']"
    by (simp add: demo_executors_def demo_add_part_def demo_storage_def demo_entry_def)
  show ?thesis
    using n none z t g a b f by simp
qed

subsection \<open>Quorum updates under interference\<close>

lemma tryMulti_remove_set_conflict:
  assumes "zk p = Some n" and "version_matches v n" and "zk q = Some m" and "\<not> version_matches w m" and "p \<noteq> q"
  shows "tryMulti zk [RemoveRequest p v, SetRequest q d w] = (ZBADVERSION, [None], zk)"
  using assms by (simp add: tryMulti_def)

lemma tryMulti_remove_gone:
  assumes "zk p = None"
  shows "tryMulti zk (RemoveRequest p v # rest) = (ZNONODE, [], zk)"
  using assms by (simp add: tryMulti_def)

lemma trySet_gone:
  assumes "zk p = None"
  shows "trySet zk p d v = (ZNONODE, zk)"
  using assms by (simp add: trySet_def)

lemma round_win_not_parallel:
  assumes "zk (quorum_status_path part False) = Some stat"
    and "data stat = QuorumData qe" and "part_name qe = part"
    and "required_number_of_replicas qe \<le> card (insert (replica_name st) (replicas qe))"
    and "others_after_read round zk quorum_last_part_path = Some lp"
    and "parse_added_parts (data lp) = Inr added"
    and "tryParsePartName c part = Some part_info"
    and "others_before_write round (others_after_read round zk) (quorum_status_path part False) = Some stat2"
    and "version_matches (version stat) stat2"
    and "others_before_write round (others_after_read round zk) quorum_last_part_path = Some lp2"
    and "version_matches (version lp) lp2"
  shows "updateQuorum_round c st part False round zk =
           Finished (Inr ())
             ((others_before_write round (others_after_read round zk))
                (quorum_status_path part False := None,
                 quorum_last_part_path \<mapsto>
                   lp2\<lparr>data := AddedPartsData (AList.update (partition_id part_info) part added),
                       version := version lp2 + 1\<rparr>))"
  using assms
  by (simp add: updateQuorum_round_def tryGet_def zk_get_def fromPartName_def
        tryMulti_remove_set after_write_def Let_def)

lemma round_win_parallel:
  assumes "zk (quorum_status_path part True) = Some stat"
    and "data stat = QuorumData qe" and "part_name qe = part"
    and "required_number_of_replicas qe \<le> card (insert (replica_name st) (replicas qe))"
    and "others_before_write round (others_after_read round zk) (quorum_status_path part True) = Some stat2"
    and "version_matches (version stat) stat2"
  shows "updateQuorum_round c st part True round zk =
           Finished (Inr ())
             ((others_before_write round (others_after_read round zk))(quorum_status_path part True := None))"
  using assms
  by (simp add: updateQuorum_round_def tryGet_def tryMulti_remove after_write_def Let_def)

lemma round_written_back:
  assumes "zk (quorum_status_path part is_parallel) = Some stat"
    and "data stat = QuorumData qe" and "part_name qe = part"
    and "card (insert (replica_name st) (replicas qe)) < required_number_of_replicas qe"
    and "others_before_write round (others_after_read round zk) (quorum_status_path part is_parallel) = Some stat2"
    and "version_matches (version stat) stat2"
  shows "updateQuorum_round c st part is_parallel round zk =
           Finished (Inr ())
             ((others_before_write round (others_after_read round zk))
                (quorum_status_path part is_parallel \<mapsto>
                   stat2\<lparr>data := QuorumData (qe\<lparr>replicas := insert (replica_name st) (replicas qe)\<rparr>),
                         version := version stat2 + 1\<rparr>))"
  using assms
  by (simp add: updateQuorum_round_def tryGet_def trySet_ok after_write_def Let_def)

lemma round_last_part_conflict:
  assumes "zk (quorum_status_path part False) = Some stat"
    and "data stat = QuorumData qe" and "part_name qe = part"
    and "required_number_of_replicas qe \<le> card (insert (replica_name st) (replicas qe))"
    and "others_after_read round zk quorum_last_part_path = Some lp"
    and "parse_added_parts (data lp) = Inr added"
    and "tryParsePartName c part = Some part_info"
    and "others_before_write round (others_after_read round zk) (quorum_status_path part False) = Some stat2"
    and "version_matches (version stat) stat2"
    and "others_before_write round (others_after_read round zk) quorum_last_part_path = Some lp2"
    and "\<not> version_matches (version lp) lp2"
  shows "updateQuorum_round c st part False round zk
           = Again (others_before_write round (others_after_read round zk))"
  using assms
  by (simp add: updateQuorum_round_def tryGet_def zk_get_def fromPartName_def
        tryMulti_remove_set_conflict after_write_def Let_def)

lemma round_entry_gone:
  assumes "zk (quorum_status_path part is_parallel) = Some stat"
    and "data stat = QuorumData qe" and "part_name qe = part"
    and "others_before_write round (others_after_read round zk) (quorum_status_path part is_parallel) = None"
    and "is_parallel \<or> card (insert (replica_name st) (replicas qe)) < required_number_of_replicas qe
         \<or> (\<exists>lp added part_info. others_after_read round zk quorum_last_part_path = Some lp
               \<and> parse_added_parts (data lp) = Inr added \<and> tryParsePartName c part = Some part_info)"
  shows "updateQuorum_round c st part is_parallel round zk
           = Finished (Inr ()) (others_before_write round (others_after_read round zk))"
proof (cases "required_number_of_replicas qe \<le> card (insert (replica_name st) (replicas qe))")
  case False
  then show ?thesis using assms(1-4)
    by (simp add: updateQuorum_round_def tryGet_def trySet_gone after_write_def Let_def)
next
  case True
  show ?thesis
  proof (cases is_parallel)
    case p: True
    then show ?thesis using True assms(1-4)
      by (simp add: updateQuorum_round_def tryGet_def tryMulti_remove_gone after_write_def Let_def)
  next
    case p: False
    then obtain lp added part_info where "others_after_read round zk quorum_last_part_path = Some lp"
      "parse_added_parts (data lp) = Inr added" "tryParsePartName c part = Some part_info"
      using True assms(5) by auto
    then show ?thesis using True p assms(1-4)
      by (simp add: updateQuorum_round_def tryGet_def zk_get_def fromPartName_def
            tryMulti_remove_gone after_write_def Let_def)
  qed
qed

lemma round_nothing_to_do:
  assumes "zk (quorum_status_path part is_parallel) = None
           \<or> (\<exists>stat qe. zk (quorum_status_path part is_parallel) = Some stat
                \<and> data stat = QuorumData qe \<and> part_name qe \<noteq> part)"
  shows "updateQuorum_round c st part is_parallel round zk = Finished (Inr ()) zk"
  using assms by (auto simp: updateQuorum_round_def tryGet_def)

text \<open>What holds of the quorum entry when \<^verbatim>\<open>updateQuorum\<close> has returned.\<close>

lemma tryMulti_remove_set_cases:
  assumes "tryMulti zk [RemoveRequest p v, SetRequest q d w] = (code, cs, zk')" and "p \<noteq> q"
  shows "(code = ZOK \<and> zk' p = None) \<or> (code = ZNONODE \<and> zk' = zk \<and> (zk p = None \<or> zk q = None))
         \<or> (code = ZBADVERSION \<and> zk' = zk)"
  using assms by (auto simp: tryMulti_def split: option.splits if_splits)

lemma tryMulti_remove_cases:
  assumes "tryMulti zk [RemoveRequest p v] = (code, cs, zk')"
  shows "(code = ZOK \<and> zk' p = None) \<or> (code = ZNONODE \<and> zk' = zk \<and> zk p = None)
         \<or> (code = ZBADVERSION \<and> zk' = zk)"
  using assms by (auto simp: tryMulti_def split: option.splits if_splits)

lemma trySet_cases:
  assumes "trySet zk p d v = (code, zk')"
  shows "(code = ZOK \<and> (\<exists>n. zk' p = Some n \<and> data n = d)) \<or> (code = ZNONODE \<and> zk' = zk \<and> zk p = None)
         \<or> (code = ZBADVERSION \<and> zk' = zk)"
  using assms by (auto simp: trySet_def split: option.splits if_splits)

lemma after_write_returns:
  "after_write code zk = Finished (Inr ()) zk' \<longleftrightarrow> (code = ZOK \<or> code = ZNONODE) \<and> zk' = zk"
  by (auto simp: after_write_def)

lemma round_returns_settled:
  assumes "updateQuorum_round c st part is_parallel round zk = Finished (Inr ()) zk'"
  shows "zk' (quorum_status_path part is_parallel) = None
         \<or> (\<exists>stat' qe'. zk' (quorum_status_path part is_parallel) = Some stat' \<and> data stat' = QuorumData qe'
               \<and> (part_name qe' \<noteq> part \<or> replica_name st \<in> replicas qe'))
         \<or> (\<not> is_parallel \<and> zk' quorum_last_part_path = None)"
proof (cases "zk (quorum_status_path part is_parallel)")
  case None
  then show ?thesis using assms by (auto simp add: updateQuorum_round_def tryGet_def)
next
  case (Some stat)
  show ?thesis
  proof (cases "data stat")
    case (QuorumData qe)
    show ?thesis
    proof (cases "part_name qe = part")
      case False
      then show ?thesis using assms Some QuorumData
        by (auto simp add: updateQuorum_round_def tryGet_def)
    next
      case pn: True
      define zkr where "zkr = others_after_read round zk"
      define zkw where "zkw = others_before_write round zkr"
      define qe1 where "qe1 = qe\<lparr>replicas := insert (replica_name st) (replicas qe)\<rparr>"
      show ?thesis
      proof (cases "required_number_of_replicas qe \<le> card (insert (replica_name st) (replicas qe))")
        case False
        obtain code zk2 where ts: "trySet zkw (quorum_status_path part is_parallel) (QuorumData qe1) (version stat) = (code, zk2)"
          by (cases "trySet zkw (quorum_status_path part is_parallel) (QuorumData qe1) (version stat)") auto
        have "after_write code zk2 = Finished (Inr ()) zk'"
          using assms Some QuorumData pn False ts
          by (simp add: updateQuorum_round_def tryGet_def Let_def zkr_def zkw_def qe1_def)
        then have c: "(code = ZOK \<or> code = ZNONODE) \<and> zk' = zk2" by (simp add: after_write_returns)
        show ?thesis using trySet_cases[OF ts] c
          by (auto simp: qe1_def)
      next
        case True
        show ?thesis
        proof (cases is_parallel)
          case p: True
          obtain code cs zk2 where tm: "tryMulti zkw [RemoveRequest (quorum_status_path part is_parallel) (version stat)] = (code, cs, zk2)"
            by (cases "tryMulti zkw [RemoveRequest (quorum_status_path part is_parallel) (version stat)]") auto
          have "after_write code zk2 = Finished (Inr ()) zk'"
            using assms Some QuorumData pn True p tm
            by (simp add: updateQuorum_round_def tryGet_def Let_def zkr_def zkw_def)
          then have c: "(code = ZOK \<or> code = ZNONODE) \<and> zk' = zk2" by (simp add: after_write_returns)
          show ?thesis using tryMulti_remove_cases[OF tm] c
            by auto
        next
          case p: False
          from assms Some QuorumData pn True p
          obtain lp where lp: "zkr quorum_last_part_path = Some lp"
            by (cases "zkr quorum_last_part_path")
               (simp_all add: updateQuorum_round_def tryGet_def zk_get_def Let_def zkr_def)
          from assms Some QuorumData pn True p lp
          obtain added where ad: "parse_added_parts (data lp) = Inr added"
            by (cases "parse_added_parts (data lp)")
               (simp_all add: updateQuorum_round_def tryGet_def zk_get_def Let_def zkr_def)
          from assms Some QuorumData pn True p lp ad
          obtain part_info where pi: "tryParsePartName c part = Some part_info"
            by (cases "tryParsePartName c part")
               (simp_all add: updateQuorum_round_def tryGet_def zk_get_def fromPartName_def Let_def zkr_def)
          define ops where "ops = [RemoveRequest (quorum_status_path part is_parallel) (version stat),
                                   SetRequest quorum_last_part_path
                                     (AddedPartsData (AList.update (partition_id part_info) part added))
                                     (version lp)]"
          obtain code cs zk2 where tm: "tryMulti zkw ops = (code, cs, zk2)"
            by (cases "tryMulti zkw ops") auto
          have "after_write code zk2 = Finished (Inr ()) zk'"
            using assms Some QuorumData pn True p lp ad pi tm
            by (simp add: updateQuorum_round_def tryGet_def zk_get_def fromPartName_def Let_def
                  zkr_def zkw_def ops_def)
          then have c: "(code = ZOK \<or> code = ZNONODE) \<and> zk' = zk2" by (simp add: after_write_returns)
          show ?thesis using tryMulti_remove_set_cases[OF tm[unfolded ops_def]] c p
            by auto
        qed
      qed
    qed
  qed (use Some assms in \<open>simp_all add: updateQuorum_round_def tryGet_def\<close>)
qed

lemma updateQuorum_returns_settled:
  "updateQuorum c st part is_parallel rounds zk = Some (Inr (), zk') \<Longrightarrow>
     zk' (quorum_status_path part is_parallel) = None
         \<or> (\<exists>stat' qe'. zk' (quorum_status_path part is_parallel) = Some stat' \<and> data stat' = QuorumData qe'
               \<and> (part_name qe' \<noteq> part \<or> replica_name st \<in> replicas qe'))
         \<or> (\<not> is_parallel \<and> zk' quorum_last_part_path = None)"
proof (induction rounds arbitrary: zk)
  case Nil
  then show ?case by simp
next
  case (Cons round rounds)
  show ?case
  proof (cases "updateQuorum_round c st part is_parallel round zk")
    case (Finished r zk1)
    then show ?thesis using Cons.prems round_returns_settled[of c st part is_parallel round zk zk'] by simp
  next
    case (Again zk1)
    then show ?thesis using Cons.prems Cons.IH[of zk1] by simp
  qed
qed

text \<open>
  C2, as amended. For every part confirmed by this replica, each pass of \<^verbatim>\<open>updateQuorum\<close>
  re-reads the in-flight quorum entry and adds this replica to its confirmation set. Once
  the set's size reaches the required number of replicas, one multi-op that checks the
  versions of both nodes deletes the quorum entry and, unless the quorum is a parallel one,
  records the part as the partition's last quorum part; for a parallel quorum the multi-op
  only deletes the entry. Below the required number the extended set is written back under
  a version check. On any version conflict, on the quorum entry or on the node of the last
  quorum parts, nothing is written and the function re-reads and repeats. It returns only
  when it wins or observes the quorum already achieved by another replica: the entry is
  absent or belongs to another part when read, or the write is answered with "no node"; so
  after a return the entry is gone, or belongs to another part, or holds this replica's
  confirmation (or the node of the last quorum parts is gone). A pass that no other client
  disturbs always ends the loop.
\<close>

theorem quorum_update_wins_or_repeats:
  "(zk (quorum_status_path part is_parallel) = Some stat \<and> data stat = QuorumData qe \<and> part_name qe = part
     \<and> zkr = others_after_read round zk \<and> zkw = others_before_write round zkr
    \<longrightarrow>
      (\<not> is_parallel \<and> required_number_of_replicas qe \<le> card (insert (replica_name st) (replicas qe))
         \<and> zkr quorum_last_part_path = Some lp \<and> parse_added_parts (data lp) = Inr added
         \<and> tryParsePartName c part = Some part_info
       \<longrightarrow> (zkw (quorum_status_path part is_parallel) = Some stat2 \<and> version_matches (version stat) stat2
              \<and> zkw quorum_last_part_path = Some lp2 \<and> version_matches (version lp) lp2
             \<longrightarrow> updateQuorum c st part is_parallel (round # rounds) zk =
                   Some (Inr (),
                         zkw(quorum_status_path part is_parallel := None,
                             quorum_last_part_path \<mapsto>
                               lp2\<lparr>data := AddedPartsData (AList.update (partition_id part_info) part added),
                                   version := version lp2 + 1\<rparr>))
                 \<and> map_of (AList.update (partition_id part_info) part added) (partition_id part_info) = Some part)
           \<and> (zkw (quorum_status_path part is_parallel) = Some stat2 \<and> version_matches (version stat) stat2
              \<and> zkw quorum_last_part_path = Some lp2 \<and> \<not> version_matches (version lp) lp2
             \<longrightarrow> updateQuorum c st part is_parallel (round # rounds) zk = updateQuorum c st part is_parallel rounds zkw)
           \<and> (zkw (quorum_status_path part is_parallel) = Some stat2 \<and> \<not> version_matches (version stat) stat2
             \<longrightarrow> updateQuorum c st part is_parallel (round # rounds) zk = updateQuorum c st part is_parallel rounds zkw)
           \<and> (zkw (quorum_status_path part is_parallel) = None
             \<longrightarrow> updateQuorum c st part is_parallel (round # rounds) zk = Some (Inr (), zkw)))
      \<and> (is_parallel \<and> required_number_of_replicas qe \<le> card (insert (replica_name st) (replicas qe))
       \<longrightarrow> (zkw (quorum_status_path part is_parallel) = Some stat2 \<and> version_matches (version stat) stat2
             \<longrightarrow> updateQuorum c st part is_parallel (round # rounds) zk = Some (Inr (), zkw(quorum_status_path part is_parallel := None)))
           \<and> (zkw (quorum_status_path part is_parallel) = Some stat2 \<and> \<not> version_matches (version stat) stat2
             \<longrightarrow> updateQuorum c st part is_parallel (round # rounds) zk = updateQuorum c st part is_parallel rounds zkw)
           \<and> (zkw (quorum_status_path part is_parallel) = None
             \<longrightarrow> updateQuorum c st part is_parallel (round # rounds) zk = Some (Inr (), zkw)))
      \<and> (card (insert (replica_name st) (replicas qe)) < required_number_of_replicas qe
       \<longrightarrow> (zkw (quorum_status_path part is_parallel) = Some stat2 \<and> version_matches (version stat) stat2
             \<longrightarrow> updateQuorum c st part is_parallel (round # rounds) zk =
                   Some (Inr (),
                         zkw(quorum_status_path part is_parallel \<mapsto>
                               stat2\<lparr>data := QuorumData (qe\<lparr>replicas := insert (replica_name st) (replicas qe)\<rparr>),
                                     version := version stat2 + 1\<rparr>)))
           \<and> (zkw (quorum_status_path part is_parallel) = Some stat2 \<and> \<not> version_matches (version stat) stat2
             \<longrightarrow> updateQuorum c st part is_parallel (round # rounds) zk = updateQuorum c st part is_parallel rounds zkw)
           \<and> (zkw (quorum_status_path part is_parallel) = None
             \<longrightarrow> updateQuorum c st part is_parallel (round # rounds) zk = Some (Inr (), zkw))))
   \<and> (zk0 (quorum_status_path part is_parallel) = None
       \<or> zk0 (quorum_status_path part is_parallel) = Some stat0 \<and> data stat0 = QuorumData qe0 \<and> part_name qe0 \<noteq> part
      \<longrightarrow> updateQuorum c st part is_parallel (round0 # rounds0) zk0 = Some (Inr (), zk0))
   \<and> updateQuorum c st part is_parallel (noisy @ quiet_round # rounds1) zk1 \<noteq> None
   \<and> (updateQuorum c st part is_parallel rounds2 zk2 = Some (Inr (), zk')
      \<longrightarrow> zk' (quorum_status_path part is_parallel) = None
         \<or> (\<exists>stat' qe'. zk' (quorum_status_path part is_parallel) = Some stat' \<and> data stat' = QuorumData qe'
               \<and> (part_name qe' \<noteq> part \<or> replica_name st \<in> replicas qe'))
         \<or> (\<not> is_parallel \<and> zk' quorum_last_part_path = None))"
proof (intro conjI impI)
  assume h: "zk (quorum_status_path part is_parallel) = Some stat \<and> data stat = QuorumData qe \<and> part_name qe = part
     \<and> zkr = others_after_read round zk \<and> zkw = others_before_write round zkr"
    and r: "\<not> is_parallel \<and> required_number_of_replicas qe \<le> card (insert (replica_name st) (replicas qe))
         \<and> zkr quorum_last_part_path = Some lp \<and> parse_added_parts (data lp) = Inr added
         \<and> tryParsePartName c part = Some part_info"
    and w: "zkw (quorum_status_path part is_parallel) = Some stat2 \<and> version_matches (version stat) stat2
              \<and> zkw quorum_last_part_path = Some lp2 \<and> version_matches (version lp) lp2"
  show "updateQuorum c st part is_parallel (round # rounds) zk =
                   Some (Inr (),
                         zkw(quorum_status_path part is_parallel := None,
                             quorum_last_part_path \<mapsto>
                               lp2\<lparr>data := AddedPartsData (AList.update (partition_id part_info) part added),
                                   version := version lp2 + 1\<rparr>))"
    using h r w round_win_not_parallel[where zk=zk and part=part and stat=stat and qe=qe and st=st and round=round and lp=lp and added=added and c=c and part_info=part_info and ?stat2.0=stat2 and ?lp2.0=lp2] by (simp)
  show "map_of (AList.update (partition_id part_info) part added) (partition_id part_info) = Some part"
    by (simp add: update_conv')
next
  assume h: "zk (quorum_status_path part is_parallel) = Some stat \<and> data stat = QuorumData qe \<and> part_name qe = part
     \<and> zkr = others_after_read round zk \<and> zkw = others_before_write round zkr"
    and r: "\<not> is_parallel \<and> required_number_of_replicas qe \<le> card (insert (replica_name st) (replicas qe))
         \<and> zkr quorum_last_part_path = Some lp \<and> parse_added_parts (data lp) = Inr added
         \<and> tryParsePartName c part = Some part_info"
    and w: "zkw (quorum_status_path part is_parallel) = Some stat2 \<and> version_matches (version stat) stat2
              \<and> zkw quorum_last_part_path = Some lp2 \<and> \<not> version_matches (version lp) lp2"
  show "updateQuorum c st part is_parallel (round # rounds) zk = updateQuorum c st part is_parallel rounds zkw"
    using h r w round_last_part_conflict[where zk=zk and part=part and stat=stat and qe=qe and st=st and round=round and lp=lp and added=added and c=c and part_info=part_info and ?stat2.0=stat2 and ?lp2.0=lp2] by (simp)
next
  assume h: "zk (quorum_status_path part is_parallel) = Some stat \<and> data stat = QuorumData qe \<and> part_name qe = part
     \<and> zkr = others_after_read round zk \<and> zkw = others_before_write round zkr"
    and r: "\<not> is_parallel \<and> required_number_of_replicas qe \<le> card (insert (replica_name st) (replicas qe))
         \<and> zkr quorum_last_part_path = Some lp \<and> parse_added_parts (data lp) = Inr added
         \<and> tryParsePartName c part = Some part_info"
    and w: "zkw (quorum_status_path part is_parallel) = Some stat2 \<and> \<not> version_matches (version stat) stat2"
  show "updateQuorum c st part is_parallel (round # rounds) zk = updateQuorum c st part is_parallel rounds zkw"
    using h r w round_conflict[where zk=zk and part=part and is_parallel=is_parallel and stat=stat and qe=qe and st=st and round=round and c=c and ?stat2.0=stat2] by auto
next
  assume h: "zk (quorum_status_path part is_parallel) = Some stat \<and> data stat = QuorumData qe \<and> part_name qe = part
     \<and> zkr = others_after_read round zk \<and> zkw = others_before_write round zkr"
    and r: "\<not> is_parallel \<and> required_number_of_replicas qe \<le> card (insert (replica_name st) (replicas qe))
         \<and> zkr quorum_last_part_path = Some lp \<and> parse_added_parts (data lp) = Inr added
         \<and> tryParsePartName c part = Some part_info"
    and w: "zkw (quorum_status_path part is_parallel) = None"
  show "updateQuorum c st part is_parallel (round # rounds) zk = Some (Inr (), zkw)"
    using h r w round_entry_gone[where zk=zk and part=part and is_parallel=is_parallel and stat=stat and qe=qe and st=st and round=round and c=c] by auto
next
  assume h: "zk (quorum_status_path part is_parallel) = Some stat \<and> data stat = QuorumData qe \<and> part_name qe = part
     \<and> zkr = others_after_read round zk \<and> zkw = others_before_write round zkr"
    and r: "is_parallel \<and> required_number_of_replicas qe \<le> card (insert (replica_name st) (replicas qe))"
    and w: "zkw (quorum_status_path part is_parallel) = Some stat2 \<and> version_matches (version stat) stat2"
  show "updateQuorum c st part is_parallel (round # rounds) zk = Some (Inr (), zkw(quorum_status_path part is_parallel := None))"
    using h r w round_win_parallel[where zk=zk and part=part and stat=stat and qe=qe and st=st and round=round and c=c and ?stat2.0=stat2] by (simp)
next
  assume h: "zk (quorum_status_path part is_parallel) = Some stat \<and> data stat = QuorumData qe \<and> part_name qe = part
     \<and> zkr = others_after_read round zk \<and> zkw = others_before_write round zkr"
    and r: "is_parallel \<and> required_number_of_replicas qe \<le> card (insert (replica_name st) (replicas qe))"
    and w: "zkw (quorum_status_path part is_parallel) = Some stat2 \<and> \<not> version_matches (version stat) stat2"
  show "updateQuorum c st part is_parallel (round # rounds) zk = updateQuorum c st part is_parallel rounds zkw"
    using h r w round_conflict[where zk=zk and part=part and is_parallel=is_parallel and stat=stat and qe=qe and st=st and round=round and c=c and ?stat2.0=stat2] by auto
next
  assume h: "zk (quorum_status_path part is_parallel) = Some stat \<and> data stat = QuorumData qe \<and> part_name qe = part
     \<and> zkr = others_after_read round zk \<and> zkw = others_before_write round zkr"
    and r: "is_parallel \<and> required_number_of_replicas qe \<le> card (insert (replica_name st) (replicas qe))"
    and w: "zkw (quorum_status_path part is_parallel) = None"
  show "updateQuorum c st part is_parallel (round # rounds) zk = Some (Inr (), zkw)"
    using h r w round_entry_gone[where zk=zk and part=part and is_parallel=is_parallel and stat=stat and qe=qe and st=st and round=round and c=c] by auto
next
  assume h: "zk (quorum_status_path part is_parallel) = Some stat \<and> data stat = QuorumData qe \<and> part_name qe = part
     \<and> zkr = others_after_read round zk \<and> zkw = others_before_write round zkr"
    and r: "card (insert (replica_name st) (replicas qe)) < required_number_of_replicas qe"
    and w: "zkw (quorum_status_path part is_parallel) = Some stat2 \<and> version_matches (version stat) stat2"
  show "updateQuorum c st part is_parallel (round # rounds) zk =
                   Some (Inr (),
                         zkw(quorum_status_path part is_parallel \<mapsto>
                               stat2\<lparr>data := QuorumData (qe\<lparr>replicas := insert (replica_name st) (replicas qe)\<rparr>),
                                     version := version stat2 + 1\<rparr>))"
    using h r w round_written_back[where zk=zk and part=part and is_parallel=is_parallel and stat=stat and qe=qe and st=st and round=round and c=c and ?stat2.0=stat2] by (simp)
next
  assume h: "zk (quorum_status_path part is_parallel) = Some stat \<and> data stat = QuorumData qe \<and> part_name qe = part
     \<and> zkr = others_after_read round zk \<and> zkw = others_before_write round zkr"
    and r: "card (insert (replica_name st) (replicas qe)) < required_number_of_replicas qe"
    and w: "zkw (quorum_status_path part is_parallel) = Some stat2 \<and> \<not> version_matches (version stat) stat2"
  show "updateQuorum c st part is_parallel (round # rounds) zk = updateQuorum c st part is_parallel rounds zkw"
    using h r w round_conflict[where zk=zk and part=part and is_parallel=is_parallel and stat=stat and qe=qe and st=st and round=round and c=c and ?stat2.0=stat2] by auto
next
  assume h: "zk (quorum_status_path part is_parallel) = Some stat \<and> data stat = QuorumData qe \<and> part_name qe = part
     \<and> zkr = others_after_read round zk \<and> zkw = others_before_write round zkr"
    and r: "card (insert (replica_name st) (replicas qe)) < required_number_of_replicas qe"
    and w: "zkw (quorum_status_path part is_parallel) = None"
  show "updateQuorum c st part is_parallel (round # rounds) zk = Some (Inr (), zkw)"
    using h r w round_entry_gone[where zk=zk and part=part and is_parallel=is_parallel and stat=stat and qe=qe and st=st and round=round and c=c] by auto
next
  assume d: "zk0 (quorum_status_path part is_parallel) = None
       \<or> zk0 (quorum_status_path part is_parallel) = Some stat0 \<and> data stat0 = QuorumData qe0 \<and> part_name qe0 \<noteq> part"
  show "updateQuorum c st part is_parallel (round0 # rounds0) zk0 = Some (Inr (), zk0)"
    using d round_nothing_to_do[where zk=zk0 and part=part and is_parallel=is_parallel and c=c and st=st and round=round0] by auto
next
  show "updateQuorum c st part is_parallel (noisy @ quiet_round # rounds1) zk1 \<noteq> None"
    by (rule updateQuorum_returns)
next
  assume f: "updateQuorum c st part is_parallel rounds2 zk2 = Some (Inr (), zk')"
  show "zk' (quorum_status_path part is_parallel) = None
         \<or> (\<exists>stat' qe'. zk' (quorum_status_path part is_parallel) = Some stat' \<and> data stat' = QuorumData qe'
               \<and> (part_name qe' \<noteq> part \<or> replica_name st \<in> replicas qe'))
         \<or> (\<not> is_parallel \<and> zk' quorum_last_part_path = None)"
    using updateQuorum_returns_settled[OF f] .
qed

theorem quorum_update_wins_or_repeats_witness:
  "demo_zk_quorum 2 (quorum_status_path ''p_1_1_0'' False)
      = Some \<lparr> data = QuorumData (demo_quorum_entry 2 {''r2''}), version = 4, seq_num = 0 \<rparr>
   \<and> demo_zk_quorum 2 (quorum_status_path ''p_1_1_0'' True)
      = Some \<lparr> data = QuorumData (demo_quorum_entry 2 {''r2''}), version = 0, seq_num = 0 \<rparr>
   \<and> card (insert (replica_name demo_storage) (replicas (demo_quorum_entry 2 {''r2''}))) = 2
   \<and> demo_zk_quorum 2 quorum_last_part_path = Some \<lparr> data = Str [], version = 1, seq_num = 0 \<rparr>
   \<and> tryParsePartName demo_decls ''p_1_1_0''
      = Some \<lparr> partition_id = ''p'', min_block = 1, max_block = 1, level = 0, mutation = 0 \<rparr>
   \<and> updateQuorum demo_decls demo_storage ''p_1_1_0'' False [quiet_round] (demo_zk_quorum 2)
      = Some (Inr (),
              (demo_zk_quorum 2)
                (quorum_status_path ''p_1_1_0'' False := None,
                 quorum_last_part_path
                   \<mapsto> \<lparr> data = AddedPartsData [(''p'', ''p_1_1_0'')], version = 2, seq_num = 0 \<rparr>))
   \<and> updateQuorum demo_decls demo_storage ''p_1_1_0'' True [quiet_round] (demo_zk_quorum 2)
      = Some (Inr (), (demo_zk_quorum 2)(quorum_status_path ''p_1_1_0'' True := None))
   \<and> updateQuorum demo_decls demo_storage ''p_1_1_0'' False [quiet_round] (demo_zk_quorum 3)
      = Some (Inr (),
              (demo_zk_quorum 3)
                (quorum_status_path ''p_1_1_0'' False
                   \<mapsto> \<lparr> data = QuorumData (demo_quorum_entry 3 {''r1'', ''r2''}), version = 5, seq_num = 0 \<rparr>))
   \<and> updateQuorum demo_decls demo_storage ''p_1_1_0'' False [demo_racing_round, quiet_round] (demo_zk_quorum 3)
      = updateQuorum demo_decls demo_storage ''p_1_1_0'' False [quiet_round]
          (others_before_write demo_racing_round (demo_zk_quorum 3))
   \<and> updateQuorum demo_decls demo_storage ''p_1_1_0'' False [demo_last_part_round, quiet_round] (demo_zk_quorum 2)
      = Some (Inr (),
              (others_before_write demo_last_part_round (demo_zk_quorum 2))
                (quorum_status_path ''p_1_1_0'' False := None,
                 quorum_last_part_path
                   \<mapsto> \<lparr> data = AddedPartsData [(''q'', ''q_5_5_0''), (''p'', ''p_1_1_0'')],
                          version = 3, seq_num = 0 \<rparr>))
   \<and> updateQuorum demo_decls demo_storage ''p_1_1_0'' False [demo_racing_round, quiet_round] (demo_zk_quorum 3)
      \<noteq> None
   \<and> updateQuorum demo_decls demo_storage ''p_1_1_0'' False [demo_finished_round] (demo_zk_quorum 3)
      = Some (Inr (), (demo_zk_quorum 3)(quorum_status_path ''p_1_1_0'' False := None))
   \<and> updateQuorum demo_decls demo_storage ''p_2_2_0'' False [quiet_round] (demo_zk_quorum 2)
      = Some (Inr (), demo_zk_quorum 2)
   \<and> replica_name demo_storage \<in> replicas (demo_quorum_entry 3 {''r1'', ''r2''})"
proof -
  define raced where "raced = others_before_write demo_last_part_round (demo_zk_quorum 2)"
  have s2: "demo_zk_quorum 2 (quorum_status_path ''p_1_1_0'' False)
      = Some \<lparr> data = QuorumData (demo_quorum_entry 2 {''r2''}), version = 4, seq_num = 0 \<rparr>"
    and p2: "demo_zk_quorum 2 (quorum_status_path ''p_1_1_0'' True)
      = Some \<lparr> data = QuorumData (demo_quorum_entry 2 {''r2''}), version = 0, seq_num = 0 \<rparr>"
    and s3: "demo_zk_quorum 3 (quorum_status_path ''p_1_1_0'' False)
      = Some \<lparr> data = QuorumData (demo_quorum_entry 3 {''r2''}), version = 4, seq_num = 0 \<rparr>"
    and l2: "demo_zk_quorum 2 quorum_last_part_path = Some \<lparr> data = Str [], version = 1, seq_num = 0 \<rparr>"
    and pa: "parse_added_parts (Str []) = Inr []"
      "parse_added_parts (AddedPartsData [(''q'', ''q_5_5_0'')]) = Inr [(''q'', ''q_5_5_0'')]"
    and tp: "tryParsePartName demo_decls ''p_1_1_0''
      = Some \<lparr> partition_id = ''p'', min_block = 1, max_block = 1, level = 0, mutation = 0 \<rparr>"
    by (simp_all add: quorum_eval_defs)
  have rs: "raced (quorum_status_path ''p_1_1_0'' False)
      = Some \<lparr> data = QuorumData (demo_quorum_entry 2 {''r2''}), version = 4, seq_num = 0 \<rparr>"
    and rl: "raced quorum_last_part_path
      = Some \<lparr> data = AddedPartsData [(''q'', ''q_5_5_0'')], version = 2, seq_num = 0 \<rparr>"
    using s2 by (simp_all add: raced_def demo_last_part_round_def)
  have c2: "card (insert (replica_name demo_storage) (replicas (demo_quorum_entry 2 {''r2''}))) = 2"
    and c3: "card (insert (replica_name demo_storage) (replicas (demo_quorum_entry 3 {''r2''}))) = 2"
    and i3: "insert (replica_name demo_storage) (replicas (demo_quorum_entry 3 {''r2''})) = {''r1'', ''r2''}"
    by (simp_all add: quorum_eval_defs)
  have pn: "part_name (demo_quorum_entry n S) = ''p_1_1_0''"
    "required_number_of_replicas (demo_quorum_entry n S) = n" for n S
    by (simp_all add: demo_quorum_entry_def)
  have q: "others_after_read quiet_round z = z" "others_before_write quiet_round z = z"
    "others_after_read demo_racing_round z = z" "others_after_read demo_last_part_round z = z" for z
    by (simp_all add: quiet_round_def demo_racing_round_def demo_last_part_round_def)
  have race: "others_before_write demo_racing_round (demo_zk_quorum 3) (quorum_status_path ''p_1_1_0'' False)
      = Some \<lparr> data = QuorumData (demo_quorum_entry 3 {''r2'', ''r3''}), version = 5, seq_num = 0 \<rparr>"
    by (simp add: demo_racing_round_def)
  have vm: "version_matches 4 \<lparr> data = QuorumData (demo_quorum_entry 2 {''r2''}), version = 4, seq_num = 0 \<rparr>"
    "version_matches 0 \<lparr> data = QuorumData (demo_quorum_entry 2 {''r2''}), version = 0, seq_num = 0 \<rparr>"
    "version_matches 4 \<lparr> data = QuorumData (demo_quorum_entry 3 {''r2''}), version = 4, seq_num = 0 \<rparr>"
    "\<not> version_matches 4 \<lparr> data = QuorumData (demo_quorum_entry 3 {''r2'', ''r3''}), version = 5, seq_num = 0 \<rparr>"
    "version_matches 1 \<lparr> data = Str [], version = 1, seq_num = 0 \<rparr>"
    "\<not> version_matches 1 \<lparr> data = AddedPartsData [(''q'', ''q_5_5_0'')], version = 2, seq_num = 0 \<rparr>"
    "version_matches 2 \<lparr> data = AddedPartsData [(''q'', ''q_5_5_0'')], version = 2, seq_num = 0 \<rparr>"
    by (simp_all add: version_matches_def)
  note a = quorum_update_wins_or_repeats
      [where zk="demo_zk_quorum 2" and zkr="demo_zk_quorum 2" and zkw="demo_zk_quorum 2" and round=quiet_round
         and part="''p_1_1_0''" and is_parallel=False
         and stat="\<lparr> data = QuorumData (demo_quorum_entry 2 {''r2''}), version = 4, seq_num = 0 \<rparr>"
         and ?stat2.0="\<lparr> data = QuorumData (demo_quorum_entry 2 {''r2''}), version = 4, seq_num = 0 \<rparr>"
         and qe="demo_quorum_entry 2 {''r2''}" and st=demo_storage
         and lp="\<lparr> data = Str [], version = 1, seq_num = 0 \<rparr>"
         and ?lp2.0="\<lparr> data = Str [], version = 1, seq_num = 0 \<rparr>" and added="[]" and c=demo_decls
         and part_info="\<lparr> partition_id = ''p'', min_block = 1, max_block = 1, level = 0, mutation = 0 \<rparr>"
         and rounds="[]", THEN conjunct1]
  note b = quorum_update_wins_or_repeats
      [where zk="demo_zk_quorum 2" and zkr="demo_zk_quorum 2" and zkw="demo_zk_quorum 2" and round=quiet_round
         and part="''p_1_1_0''" and is_parallel=True
         and stat="\<lparr> data = QuorumData (demo_quorum_entry 2 {''r2''}), version = 0, seq_num = 0 \<rparr>"
         and ?stat2.0="\<lparr> data = QuorumData (demo_quorum_entry 2 {''r2''}), version = 0, seq_num = 0 \<rparr>"
         and qe="demo_quorum_entry 2 {''r2''}" and st=demo_storage and c=demo_decls and rounds="[]",
       THEN conjunct1]
  note d = quorum_update_wins_or_repeats
      [where zk="demo_zk_quorum 3" and zkr="demo_zk_quorum 3" and zkw="demo_zk_quorum 3" and round=quiet_round
         and part="''p_1_1_0''" and is_parallel=False
         and stat="\<lparr> data = QuorumData (demo_quorum_entry 3 {''r2''}), version = 4, seq_num = 0 \<rparr>"
         and ?stat2.0="\<lparr> data = QuorumData (demo_quorum_entry 3 {''r2''}), version = 4, seq_num = 0 \<rparr>"
         and qe="demo_quorum_entry 3 {''r2''}" and st=demo_storage and c=demo_decls and rounds="[]",
       THEN conjunct1]
  note e = quorum_update_wins_or_repeats
      [where zk="demo_zk_quorum 3" and zkr="demo_zk_quorum 3"
         and zkw="others_before_write demo_racing_round (demo_zk_quorum 3)" and round=demo_racing_round
         and part="''p_1_1_0''" and is_parallel=False
         and stat="\<lparr> data = QuorumData (demo_quorum_entry 3 {''r2''}), version = 4, seq_num = 0 \<rparr>"
         and ?stat2.0="\<lparr> data = QuorumData (demo_quorum_entry 3 {''r2'', ''r3''}), version = 5, seq_num = 0 \<rparr>"
         and qe="demo_quorum_entry 3 {''r2''}" and st=demo_storage and c=demo_decls and rounds="[quiet_round]",
       THEN conjunct1]
  note f = quorum_update_wins_or_repeats
      [where zk="demo_zk_quorum 2" and zkr="demo_zk_quorum 2" and zkw=raced and round=demo_last_part_round
         and part="''p_1_1_0''" and is_parallel=False
         and stat="\<lparr> data = QuorumData (demo_quorum_entry 2 {''r2''}), version = 4, seq_num = 0 \<rparr>"
         and ?stat2.0="\<lparr> data = QuorumData (demo_quorum_entry 2 {''r2''}), version = 4, seq_num = 0 \<rparr>"
         and qe="demo_quorum_entry 2 {''r2''}" and st=demo_storage
         and lp="\<lparr> data = Str [], version = 1, seq_num = 0 \<rparr>"
         and ?lp2.0="\<lparr> data = AddedPartsData [(''q'', ''q_5_5_0'')], version = 2, seq_num = 0 \<rparr>"
         and added="[]" and c=demo_decls
         and part_info="\<lparr> partition_id = ''p'', min_block = 1, max_block = 1, level = 0, mutation = 0 \<rparr>"
         and rounds="[quiet_round]", THEN conjunct1]
  note g = quorum_update_wins_or_repeats
      [where zk=raced and zkr=raced and zkw=raced and round=quiet_round
         and part="''p_1_1_0''" and is_parallel=False
         and stat="\<lparr> data = QuorumData (demo_quorum_entry 2 {''r2''}), version = 4, seq_num = 0 \<rparr>"
         and ?stat2.0="\<lparr> data = QuorumData (demo_quorum_entry 2 {''r2''}), version = 4, seq_num = 0 \<rparr>"
         and qe="demo_quorum_entry 2 {''r2''}" and st=demo_storage
         and lp="\<lparr> data = AddedPartsData [(''q'', ''q_5_5_0'')], version = 2, seq_num = 0 \<rparr>"
         and ?lp2.0="\<lparr> data = AddedPartsData [(''q'', ''q_5_5_0'')], version = 2, seq_num = 0 \<rparr>"
         and added="[(''q'', ''q_5_5_0'')]" and c=demo_decls
         and part_info="\<lparr> partition_id = ''p'', min_block = 1, max_block = 1, level = 0, mutation = 0 \<rparr>"
         and rounds="[]", THEN conjunct1]
  note t = quorum_update_wins_or_repeats
      [where c=demo_decls and st=demo_storage and part="''p_1_1_0''" and is_parallel=False
         and noisy="[demo_racing_round]" and ?rounds1.0="[]" and ?zk1.0="demo_zk_quorum 3",
       THEN conjunct2, THEN conjunct2, THEN conjunct1]
  have r1: "updateQuorum demo_decls demo_storage ''p_1_1_0'' False [quiet_round] (demo_zk_quorum 2)
      = Some (Inr (),
              (demo_zk_quorum 2)
                (quorum_status_path ''p_1_1_0'' False := None,
                 quorum_last_part_path
                   \<mapsto> \<lparr> data = AddedPartsData [(''p'', ''p_1_1_0'')], version = 2, seq_num = 0 \<rparr>))"
    using a s2 l2 pa tp c2 vm by (simp add: pn q del: updateQuorum.simps)
  have r2: "updateQuorum demo_decls demo_storage ''p_1_1_0'' True [quiet_round] (demo_zk_quorum 2)
      = Some (Inr (), (demo_zk_quorum 2)(quorum_status_path ''p_1_1_0'' True := None))"
    using b p2 c2 vm by (simp add: pn q del: updateQuorum.simps)
  have r3: "updateQuorum demo_decls demo_storage ''p_1_1_0'' False [quiet_round] (demo_zk_quorum 3)
      = Some (Inr (),
              (demo_zk_quorum 3)
                (quorum_status_path ''p_1_1_0'' False
                   \<mapsto> \<lparr> data = QuorumData (demo_quorum_entry 3 {''r1'', ''r2''}), version = 5, seq_num = 0 \<rparr>))"
    using d s3 c3 i3 vm by (simp add: pn q demo_quorum_entry_def del: updateQuorum.simps)
  have r4: "updateQuorum demo_decls demo_storage ''p_1_1_0'' False [demo_racing_round, quiet_round] (demo_zk_quorum 3)
      = updateQuorum demo_decls demo_storage ''p_1_1_0'' False [quiet_round]
          (others_before_write demo_racing_round (demo_zk_quorum 3))"
    using e s3 c3 race vm by (simp add: pn q del: updateQuorum.simps)
  have r5: "updateQuorum demo_decls demo_storage ''p_1_1_0'' False [demo_last_part_round, quiet_round] (demo_zk_quorum 2)
      = updateQuorum demo_decls demo_storage ''p_1_1_0'' False [quiet_round] raced"
    using f s2 l2 pa tp c2 rs rl vm by (simp add: pn q raced_def[symmetric] del: updateQuorum.simps)
  have r6: "updateQuorum demo_decls demo_storage ''p_1_1_0'' False [quiet_round] raced
      = Some (Inr (),
              raced
                (quorum_status_path ''p_1_1_0'' False := None,
                 quorum_last_part_path
                   \<mapsto> \<lparr> data = AddedPartsData [(''q'', ''q_5_5_0''), (''p'', ''p_1_1_0'')],
                          version = 3, seq_num = 0 \<rparr>))"
    using g pa tp c2 rs rl vm by (simp add: pn q del: updateQuorum.simps)
  have r7: "updateQuorum demo_decls demo_storage ''p_1_1_0'' False [demo_racing_round, quiet_round] (demo_zk_quorum 3)
      \<noteq> None"
    using t by (simp del: updateQuorum.simps)
  have gone: "others_before_write demo_finished_round (demo_zk_quorum 3) (quorum_status_path ''p_1_1_0'' False) = None"
    and fw: "others_before_write demo_finished_round (demo_zk_quorum 3)
               = (demo_zk_quorum 3)(quorum_status_path ''p_1_1_0'' False := None)"
    and fr: "others_after_read demo_finished_round z = z" for z
    by (simp_all add: demo_finished_round_def)
  note k = quorum_update_wins_or_repeats
      [where zk="demo_zk_quorum 3" and zkr="demo_zk_quorum 3"
         and zkw="others_before_write demo_finished_round (demo_zk_quorum 3)" and round=demo_finished_round
         and part="''p_1_1_0''" and is_parallel=False
         and stat="\<lparr> data = QuorumData (demo_quorum_entry 3 {''r2''}), version = 4, seq_num = 0 \<rparr>"
         and qe="demo_quorum_entry 3 {''r2''}" and st=demo_storage and c=demo_decls and rounds="[]",
       THEN conjunct1]
  have r8: "updateQuorum demo_decls demo_storage ''p_1_1_0'' False [demo_finished_round] (demo_zk_quorum 3)
      = Some (Inr (), (demo_zk_quorum 3)(quorum_status_path ''p_1_1_0'' False := None))"
    using k s3 c3 gone by (simp add: pn fr fw del: updateQuorum.simps)
  have so: "demo_zk_quorum 2 (quorum_status_path ''p_2_2_0'' False)
      = Some \<lparr> data = QuorumData (demo_quorum_entry 2 {''r2''}), version = 4, seq_num = 0 \<rparr>"
    by (simp add: quorum_eval_defs)
  note o = quorum_update_wins_or_repeats
      [where c=demo_decls and st=demo_storage and part="''p_2_2_0''" and is_parallel=False
         and ?zk0.0="demo_zk_quorum 2"
         and ?stat0.0="\<lparr> data = QuorumData (demo_quorum_entry 2 {''r2''}), version = 4, seq_num = 0 \<rparr>"
         and ?qe0.0="demo_quorum_entry 2 {''r2''}" and ?round0.0=quiet_round and ?rounds0.0="[]",
       THEN conjunct2, THEN conjunct1]
  have r9: "updateQuorum demo_decls demo_storage ''p_2_2_0'' False [quiet_round] (demo_zk_quorum 2)
      = Some (Inr (), demo_zk_quorum 2)"
    using o so by (simp add: pn del: updateQuorum.simps)
  have l3: "demo_zk_quorum 3 quorum_last_part_path \<noteq> None"
    by (simp add: quorum_eval_defs)
  note w = quorum_update_wins_or_repeats
      [where c=demo_decls and st=demo_storage and part="''p_1_1_0''" and is_parallel=False
         and ?rounds2.0="[quiet_round]" and ?zk2.0="demo_zk_quorum 3"
         and zk'="(demo_zk_quorum 3)
                (quorum_status_path ''p_1_1_0'' False
                   \<mapsto> \<lparr> data = QuorumData (demo_quorum_entry 3 {''r1'', ''r2''}), version = 5, seq_num = 0 \<rparr>)",
       THEN conjunct2, THEN conjunct2, THEN conjunct2, THEN mp, OF r3]
  have r10: "replica_name demo_storage \<in> replicas (demo_quorum_entry 3 {''r1'', ''r2''})"
    using w l3 by (simp add: pn)
  show ?thesis
    using s2 p2 c2 l2 tp r1 r2 r3 r4 r5[unfolded r6] r7 r8 r9 r10 unfolding raced_def by blast
qed

text \<open>
  The claim as stated has every quorum recorded as the partition's last quorum part. For a
  parallel quorum the entry is deleted when the quorum is reached, and the node of the last
  quorum parts stays as it was: empty.
\<close>

theorem parallel_quorum_not_recorded_counterexample:
  "demo_zk_quorum 2 (quorum_status_path ''p_1_1_0'' True)
      = Some \<lparr> data = QuorumData (demo_quorum_entry 2 {''r2''}), version = 0, seq_num = 0 \<rparr>
   \<and> card (insert (replica_name demo_storage) (replicas (demo_quorum_entry 2 {''r2''}))) = 2
   \<and> map_option fst (updateQuorum demo_decls demo_storage ''p_1_1_0'' True [quiet_round] (demo_zk_quorum 2))
      = Some (Inr ())
   \<and> map_option (\<lambda>r. snd r (quorum_status_path ''p_1_1_0'' True))
        (updateQuorum demo_decls demo_storage ''p_1_1_0'' True [quiet_round] (demo_zk_quorum 2))
      = Some None
   \<and> map_option (\<lambda>r. snd r quorum_last_part_path)
        (updateQuorum demo_decls demo_storage ''p_1_1_0'' True [quiet_round] (demo_zk_quorum 2))
      = Some (Some \<lparr> data = Str [], version = 1, seq_num = 0 \<rparr>)"
proof -
  have p2: "demo_zk_quorum 2 (quorum_status_path ''p_1_1_0'' True)
      = Some \<lparr> data = QuorumData (demo_quorum_entry 2 {''r2''}), version = 0, seq_num = 0 \<rparr>"
    and l2: "demo_zk_quorum 2 quorum_last_part_path = Some \<lparr> data = Str [], version = 1, seq_num = 0 \<rparr>"
    and c2: "card (insert (replica_name demo_storage) (replicas (demo_quorum_entry 2 {''r2''}))) = 2"
    by (simp_all add: quorum_eval_defs)
  have r: "updateQuorum_round demo_decls demo_storage ''p_1_1_0'' True quiet_round (demo_zk_quorum 2)
             = Finished (Inr ()) ((demo_zk_quorum 2)(quorum_status_path ''p_1_1_0'' True := None))"
    using round_reached_parallel[where zk="demo_zk_quorum 2" and part="''p_1_1_0''"
        and stat="\<lparr> data = QuorumData (demo_quorum_entry 2 {''r2''}), version = 0, seq_num = 0 \<rparr>"
        and qe="demo_quorum_entry 2 {''r2''}" and st=demo_storage and c=demo_decls] p2 c2
    by (simp add: demo_quorum_entry_def)
  show ?thesis using p2 l2 c2 r by simp
qed

subsection \<open>Lost version races\<close>

lemma mutate_parts_filter:
  "mutate_parts c env parts cr st zk now
     = mutate_parts c env (filter (mutation_candidate env) parts) cr st zk now"
proof (induction parts arbitrary: cr st zk)
  case Nil
  then show ?case by simp
next
  case (Cons part parts)
  show ?case
  proof (cases "mutation_candidate env part")
    case False
    then show ?thesis using Cons.IH[of cr st zk]
      by (auto simp: mutation_candidate_def split: option.splits)
  next
    case True
    then obtain d where d: "getDesiredMutationVersion env part = Some d"
      and b: "\<not> max_source_part_size_for_mutation env < getBytesOnDisk env part"
      by (auto simp: mutation_candidate_def)
    show ?thesis
      using True d b Cons.IH
      by (simp split: prod.splits sum.splits)
  qed
qed

lemma mutate_conflict:
  assumes "\<not> absent_in_zk st zk part"
    and "zk log_path = Some n" and "zk (SubSeq log_path ''log-'' (seq_num n)) = None"
    and "log_version \<noteq> -1" and "log_version \<noteq> version n"
  shows "createLogEntryToMutatePart c st zk part uuid mutation_version alter_version_arg log_version now
          = (Inr LogUpdated, st, zk)"
proof -
  have tm: "tryMulti zk [CreateRequest (Sub log_path ''log-'') d PersistentSequential,
                      SetRequest log_path (Str []) log_version]
           = (ZBADVERSION, [Some (SubSeq log_path ''log-'' (seq_num n))], zk)" for d
    using tryMulti_log_conflict[of zk n log_version] assms by simp
  show ?thesis
    using assms by (simp add: createLogEntryToMutatePart_def absent_in_zk_def tm Let_def)
qed

lemma merge_conflict:
  assumes "\<forall>p \<in> set parts. \<not> absent_in_zk st zk p"
    and "zk log_path = Some n" and "zk (SubSeq log_path ''log-'' (seq_num n)) = None"
    and "log_version \<noteq> -1" and "log_version \<noteq> version n"
  shows "createLogEntryToMergeParts c st zk parts merged_name uuid ptype dedup dedup_cols log_version mtype now
          = (Inr (LogUpdated, None), st, zk)"
proof -
  have tm: "tryMulti zk [CreateRequest (Sub log_path ''log-'') d PersistentSequential,
                      SetRequest log_path (Str []) log_version]
           = (ZBADVERSION, [Some (SubSeq log_path ''log-'' (seq_num n))], zk)" for d
    using tryMulti_log_conflict[of zk n log_version] assms by simp
  have f: "filter (\<lambda>p. absent_in_zk st zk p \<and> stale c now p) parts = []"
    using assms(1) by (simp add: filter_empty_conv)
  show ?thesis
    using assms(1) f by (simp add: createLogEntryToMergeParts_def check_parts_in_zk_start tm Let_def)
qed

lemma mutate_missing:
  assumes "absent_in_zk st zk part"
  shows "createLogEntryToMutatePart c st zk part uuid mutation_version alter_version_arg log_version now
          = (Inr MissingPart, if stale c now part then enqueuePartForCheck st (name part) else st, zk)"
  using assms by (simp add: createLogEntryToMutatePart_def absent_in_zk_def stale_def)

lemma mutate_parts_conflicts:
  assumes "zk log_path = Some n" and "zk (SubSeq log_path ''log-'' (seq_num n)) = None"
    and "getVersion env \<noteq> -1" and "getVersion env \<noteq> version n"
    and "\<forall>p \<in> set ps. mutation_candidate env p \<and> \<not> absent_in_zk st zk p"
  shows "mutate_parts c env (ps @ qs) cr st zk now
           = mutate_parts c env qs (if ps = [] then cr else LogUpdated) st zk now"
  using assms(5)
proof (induction ps arbitrary: cr)
  case Nil
  then show ?case by simp
next
  case (Cons p ps)
  then obtain d where d: "getDesiredMutationVersion env p = Some d"
    and b: "\<not> max_source_part_size_for_mutation env < getBytesOnDisk env p"
    and a: "\<not> absent_in_zk st zk p"
    by (auto simp: mutation_candidate_def)
  have m: "createLogEntryToMutatePart c st zk p (generated_uuid env) (fst d) (snd d) (getVersion env) now
          = (Inr LogUpdated, st, zk)"
    using mutate_conflict[OF a assms(1) assms(2) assms(3) assms(4)] .
  have "mutate_parts c env ((p # ps) @ qs) cr st zk now = mutate_parts c env (ps @ qs) LogUpdated st zk now"
    using d b m by simp
  also have "\<dots> = mutate_parts c env qs (if ps = [] then LogUpdated else LogUpdated) st zk now"
    using Cons.IH[of LogUpdated] Cons.prems by simp
  finally show ?case by simp
qed

lemma mutate_parts_last_missing:
  assumes "mutation_candidate env q" and "absent_in_zk st zk q"
  shows "mutate_parts c env [q] cr st zk now
           = (None, MissingPart, if stale c now q then enqueuePartForCheck st (name q) else st, zk)"
proof -
  obtain d where d: "getDesiredMutationVersion env q = Some d"
    and b: "\<not> max_source_part_size_for_mutation env < getBytesOnDisk env q"
    using assms(1) by (auto simp: mutation_candidate_def)
  show ?thesis using d b mutate_missing[OF assms(2), of c "generated_uuid env" "fst d" "snd d" "getVersion env" now]
    by simp
qed

text \<open>
  C6, as amended. Losing the version race on the shared log during merge selection is not
  an error: \<^verbatim>\<open>createLogEntryToMergeParts\<close> and \<^verbatim>\<open>createLogEntryToMutatePart\<close> return
  \<open>LogUpdated\<close>, throw nothing and leave the coordination service as it was. After a lost
  race on a merge entry \<^verbatim>\<open>mergeSelectingTask\<close> logs no exception and, if it still is the
  leader, schedules itself again at once. After a lost race on a mutation entry it goes on
  to the next part it may mutate: when every such part has its node (so every attempt loses
  the race) it schedules itself again at once, and when the last of them has no node the
  result is \<open>MissingPart\<close> and the task sleeps \<open>merge_selecting_sleep_ms\<close> first. A task that is
  not the leader does nothing and is not scheduled again. A partition operation is
  different: when \<^verbatim>\<open>dropAllPartsInPartition\<close> loses the race on the alter-partition version,
  it does not retry; it throws \<^verbatim>\<open>CANNOT_ASSIGN_ALTER\<close> to its caller at once, and the log gets
  no entry.
\<close>

theorem lost_version_race_outcomes:
  "((\<forall>p \<in> set parts. \<not> absent_in_zk st zk p)
      \<and> zk log_path = Some n \<and> zk (SubSeq log_path ''log-'' (seq_num n)) = None
      \<and> log_version \<noteq> -1 \<and> log_version \<noteq> version n
    \<longrightarrow> createLogEntryToMergeParts c st zk parts merged_name uuid ptype dedup dedup_cols log_version mtype now
          = (Inr (LogUpdated, None), st, zk))
   \<and> (\<not> absent_in_zk st zk part
      \<and> zk log_path = Some n \<and> zk (SubSeq log_path ''log-'' (seq_num n)) = None
      \<and> log_version \<noteq> -1 \<and> log_version \<noteq> version n
    \<longrightarrow> createLogEntryToMutatePart c st zk part uuid mutation_version alter_version_arg log_version now
          = (Inr LogUpdated, st, zk))
   \<and> (is_leader_before env
      \<and> queued_merges env + queued_mutations env < max_replicated_merges_in_queue env
      \<and> zk log_path = Some n \<and> zk (SubSeq log_path ''log-'' (seq_num n)) = None
      \<and> getVersion env \<noteq> -1 \<and> getVersion env \<noteq> version n
    \<longrightarrow> (0 < max_source_parts_size_for_merge env \<and> selectPartsToMerge env = Some f
          \<and> (\<forall>p \<in> set (future_parts f). \<not> absent_in_zk st zk p)
        \<longrightarrow> mergeSelectingTask c env st zk now
              = (if is_leader_after env then Schedule else NotScheduled, None, st, zk))
      \<and> ((0 < max_source_parts_size_for_merge env \<longrightarrow> selectPartsToMerge env = None)
          \<and> 0 < max_source_part_size_for_mutation env \<and> 0 < countMutations env
          \<and> queued_mutations env < max_replicated_mutations_in_queue env
        \<longrightarrow> (filter (mutation_candidate env) (getDataPartsVector st) = ps \<and> ps \<noteq> []
              \<and> (\<forall>p \<in> set ps. \<not> absent_in_zk st zk p)
            \<longrightarrow> mergeSelectingTask c env st zk now
              = (if is_leader_after env then Schedule else NotScheduled, None, st, zk))
          \<and> (filter (mutation_candidate env) (getDataPartsVector st) = ps @ [q]
              \<and> (\<forall>p \<in> set ps. \<not> absent_in_zk st zk p) \<and> absent_in_zk st zk q
            \<longrightarrow> mergeSelectingTask c env st zk now
                  = (if is_leader_after env then ScheduleAfter (merge_selecting_sleep_ms env) else NotScheduled,
                     None, if stale c now q then enqueuePartForCheck st (name q) else st, zk))))
   \<and> (\<not> is_leader_before env \<longrightarrow> mergeSelectingTask c env st zk now = (NotScheduled, None, st, zk))
   \<and> (zk3 alter_partition_version_path = Some a \<and> version a \<noteq> -1
      \<and> others zk3 alter_partition_version_path = Some a' \<and> version a' \<noteq> version a
      \<and> fst (getFakePartCoveringAllPartsInPartition c st3 (others zk3) pid empty_part_info False) = Inr (True, i, l)
      \<and> others zk3 blocks_path \<noteq> None
      \<and> others zk3 log_path = Some n3 \<and> others zk3 (SubSeq log_path ''log-'' (seq_num n3)) = None
    \<longrightarrow> fst (dropAllPartsInPartition c st3 zk3 others blocks pid entry txn_ops detach_flag now)
          = Inl CANNOT_ASSIGN_ALTER
        \<and> snd (snd (snd (dropAllPartsInPartition c st3 zk3 others blocks pid entry txn_ops detach_flag now))) log_path
          = others zk3 log_path
        \<and> snd (snd (snd (dropAllPartsInPartition c st3 zk3 others blocks pid entry txn_ops detach_flag now)))
            (SubSeq log_path ''log-'' (seq_num n3)) = None)"
proof (intro conjI impI)
  assume h: "(\<forall>p \<in> set parts. \<not> absent_in_zk st zk p)
      \<and> zk log_path = Some n \<and> zk (SubSeq log_path ''log-'' (seq_num n)) = None
      \<and> log_version \<noteq> -1 \<and> log_version \<noteq> version n"
  show "createLogEntryToMergeParts c st zk parts merged_name uuid ptype dedup dedup_cols log_version mtype now
          = (Inr (LogUpdated, None), st, zk)"
    using h merge_conflict[where st=st and zk=zk and parts=parts and n=n and log_version=log_version] by simp
next
  assume h: "\<not> absent_in_zk st zk part
      \<and> zk log_path = Some n \<and> zk (SubSeq log_path ''log-'' (seq_num n)) = None
      \<and> log_version \<noteq> -1 \<and> log_version \<noteq> version n"
  show "createLogEntryToMutatePart c st zk part uuid mutation_version alter_version_arg log_version now
          = (Inr LogUpdated, st, zk)"
    using h mutate_conflict[where st=st and zk=zk and part=part and n=n and log_version=log_version] by simp
next
  assume h: "is_leader_before env
      \<and> queued_merges env + queued_mutations env < max_replicated_merges_in_queue env
      \<and> zk log_path = Some n \<and> zk (SubSeq log_path ''log-'' (seq_num n)) = None
      \<and> getVersion env \<noteq> -1 \<and> getVersion env \<noteq> version n"
    and m: "0 < max_source_parts_size_for_merge env \<and> selectPartsToMerge env = Some f
          \<and> (\<forall>p \<in> set (future_parts f). \<not> absent_in_zk st zk p)"
  have "createLogEntryToMergeParts c st zk (future_parts f) (future_name f) (future_uuid f) (future_type f)
          False [] (getVersion env) (future_merge_type f) now = (Inr (LogUpdated, None), st, zk)"
    using h m merge_conflict[where st=st and zk=zk and parts="future_parts f" and n=n and log_version="getVersion env"]
    by simp
  then show "mergeSelectingTask c env st zk now
              = (if is_leader_after env then Schedule else NotScheduled, None, st, zk)"
    using h m by (simp add: mergeSelectingTask_def)
next
  assume h: "is_leader_before env
      \<and> queued_merges env + queued_mutations env < max_replicated_merges_in_queue env
      \<and> zk log_path = Some n \<and> zk (SubSeq log_path ''log-'' (seq_num n)) = None
      \<and> getVersion env \<noteq> -1 \<and> getVersion env \<noteq> version n"
    and m: "(0 < max_source_parts_size_for_merge env \<longrightarrow> selectPartsToMerge env = None)
          \<and> 0 < max_source_part_size_for_mutation env \<and> 0 < countMutations env
          \<and> queued_mutations env < max_replicated_mutations_in_queue env"
    and k: "filter (mutation_candidate env) (getDataPartsVector st) = ps \<and> ps \<noteq> []
              \<and> (\<forall>p \<in> set ps. \<not> absent_in_zk st zk p)"
  have "mutate_parts c env (getDataPartsVector st) Other st zk now
          = mutate_parts c env (ps @ []) Other st zk now"
    using k mutate_parts_filter[of c env "getDataPartsVector st" Other st zk now] by simp
  also have "\<dots> = mutate_parts c env [] (if ps = [] then Other else LogUpdated) st zk now"
  proof (rule mutate_parts_conflicts)
    show "zk log_path = Some n" using h by simp
    show "zk (SubSeq log_path ''log-'' (seq_num n)) = None" using h by simp
    show "getVersion env \<noteq> -1" using h by simp
    show "getVersion env \<noteq> version n" using h by simp
    show "\<forall>p \<in> set ps. mutation_candidate env p \<and> \<not> absent_in_zk st zk p"
      using k by auto
  qed
  finally have l: "mutate_parts c env (getDataPartsVector st) Other st zk now = (None, LogUpdated, st, zk)"
    using k by simp
  show "mergeSelectingTask c env st zk now
              = (if is_leader_after env then Schedule else NotScheduled, None, st, zk)"
    using h m l by (auto simp add: mergeSelectingTask_def)
next
  assume h: "is_leader_before env
      \<and> queued_merges env + queued_mutations env < max_replicated_merges_in_queue env
      \<and> zk log_path = Some n \<and> zk (SubSeq log_path ''log-'' (seq_num n)) = None
      \<and> getVersion env \<noteq> -1 \<and> getVersion env \<noteq> version n"
    and m: "(0 < max_source_parts_size_for_merge env \<longrightarrow> selectPartsToMerge env = None)
          \<and> 0 < max_source_part_size_for_mutation env \<and> 0 < countMutations env
          \<and> queued_mutations env < max_replicated_mutations_in_queue env"
    and k: "filter (mutation_candidate env) (getDataPartsVector st) = ps @ [q]
              \<and> (\<forall>p \<in> set ps. \<not> absent_in_zk st zk p) \<and> absent_in_zk st zk q"
  have cq: "mutation_candidate env q"
  proof -
    have "q \<in> set (filter (mutation_candidate env) (getDataPartsVector st))" using k by simp
    then show ?thesis by simp
  qed
  have cp: "\<forall>p \<in> set ps. mutation_candidate env p"
  proof
    fix p assume "p \<in> set ps"
    then have "p \<in> set (filter (mutation_candidate env) (getDataPartsVector st))" using k by simp
    then show "mutation_candidate env p" by simp
  qed
  have "mutate_parts c env (getDataPartsVector st) Other st zk now
          = mutate_parts c env (ps @ [q]) Other st zk now"
    using k mutate_parts_filter[of c env "getDataPartsVector st" Other st zk now] by simp
  also have "\<dots> = mutate_parts c env [q] (if ps = [] then Other else LogUpdated) st zk now"
  proof (rule mutate_parts_conflicts)
    show "zk log_path = Some n" using h by simp
    show "zk (SubSeq log_path ''log-'' (seq_num n)) = None" using h by simp
    show "getVersion env \<noteq> -1" using h by simp
    show "getVersion env \<noteq> version n" using h by simp
    show "\<forall>p \<in> set ps. mutation_candidate env p \<and> \<not> absent_in_zk st zk p"
      using k cp by auto
  qed
  also have "\<dots> = (None, MissingPart, if stale c now q then enqueuePartForCheck st (name q) else st, zk)"
    using k cq by (intro mutate_parts_last_missing) simp_all
  finally have l: "mutate_parts c env (getDataPartsVector st) Other st zk now
      = (None, MissingPart, if stale c now q then enqueuePartForCheck st (name q) else st, zk)" .
  show "mergeSelectingTask c env st zk now
                  = (if is_leader_after env then ScheduleAfter (merge_selecting_sleep_ms env) else NotScheduled,
                     None, if stale c now q then enqueuePartForCheck st (name q) else st, zk)"
    using h m l by (auto simp add: mergeSelectingTask_def)
next
  assume "\<not> is_leader_before env"
  then show "mergeSelectingTask c env st zk now = (NotScheduled, None, st, zk)"
    by (simp add: mergeSelectingTask_def)
next
  assume h: "zk3 alter_partition_version_path = Some a \<and> version a \<noteq> -1
      \<and> others zk3 alter_partition_version_path = Some a' \<and> version a' \<noteq> version a
      \<and> fst (getFakePartCoveringAllPartsInPartition c st3 (others zk3) pid empty_part_info False) = Inr (True, i, l)
      \<and> others zk3 blocks_path \<noteq> None
      \<and> others zk3 log_path = Some n3 \<and> others zk3 (SubSeq log_path ''log-'' (seq_num n3)) = None"
  then have apv: "zk3 alter_partition_version_path = Some a" "version a \<noteq> -1"
    and apv': "others zk3 alter_partition_version_path = Some a'" "version a' \<noteq> version a"
    and g: "fst (getFakePartCoveringAllPartsInPartition c st3 (others zk3) pid empty_part_info False) = Inr (True, i, l)"
    and b: "others zk3 blocks_path \<noteq> None"
    and lg: "others zk3 log_path = Some n3" "others zk3 (SubSeq log_path ''log-'' (seq_num n3)) = None"
    by simp_all
  note r = dropAll_conflict[where zk=zk3 and others=others, OF apv apv' g b lg]
  show "fst (dropAllPartsInPartition c st3 zk3 others blocks pid entry txn_ops detach_flag now)
          = Inl CANNOT_ASSIGN_ALTER" using r(1) .
  show "snd (snd (snd (dropAllPartsInPartition c st3 zk3 others blocks pid entry txn_ops detach_flag now))) log_path
          = others zk3 log_path" using r(2) .
  show "snd (snd (snd (dropAllPartsInPartition c st3 zk3 others blocks pid entry txn_ops detach_flag now)))
            (SubSeq log_path ''log-'' (seq_num n3)) = None" using r(3) .
qed

lemmas select_eval_defs =
  demo_selecting_env_def demo_storage_two_parts_def demo_zk_old_part_def getDataPartsVector_def
  mutation_candidate_def merge_eval_defs

lemma demo_select_facts:
  "demo_zk_parts log_path = Some \<lparr> data = Str [], version = 7, seq_num = 5 \<rparr>"
  "demo_zk_parts (SubSeq log_path ''log-'' 5) = None"
  "demo_zk_old_part log_path = Some \<lparr> data = Str [], version = 7, seq_num = 5 \<rparr>"
  "demo_zk_old_part (SubSeq log_path ''log-'' 5) = None"
  "\<not> absent_in_zk demo_storage_two_parts demo_zk_parts demo_old_part"
  "\<not> absent_in_zk demo_storage_two_parts demo_zk_parts demo_new_part"
  "\<not> absent_in_zk demo_storage_two_parts demo_zk_old_part demo_old_part"
  "absent_in_zk demo_storage_two_parts demo_zk_old_part demo_new_part"
  "\<not> stale demo_decls 1000 demo_new_part"
  "filter (mutation_candidate (demo_selecting_env\<lparr>selectPartsToMerge := None\<rparr>))
     (getDataPartsVector demo_storage_two_parts) = [demo_old_part, demo_new_part]"
  "future_parts \<lparr> future_parts = [demo_old_part, demo_new_part], future_name = ''p_1_2_1'',
                   future_uuid = 0, future_type = ''Wide'', future_merge_type = 0 \<rparr>
     = [demo_old_part, demo_new_part]"
  by (simp_all add: select_eval_defs)

lemma demo_env_facts:
  "is_leader_before demo_selecting_env" "is_leader_after demo_selecting_env"
  "queued_merges demo_selecting_env + queued_mutations demo_selecting_env
     < max_replicated_merges_in_queue demo_selecting_env"
  "getVersion demo_selecting_env = 6" "merge_selecting_sleep_ms demo_selecting_env = 5000"
  "0 < max_source_parts_size_for_merge demo_selecting_env"
  "0 < max_source_part_size_for_mutation demo_selecting_env" "0 < countMutations demo_selecting_env"
  "queued_mutations demo_selecting_env < max_replicated_mutations_in_queue demo_selecting_env"
  "selectPartsToMerge demo_selecting_env
     = Some \<lparr> future_parts = [demo_old_part, demo_new_part], future_name = ''p_1_2_1'',
              future_uuid = 0, future_type = ''Wide'', future_merge_type = 0 \<rparr>"
  by (simp_all add: demo_selecting_env_def)

theorem lost_version_race_outcomes_witness:
  "\<not> absent_in_zk demo_storage_two_parts demo_zk_parts demo_old_part
   \<and> \<not> absent_in_zk demo_storage_two_parts demo_zk_parts demo_new_part
   \<and> absent_in_zk demo_storage_two_parts demo_zk_old_part demo_new_part
   \<and> demo_zk_parts log_path = Some \<lparr> data = Str [], version = 7, seq_num = 5 \<rparr>
   \<and> demo_zk_parts (SubSeq log_path ''log-'' 5) = None
   \<and> getVersion demo_selecting_env = 6
   \<and> createLogEntryToMergeParts demo_decls demo_storage_two_parts demo_zk_parts [demo_old_part, demo_new_part]
        ''p_1_2_1'' 0 ''Wide'' False [] 6 0 1000 = (Inr (LogUpdated, None), demo_storage_two_parts, demo_zk_parts)
   \<and> createLogEntryToMutatePart demo_decls demo_storage_two_parts demo_zk_parts demo_old_part 0 4 (-1) 6 1000
        = (Inr LogUpdated, demo_storage_two_parts, demo_zk_parts)
   \<and> mergeSelectingTask demo_decls demo_selecting_env demo_storage_two_parts demo_zk_parts 1000
        = (Schedule, None, demo_storage_two_parts, demo_zk_parts)
   \<and> mergeSelectingTask demo_decls (demo_selecting_env\<lparr>selectPartsToMerge := None\<rparr>)
        demo_storage_two_parts demo_zk_parts 1000
        = (Schedule, None, demo_storage_two_parts, demo_zk_parts)
   \<and> mergeSelectingTask demo_decls (demo_selecting_env\<lparr>selectPartsToMerge := None\<rparr>)
        demo_storage_two_parts demo_zk_old_part 1000
        = (ScheduleAfter 5000, None, demo_storage_two_parts, demo_zk_old_part)
   \<and> mergeSelectingTask demo_decls (demo_selecting_env\<lparr>is_leader_before := False\<rparr>)
        demo_storage_two_parts demo_zk_parts 1000
        = (NotScheduled, None, demo_storage_two_parts, demo_zk_parts)
   \<and> fst (dropAllPartsInPartition demo_decls demo_storage demo_zk demo_bump_alter_partition_version
            [] ''p'' empty_LogEntry [] False 1000) = Inl CANNOT_ASSIGN_ALTER"
proof -
  note f = demo_select_facts
  note e = demo_env_facts
  have conf: "demo_zk_parts log_path = Some \<lparr> data = Str [], version = 7, seq_num = 5 \<rparr>
      \<and> demo_zk_parts (SubSeq log_path ''log-'' (seq_num \<lparr> data = Str [], version = 7, seq_num = 5 \<rparr>)) = None
      \<and> (6::int) \<noteq> -1 \<and> (6::int) \<noteq> version \<lparr> data = Str [], version = 7, seq_num = 5 \<rparr>"
    and conf2: "demo_zk_old_part log_path = Some \<lparr> data = Str [], version = 7, seq_num = 5 \<rparr>
      \<and> demo_zk_old_part (SubSeq log_path ''log-'' (seq_num \<lparr> data = Str [], version = 7, seq_num = 5 \<rparr>)) = None
      \<and> (6::int) \<noteq> -1 \<and> (6::int) \<noteq> version \<lparr> data = Str [], version = 7, seq_num = 5 \<rparr>"
    using f by simp_all
  note t1 = lost_version_race_outcomes
      [where parts="[demo_old_part, demo_new_part]" and st=demo_storage_two_parts and zk=demo_zk_parts
         and n="\<lparr> data = Str [], version = 7, seq_num = 5 \<rparr>" and log_version=6 and c=demo_decls
         and merged_name="''p_1_2_1''" and uuid=0 and ptype="''Wide''" and dedup=False and dedup_cols="[]"
         and mtype=0 and now=1000, THEN conjunct1, THEN mp]
  note t2 = lost_version_race_outcomes
      [where st=demo_storage_two_parts and zk=demo_zk_parts and part=demo_old_part
         and n="\<lparr> data = Str [], version = 7, seq_num = 5 \<rparr>" and log_version=6 and c=demo_decls
         and uuid=0 and mutation_version=4 and alter_version_arg="-1" and now=1000,
       THEN conjunct2, THEN conjunct1, THEN mp]
  note t3 = lost_version_race_outcomes
      [where st=demo_storage_two_parts and zk=demo_zk_parts and env=demo_selecting_env
         and n="\<lparr> data = Str [], version = 7, seq_num = 5 \<rparr>" and c=demo_decls and now=1000
         and f="\<lparr> future_parts = [demo_old_part, demo_new_part], future_name = ''p_1_2_1'',
                  future_uuid = 0, future_type = ''Wide'', future_merge_type = 0 \<rparr>",
       THEN conjunct2, THEN conjunct2, THEN conjunct1, THEN mp, THEN conjunct1, THEN mp]
  note t4 = lost_version_race_outcomes
      [where st=demo_storage_two_parts and zk=demo_zk_parts
         and env="demo_selecting_env\<lparr>selectPartsToMerge := None\<rparr>"
         and n="\<lparr> data = Str [], version = 7, seq_num = 5 \<rparr>" and c=demo_decls and now=1000
         and ps="[demo_old_part, demo_new_part]",
       THEN conjunct2, THEN conjunct2, THEN conjunct1, THEN mp, THEN conjunct2, THEN mp, THEN conjunct1, THEN mp]
  note t5 = lost_version_race_outcomes
      [where st=demo_storage_two_parts and zk=demo_zk_old_part
         and env="demo_selecting_env\<lparr>selectPartsToMerge := None\<rparr>"
         and n="\<lparr> data = Str [], version = 7, seq_num = 5 \<rparr>" and c=demo_decls and now=1000
         and ps="[demo_old_part]" and q=demo_new_part,
       THEN conjunct2, THEN conjunct2, THEN conjunct1, THEN mp, THEN conjunct2, THEN mp, THEN conjunct2, THEN mp]
  note t6 = lost_version_race_outcomes
      [where st=demo_storage_two_parts and zk=demo_zk_parts
         and env="demo_selecting_env\<lparr>is_leader_before := False\<rparr>" and c=demo_decls and now=1000,
       THEN conjunct2, THEN conjunct2, THEN conjunct2, THEN conjunct1, THEN mp]
  note t7 = lost_version_race_outcomes
      [where ?zk3.0=demo_zk and a="\<lparr> data = Str [], version = 2, seq_num = 0 \<rparr>"
         and others=demo_bump_alter_partition_version
         and a'="\<lparr> data = Str [], version = 3, seq_num = 0 \<rparr>" and ?st3.0=demo_storage and c=demo_decls
         and pid="''p''" and i="demo_range 2" and l="demo_lock ''p'' 3 0"
         and ?n3.0="\<lparr> data = Str [], version = 7, seq_num = 5 \<rparr>" and blocks="[]"
         and entry=empty_LogEntry and txn_ops="[]" and detach_flag=False and now=1000,
       THEN conjunct2, THEN conjunct2, THEN conjunct2, THEN conjunct2, THEN mp, THEN conjunct1]
  have r1: "createLogEntryToMergeParts demo_decls demo_storage_two_parts demo_zk_parts [demo_old_part, demo_new_part]
        ''p_1_2_1'' 0 ''Wide'' False [] 6 0 1000 = (Inr (LogUpdated, None), demo_storage_two_parts, demo_zk_parts)"
    by (rule t1) (use f conf in simp)
  have r2: "createLogEntryToMutatePart demo_decls demo_storage_two_parts demo_zk_parts demo_old_part 0 4 (-1) 6 1000
        = (Inr LogUpdated, demo_storage_two_parts, demo_zk_parts)"
    by (rule t2) (use f conf in simp)
  have r3: "mergeSelectingTask demo_decls demo_selecting_env demo_storage_two_parts demo_zk_parts 1000
        = (if is_leader_after demo_selecting_env then Schedule else NotScheduled, None,
           demo_storage_two_parts, demo_zk_parts)"
    by (rule t3) (use f e conf in simp_all)
  have r4: "mergeSelectingTask demo_decls (demo_selecting_env\<lparr>selectPartsToMerge := None\<rparr>)
        demo_storage_two_parts demo_zk_parts 1000
        = (if is_leader_after (demo_selecting_env\<lparr>selectPartsToMerge := None\<rparr>) then Schedule else NotScheduled,
           None, demo_storage_two_parts, demo_zk_parts)"
    by (rule t4) (use f e conf in simp_all)
  have r5: "mergeSelectingTask demo_decls (demo_selecting_env\<lparr>selectPartsToMerge := None\<rparr>)
        demo_storage_two_parts demo_zk_old_part 1000
        = (if is_leader_after (demo_selecting_env\<lparr>selectPartsToMerge := None\<rparr>)
           then ScheduleAfter (merge_selecting_sleep_ms (demo_selecting_env\<lparr>selectPartsToMerge := None\<rparr>))
           else NotScheduled,
           None,
           if stale demo_decls 1000 demo_new_part
           then enqueuePartForCheck demo_storage_two_parts (name demo_new_part) else demo_storage_two_parts,
           demo_zk_old_part)"
    by (rule t5) (use f e conf2 in simp_all)
  have r6: "mergeSelectingTask demo_decls (demo_selecting_env\<lparr>is_leader_before := False\<rparr>)
        demo_storage_two_parts demo_zk_parts 1000
        = (NotScheduled, None, demo_storage_two_parts, demo_zk_parts)"
    by (rule t6) simp
  have r7: "fst (dropAllPartsInPartition demo_decls demo_storage demo_zk demo_bump_alter_partition_version
            [] ''p'' empty_LogEntry [] False 1000) = Inl CANNOT_ASSIGN_ALTER"
    by (rule t7) (use demo_bump_facts in simp)
  show ?thesis
    using f(1,2,5,6,8,9) e r1 r2 r3 r4 r5 r6 r7 by simp
qed

text \<open>
  The claim as stated says that a partition operation that loses the race on the
  alter-partition version does not surface an immediate exception. Here another client
  updates the version between the read and the multi-op of DROP PARTITION, and the caller
  gets \<^verbatim>\<open>CANNOT_ASSIGN_ALTER\<close> from the first and only attempt.
\<close>

theorem drop_partition_conflict_throws_counterexample:
  "fst (dropAllPartsInPartition demo_decls demo_storage demo_zk demo_bump_alter_partition_version
          [] ''p'' empty_LogEntry [] False 1000) = Inl CANNOT_ASSIGN_ALTER"
  using demo_bump_facts
    dropAll_conflict(1)
      [where zk=demo_zk and others=demo_bump_alter_partition_version and c=demo_decls and st=demo_storage
         and pid="''p''" and a="\<lparr> data = Str [], version = 2, seq_num = 0 \<rparr>"
         and a'="\<lparr> data = Str [], version = 3, seq_num = 0 \<rparr>" and i="demo_range 2"
         and l="demo_lock ''p'' 3 0" and n="\<lparr> data = Str [], version = 7, seq_num = 5 \<rparr>"]
  by simp

subsection \<open>Replace ranges\<close>

lemma tryRemove_nothing:
  "tryRemovePartsFromZooKeeperWithRetries children st zk [] = (Inr True, zk)"
  by (simp add: tryRemovePartsFromZooKeeperWithRetries_def)

text \<open>
  C8, as amended. A REPLACE_RANGE entry is executed with MOVE/ATTACH semantics (no existing
  parts dropped, drop range ignored) if and only if its drop range contains exactly one
  block, \<open>min_block = max_block\<close>. With such a drop range the execution asks neither the queue
  nor the working set to remove anything in a range and removes no part from the
  coordination service: it returns true with the state as it was when every new part is
  already covered, and otherwise with the state that obtaining and committing the new parts
  left. With any other drop range it has the queue drop the operations in the range and,
  once the new parts are there, removes the parts of the range from the working set and
  these parts from the coordination service. The dummy drop range built for MOVE PARTITION
  and ATTACH PARTITION FROM is exactly (partition, 0, 0, 0, 0) and has one block; a drop
  range that \<^verbatim>\<open>replacePartitionFrom\<close> keeps for a real REPLACE PARTITION has at least two
  blocks and is never a dummy range, so the two cases never coincide.
\<close>

theorem replace_range_attach_iff_one_block:
  "(fromPartName c (drop_range_part_name e) = Inr r
      \<and> part_descriptions c 0 (src_part_names e) (new_part_names e) (part_names_checksums e) = Inr all_parts
      \<and> parts_to_add =
            filter (\<lambda>part_desc. getActiveContainingPart (desc_new_part_info part_desc) (data_parts st) = None)
              all_parts
    \<longrightarrow> (getBlocksCount r = 1
        \<longrightarrow> executeReplaceRange_entry c env entry e st zk =
            (if parts_to_add = [] then (Inr True, st, zk)
             else
               (case obtain_and_commit_parts env parts_to_add st zk of
                  (Some x, st1, zk1) \<Rightarrow> (Inl x, st1, zk1)
                | (None, st1, zk1) \<Rightarrow> (Inr True, st1, zk1))))
      \<and> (getBlocksCount r \<noteq> 1
          \<and> removePartProducingOpsInRange env r entry zk = (None, zk1)
          \<and> (parts_to_add = [] \<and> st1 = st \<and> zk2 = zk1
               \<or> parts_to_add \<noteq> [] \<and> obtain_and_commit_parts env parts_to_add st zk1 = (None, st1, zk2))
          \<and> removePartsInRangeFromWorkingSet env r st1 = (Inr parts_to_remove, st2)
        \<longrightarrow> executeReplaceRange_entry c env entry e st zk =
            (case tryRemovePartsFromZooKeeperWithRetries (part_numChildren env) st2 zk2
                    (map name parts_to_remove) of
               (Inl x, zk3) \<Rightarrow> (Inl x, st2, zk3)
             | (Inr success, zk3) \<Rightarrow> (Inr True, st2, zk3))))
   \<and> makeDummyDropRangeForMovePartitionOrAttachPartitionFrom pid =
        \<lparr> partition_id = pid, min_block = 0, max_block = 0, level = 0, mutation = 0 \<rparr>
   \<and> getBlocksCount (makeDummyDropRangeForMovePartitionOrAttachPartitionFrom pid) = 1
   \<and> (fst (replacePartitionFrom_drop_range c st5 zk5 pid replace) = Inr (replace1, drop_range, lock) \<longrightarrow>
        replace1 = (\<not> isMovePartitionOrAttachFrom drop_range)
        \<and> (replace1 \<longrightarrow> 2 \<le> getBlocksCount drop_range
              \<and> drop_range \<noteq> makeDummyDropRangeForMovePartitionOrAttachPartitionFrom pid')
        \<and> (\<not> replace1 \<longrightarrow> drop_range = makeDummyDropRangeForMovePartitionOrAttachPartitionFrom pid))"
proof (intro conjI impI)
  assume h: "fromPartName c (drop_range_part_name e) = Inr r
      \<and> part_descriptions c 0 (src_part_names e) (new_part_names e) (part_names_checksums e) = Inr all_parts
      \<and> parts_to_add =
            filter (\<lambda>part_desc. getActiveContainingPart (desc_new_part_info part_desc) (data_parts st) = None)
              all_parts"
    and a: "getBlocksCount r = 1"
  show "executeReplaceRange_entry c env entry e st zk =
            (if parts_to_add = [] then (Inr True, st, zk)
             else
               (case obtain_and_commit_parts env parts_to_add st zk of
                  (Some x, st1, zk1) \<Rightarrow> (Inl x, st1, zk1)
                | (None, st1, zk1) \<Rightarrow> (Inr True, st1, zk1)))"
  proof (cases "parts_to_add = []")
    case True
    then show ?thesis using h a
      by (simp add: executeReplaceRange_entry_def isMovePartitionOrAttachFrom_def Let_def tryRemove_nothing)
  next
    case False
    obtain x st1 zk1 where o: "obtain_and_commit_parts env parts_to_add st zk = (x, st1, zk1)"
      by (cases "obtain_and_commit_parts env parts_to_add st zk") auto
    show ?thesis using False h a o
      by (cases x) (simp_all add: executeReplaceRange_entry_def isMovePartitionOrAttachFrom_def Let_def tryRemove_nothing)
  qed
next
  assume h: "fromPartName c (drop_range_part_name e) = Inr r
      \<and> part_descriptions c 0 (src_part_names e) (new_part_names e) (part_names_checksums e) = Inr all_parts
      \<and> parts_to_add =
            filter (\<lambda>part_desc. getActiveContainingPart (desc_new_part_info part_desc) (data_parts st) = None)
              all_parts"
    and a: "getBlocksCount r \<noteq> 1
          \<and> removePartProducingOpsInRange env r entry zk = (None, zk1)
          \<and> (parts_to_add = [] \<and> st1 = st \<and> zk2 = zk1
               \<or> parts_to_add \<noteq> [] \<and> obtain_and_commit_parts env parts_to_add st zk1 = (None, st1, zk2))
          \<and> removePartsInRangeFromWorkingSet env r st1 = (Inr parts_to_remove, st2)"
  obtain res zk3 where t: "tryRemovePartsFromZooKeeperWithRetries (part_numChildren env) st2 zk2
                    (map name parts_to_remove) = (res, zk3)"
    by (cases "tryRemovePartsFromZooKeeperWithRetries (part_numChildren env) st2 zk2 (map name parts_to_remove)") auto
  show "executeReplaceRange_entry c env entry e st zk =
            (case tryRemovePartsFromZooKeeperWithRetries (part_numChildren env) st2 zk2
                    (map name parts_to_remove) of
               (Inl x, zk3) \<Rightarrow> (Inl x, st2, zk3)
             | (Inr success, zk3) \<Rightarrow> (Inr True, st2, zk3))"
  proof (cases "parts_to_add = []")
    case True
    then have e: "st1 = st" "zk2 = zk1" using a by auto
    have rm: "removePartsInRangeFromWorkingSet env r st = (Inr parts_to_remove, st2)"
      and q: "removePartProducingOpsInRange env r entry zk = (None, zk1)"
      and n: "getBlocksCount r \<noteq> 1"
      using a e by simp_all
    have t': "tryRemovePartsFromZooKeeperWithRetries (part_numChildren env) st2 zk1
                    (map name parts_to_remove) = (res, zk3)"
      using t e by simp
    show ?thesis using True h n q rm t' e
      by (cases res) (simp_all add: executeReplaceRange_entry_def isMovePartitionOrAttachFrom_def Let_def)
  next
    case False
    then have o: "obtain_and_commit_parts env parts_to_add st zk1 = (None, st1, zk2)" using a by auto
    have rm: "removePartsInRangeFromWorkingSet env r st1 = (Inr parts_to_remove, st2)"
      and q: "removePartProducingOpsInRange env r entry zk = (None, zk1)"
      and n: "getBlocksCount r \<noteq> 1"
      using a by simp_all
    show ?thesis using False h n q o rm t
      by (cases res) (simp_all add: executeReplaceRange_entry_def isMovePartitionOrAttachFrom_def Let_def)
  qed
next
  show "makeDummyDropRangeForMovePartitionOrAttachPartitionFrom pid =
        \<lparr> partition_id = pid, min_block = 0, max_block = 0, level = 0, mutation = 0 \<rparr>"
    by (simp add: makeDummyDropRangeForMovePartitionOrAttachPartitionFrom_def empty_part_info_def)
next
  show "getBlocksCount (makeDummyDropRangeForMovePartitionOrAttachPartitionFrom pid) = 1"
    by (simp add: makeDummyDropRangeForMovePartitionOrAttachPartitionFrom_def empty_part_info_def getBlocksCount_def)
next
  assume h: "fst (replacePartitionFrom_drop_range c st5 zk5 pid replace) = Inr (replace1, drop_range, lock)"
  obtain g st1 zk1 where g: "getFakePartCoveringAllPartsInPartition c st5 zk5 pid empty_part_info True = (g, st1, zk1)"
    by (cases "getFakePartCoveringAllPartsInPartition c st5 zk5 pid empty_part_info True") auto
  from h g obtain nonempty d l where gr: "g = Inr (nonempty, d, l)"
    by (cases g; auto simp add: replacePartitionFrom_drop_range_def)
  have fg: "fst (getFakePartCoveringAllPartsInPartition c st5 zk5 pid empty_part_info True) = Inr (nonempty, d, l)"
    using g gr by simp
  have ne: "nonempty \<longleftrightarrow> next_block_number zk5 pid \<noteq> 0" using getFake_result(2)[OF fg] .
  have d: "d = \<lparr> partition_id = pid, min_block = 0, max_block = int (next_block_number zk5 pid),
                      level = MAX_LEVEL c, mutation = MAX_BLOCK_NUMBER c \<rparr>"
    using getFake_result(3)[OF fg] by simp
  have r1: "replace1 = (replace \<and> nonempty)"
    and dr: "drop_range = (if replace \<and> nonempty then d else makeDummyDropRangeForMovePartitionOrAttachPartitionFrom pid)"
    using h g gr by (auto simp add: replacePartitionFrom_drop_range_def Let_def split: if_splits)
  have cnt: "nonempty \<Longrightarrow> 2 \<le> getBlocksCount d"
    using ne d by (simp add: getBlocksCount_def)
  have dummy: "getBlocksCount (makeDummyDropRangeForMovePartitionOrAttachPartitionFrom q) = 1" for q
    by (simp add: makeDummyDropRangeForMovePartitionOrAttachPartitionFrom_def empty_part_info_def getBlocksCount_def)
  show "replace1 = (\<not> isMovePartitionOrAttachFrom drop_range)"
    using r1 dr cnt dummy[of pid] by (auto simp: isMovePartitionOrAttachFrom_def)
  show "2 \<le> getBlocksCount drop_range" if "replace1"
    using that r1 dr cnt by simp
  show "drop_range \<noteq> makeDummyDropRangeForMovePartitionOrAttachPartitionFrom pid'" if "replace1"
    using that r1 dr cnt dummy[of pid'] by auto
  show "drop_range = makeDummyDropRangeForMovePartitionOrAttachPartitionFrom pid" if "\<not> replace1"
    using that r1 dr by auto
qed

lemmas replace_eval_defs =
  executeReplaceRange_entry_def tryRemovePartsFromZooKeeperWithRetries_def removePartFromZooKeeper_def
  isMovePartitionOrAttachFrom_def getBlocksCount_def fromPartName_def getActiveContainingPart_def
  contains_def demo_replace_env_def demo_storage_block0_def demo_zk_block0_def demo_replace_entry_def
  demo_attach_entry_def demo_fetched_part_def demo_add_part_def parts_path_def replica_path_def
  tryMulti_def version_matches_def zk_exists_def empty_part_info_def demo_decls_def demo_storage_def
  fresh_node_def Let_def

theorem replace_range_attach_iff_one_block_witness:
  "fromPartName demo_decls (drop_range_part_name demo_attach_entry) = Inr \<lparr> partition_id = ''p'', min_block = 0, max_block = 0, level = 0, mutation = 0 \<rparr>
   \<and> fromPartName demo_decls (drop_range_part_name demo_replace_entry) = Inr \<lparr> partition_id = ''p'', min_block = 0, max_block = 3, level = 999999999, mutation = 999999999 \<rparr>
   \<and> getBlocksCount \<lparr> partition_id = ''p'', min_block = 0, max_block = 0, level = 0, mutation = 0 \<rparr> = 1
   \<and> getBlocksCount \<lparr> partition_id = ''p'', min_block = 0, max_block = 3, level = 999999999, mutation = 999999999 \<rparr> = 4
   \<and> demo_fetched_part ''p_0_0_0'' \<in> set (data_parts demo_storage_block0)
   \<and> executeReplaceRange_entry demo_decls demo_replace_env empty_LogEntry demo_attach_entry
        demo_storage_block0 demo_zk_block0
      = (Inr True, demo_storage\<lparr>data_parts := [demo_fetched_part ''p_0_0_0'', demo_fetched_part ''p_5_5_0'']\<rparr>,
         demo_zk_block0(Sub (Sub (Sub (Sub ZRoot ''replicas'') ''r1'') ''parts'') ''p_5_5_0'' \<mapsto> fresh_node (Str [])))
   \<and> executeReplaceRange_entry demo_decls demo_replace_env empty_LogEntry demo_replace_entry
        demo_storage_block0 demo_zk_block0
      = (Inr True, demo_storage\<lparr>data_parts := [demo_fetched_part ''p_5_5_0'']\<rparr>,
         demo_zk_block0
          (Sub (Sub (Sub (Sub ZRoot ''replicas'') ''r1'') ''parts'') ''p_0_0_0'' := None,
           Sub (Sub (Sub (Sub ZRoot ''replicas'') ''r1'') ''parts'') ''p_5_5_0'' \<mapsto> fresh_node (Str [])))
   \<and> fst (replacePartitionFrom_drop_range demo_decls demo_storage demo_zk ''p'' True) =
     Inr (True, \<lparr> partition_id = ''p'', min_block = 0, max_block = 3, level = 999999999, mutation = 999999999 \<rparr>,
          \<lparr> lock_path = SubSeq (Sub (Sub ZRoot ''block_numbers'') ''p'') ''block-'' 3,
            holder_path = SubSeq (Sub ZRoot ''temp'') ''abandonable_lock-'' 0,
            lock_number = 3 \<rparr>)
   \<and> \<not> isMovePartitionOrAttachFrom \<lparr> partition_id = ''p'', min_block = 0, max_block = 3, level = 999999999, mutation = 999999999 \<rparr>
   \<and> executeReplaceRange_entry demo_decls demo_replace_env empty_LogEntry demo_attach_entry
        (demo_storage\<lparr>data_parts := [demo_fetched_part ''p_5_5_0'']\<rparr>) demo_zk
      = (Inr True, demo_storage\<lparr>data_parts := [demo_fetched_part ''p_5_5_0'']\<rparr>, demo_zk)
   \<and> fst (replacePartitionFrom_drop_range demo_decls demo_storage demo_zk ''e'' True) =
     Inr (False, makeDummyDropRangeForMovePartitionOrAttachPartitionFrom ''e'', demo_lock ''e'' 0 0)"
proof -
  have f1: "fromPartName demo_decls (drop_range_part_name demo_attach_entry) = Inr \<lparr> partition_id = ''p'', min_block = 0, max_block = 0, level = 0, mutation = 0 \<rparr>"
    and f2: "fromPartName demo_decls (drop_range_part_name demo_replace_entry) = Inr \<lparr> partition_id = ''p'', min_block = 0, max_block = 3, level = 999999999, mutation = 999999999 \<rparr>"
    and f3: "getBlocksCount \<lparr> partition_id = ''p'', min_block = 0, max_block = 0, level = 0, mutation = 0 \<rparr> = 1"
    and f4: "getBlocksCount \<lparr> partition_id = ''p'', min_block = 0, max_block = 3, level = 999999999, mutation = 999999999 \<rparr> = 4"
    and f7: "demo_fetched_part ''p_0_0_0'' \<in> set (data_parts demo_storage_block0)"
    by (simp_all add: fromPartName_def demo_decls_def demo_attach_entry_def demo_replace_entry_def
          getBlocksCount_def demo_storage_block0_def)
  have f5: "fst (replacePartitionFrom_drop_range demo_decls demo_storage demo_zk ''p'' True) =
     Inr (True, \<lparr> partition_id = ''p'', min_block = 0, max_block = 3, level = 999999999, mutation = 999999999 \<rparr>,
          \<lparr> lock_path = SubSeq (Sub (Sub ZRoot ''block_numbers'') ''p'') ''block-'' 3,
            holder_path = SubSeq (Sub ZRoot ''temp'') ''abandonable_lock-'' 0,
            lock_number = 3 \<rparr>)"
    by (simp add: zk_eval_defs)
  have d: "part_descriptions demo_decls 0 (src_part_names demo_attach_entry) (new_part_names demo_attach_entry)
             (part_names_checksums demo_attach_entry) = Inr [\<lparr> desc_index = 0, desc_src_part_name = ''p_1_1_0'',
                desc_src_part_info = \<lparr> partition_id = ''p'', min_block = 1, max_block = 1, level = 0, mutation = 0 \<rparr>,
                desc_new_part_name = ''p_5_5_0'',
                desc_new_part_info = \<lparr> partition_id = ''p'', min_block = 5, max_block = 5, level = 0, mutation = 0 \<rparr>,
                desc_checksum_hex = ''ABCD'' \<rparr>]"
    "part_descriptions demo_decls 0 (src_part_names demo_replace_entry) (new_part_names demo_replace_entry)
             (part_names_checksums demo_replace_entry) = Inr [\<lparr> desc_index = 0, desc_src_part_name = ''p_1_1_0'',
                desc_src_part_info = \<lparr> partition_id = ''p'', min_block = 1, max_block = 1, level = 0, mutation = 0 \<rparr>,
                desc_new_part_name = ''p_5_5_0'',
                desc_new_part_info = \<lparr> partition_id = ''p'', min_block = 5, max_block = 5, level = 0, mutation = 0 \<rparr>,
                desc_checksum_hex = ''ABCD'' \<rparr>]"
    by (simp_all add: fromPartName_def demo_decls_def demo_attach_entry_def demo_replace_entry_def)
  have pa: "[\<lparr> desc_index = 0, desc_src_part_name = ''p_1_1_0'',
                desc_src_part_info = \<lparr> partition_id = ''p'', min_block = 1, max_block = 1, level = 0, mutation = 0 \<rparr>,
                desc_new_part_name = ''p_5_5_0'',
                desc_new_part_info = \<lparr> partition_id = ''p'', min_block = 5, max_block = 5, level = 0, mutation = 0 \<rparr>,
                desc_checksum_hex = ''ABCD'' \<rparr>] =
            filter (\<lambda>part_desc. getActiveContainingPart (desc_new_part_info part_desc)
                                  (data_parts demo_storage_block0) = None)
              [\<lparr> desc_index = 0, desc_src_part_name = ''p_1_1_0'',
                desc_src_part_info = \<lparr> partition_id = ''p'', min_block = 1, max_block = 1, level = 0, mutation = 0 \<rparr>,
                desc_new_part_name = ''p_5_5_0'',
                desc_new_part_info = \<lparr> partition_id = ''p'', min_block = 5, max_block = 5, level = 0, mutation = 0 \<rparr>,
                desc_checksum_hex = ''ABCD'' \<rparr>]"
    by (simp add: getActiveContainingPart_def contains_def demo_storage_block0_def demo_fetched_part_def
          demo_decls_def)
  have oc: "obtain_and_commit_parts demo_replace_env [\<lparr> desc_index = 0, desc_src_part_name = ''p_1_1_0'',
                desc_src_part_info = \<lparr> partition_id = ''p'', min_block = 1, max_block = 1, level = 0, mutation = 0 \<rparr>,
                desc_new_part_name = ''p_5_5_0'',
                desc_new_part_info = \<lparr> partition_id = ''p'', min_block = 5, max_block = 5, level = 0, mutation = 0 \<rparr>,
                desc_checksum_hex = ''ABCD'' \<rparr>] demo_storage_block0 demo_zk_block0
              = (None, demo_storage\<lparr>data_parts := [demo_fetched_part ''p_0_0_0'', demo_fetched_part ''p_5_5_0'']\<rparr>,
                 demo_zk_block0(Sub (Sub (Sub (Sub ZRoot ''replicas'') ''r1'') ''parts'') ''p_5_5_0'' \<mapsto> fresh_node (Str [])))"
    by (simp add: demo_replace_env_def demo_add_part_def demo_storage_block0_def parts_path_def
          replica_path_def demo_storage_def demo_fetched_part_def)
  have q: "removePartProducingOpsInRange demo_replace_env \<lparr> partition_id = ''p'', min_block = 0, max_block = 3, level = 999999999, mutation = 999999999 \<rparr>
             empty_LogEntry demo_zk_block0 = (None, demo_zk_block0)"
    by (simp add: demo_replace_env_def)
  have rm: "removePartsInRangeFromWorkingSet demo_replace_env \<lparr> partition_id = ''p'', min_block = 0, max_block = 3, level = 999999999, mutation = 999999999 \<rparr>
              (demo_storage\<lparr>data_parts := [demo_fetched_part ''p_0_0_0'', demo_fetched_part ''p_5_5_0'']\<rparr>)
            = (Inr [demo_fetched_part ''p_0_0_0''], demo_storage\<lparr>data_parts := [demo_fetched_part ''p_5_5_0'']\<rparr>)"
    by (simp add: demo_replace_env_def contains_def demo_fetched_part_def demo_decls_def demo_storage_def)
  have tr: "tryRemovePartsFromZooKeeperWithRetries (part_numChildren demo_replace_env)
              (demo_storage\<lparr>data_parts := [demo_fetched_part ''p_5_5_0'']\<rparr>)
              (demo_zk_block0(Sub (Sub (Sub (Sub ZRoot ''replicas'') ''r1'') ''parts'') ''p_5_5_0'' \<mapsto> fresh_node (Str [])))
              (map name [demo_fetched_part ''p_0_0_0''])
            = (Inr True,
               demo_zk_block0
          (Sub (Sub (Sub (Sub ZRoot ''replicas'') ''r1'') ''parts'') ''p_0_0_0'' := None,
           Sub (Sub (Sub (Sub ZRoot ''replicas'') ''r1'') ''parts'') ''p_5_5_0'' \<mapsto> fresh_node (Str [])))"
    by (simp add: tryRemovePartsFromZooKeeperWithRetries_def removePartFromZooKeeper_def demo_replace_env_def
          demo_fetched_part_def parts_path_def replica_path_def demo_storage_def demo_zk_block0_def
          zk_exists_def tryMulti_def version_matches_def Let_def fun_upd_twist)
  note ta = replace_range_attach_iff_one_block
      [where c=demo_decls and e=demo_attach_entry and r="\<lparr> partition_id = ''p'', min_block = 0, max_block = 0, level = 0, mutation = 0 \<rparr>"
         and all_parts="[\<lparr> desc_index = 0, desc_src_part_name = ''p_1_1_0'',
                desc_src_part_info = \<lparr> partition_id = ''p'', min_block = 1, max_block = 1, level = 0, mutation = 0 \<rparr>,
                desc_new_part_name = ''p_5_5_0'',
                desc_new_part_info = \<lparr> partition_id = ''p'', min_block = 5, max_block = 5, level = 0, mutation = 0 \<rparr>,
                desc_checksum_hex = ''ABCD'' \<rparr>]"
         and parts_to_add="[\<lparr> desc_index = 0, desc_src_part_name = ''p_1_1_0'',
                desc_src_part_info = \<lparr> partition_id = ''p'', min_block = 1, max_block = 1, level = 0, mutation = 0 \<rparr>,
                desc_new_part_name = ''p_5_5_0'',
                desc_new_part_info = \<lparr> partition_id = ''p'', min_block = 5, max_block = 5, level = 0, mutation = 0 \<rparr>,
                desc_checksum_hex = ''ABCD'' \<rparr>]"
         and st=demo_storage_block0 and zk=demo_zk_block0 and env=demo_replace_env and entry=empty_LogEntry,
       THEN conjunct1, THEN mp, OF conjI[OF f1 conjI[OF d(1) pa]], THEN conjunct1, THEN mp, OF f3]
  note tb = replace_range_attach_iff_one_block
      [where c=demo_decls and e=demo_replace_entry and r="\<lparr> partition_id = ''p'', min_block = 0, max_block = 3, level = 999999999, mutation = 999999999 \<rparr>"
         and all_parts="[\<lparr> desc_index = 0, desc_src_part_name = ''p_1_1_0'',
                desc_src_part_info = \<lparr> partition_id = ''p'', min_block = 1, max_block = 1, level = 0, mutation = 0 \<rparr>,
                desc_new_part_name = ''p_5_5_0'',
                desc_new_part_info = \<lparr> partition_id = ''p'', min_block = 5, max_block = 5, level = 0, mutation = 0 \<rparr>,
                desc_checksum_hex = ''ABCD'' \<rparr>]"
         and parts_to_add="[\<lparr> desc_index = 0, desc_src_part_name = ''p_1_1_0'',
                desc_src_part_info = \<lparr> partition_id = ''p'', min_block = 1, max_block = 1, level = 0, mutation = 0 \<rparr>,
                desc_new_part_name = ''p_5_5_0'',
                desc_new_part_info = \<lparr> partition_id = ''p'', min_block = 5, max_block = 5, level = 0, mutation = 0 \<rparr>,
                desc_checksum_hex = ''ABCD'' \<rparr>]"
         and st=demo_storage_block0 and zk=demo_zk_block0 and env=demo_replace_env and entry=empty_LogEntry
         and ?zk1.0=demo_zk_block0
         and ?st1.0="demo_storage\<lparr>data_parts := [demo_fetched_part ''p_0_0_0'', demo_fetched_part ''p_5_5_0'']\<rparr>"
         and ?zk2.0="demo_zk_block0(Sub (Sub (Sub (Sub ZRoot ''replicas'') ''r1'') ''parts'') ''p_5_5_0'' \<mapsto> fresh_node (Str []))"
         and parts_to_remove="[demo_fetched_part ''p_0_0_0'']"
         and ?st2.0="demo_storage\<lparr>data_parts := [demo_fetched_part ''p_5_5_0'']\<rparr>",
       THEN conjunct1, THEN mp, OF conjI[OF f2 conjI[OF d(2) pa]], THEN conjunct2, THEN mp]
  note tc = replace_range_attach_iff_one_block
      [where c=demo_decls and ?st5.0=demo_storage and ?zk5.0=demo_zk and pid="''p''" and replace=True
         and ?replace1.0=True and drop_range="\<lparr> partition_id = ''p'', min_block = 0, max_block = 3, level = 999999999, mutation = 999999999 \<rparr>"
         and lock="\<lparr> lock_path = SubSeq (Sub (Sub ZRoot ''block_numbers'') ''p'') ''block-'' 3,
            holder_path = SubSeq (Sub ZRoot ''temp'') ''abandonable_lock-'' 0,
            lock_number = 3 \<rparr>",
       THEN conjunct2, THEN conjunct2, THEN conjunct2, THEN mp, OF f5, THEN conjunct1]
  have a: "executeReplaceRange_entry demo_decls demo_replace_env empty_LogEntry demo_attach_entry
        demo_storage_block0 demo_zk_block0
      = (Inr True, demo_storage\<lparr>data_parts := [demo_fetched_part ''p_0_0_0'', demo_fetched_part ''p_5_5_0'']\<rparr>,
         demo_zk_block0(Sub (Sub (Sub (Sub ZRoot ''replicas'') ''r1'') ''parts'') ''p_5_5_0'' \<mapsto> fresh_node (Str [])))"
    using ta oc by simp
  have b: "executeReplaceRange_entry demo_decls demo_replace_env empty_LogEntry demo_replace_entry
        demo_storage_block0 demo_zk_block0
      = (Inr True, demo_storage\<lparr>data_parts := [demo_fetched_part ''p_5_5_0'']\<rparr>,
         demo_zk_block0
          (Sub (Sub (Sub (Sub ZRoot ''replicas'') ''r1'') ''parts'') ''p_0_0_0'' := None,
           Sub (Sub (Sub (Sub ZRoot ''replicas'') ''r1'') ''parts'') ''p_5_5_0'' \<mapsto> fresh_node (Str [])))"
  proof -
    have "executeReplaceRange_entry demo_decls demo_replace_env empty_LogEntry demo_replace_entry
            demo_storage_block0 demo_zk_block0 =
          (case tryRemovePartsFromZooKeeperWithRetries (part_numChildren demo_replace_env)
                  (demo_storage\<lparr>data_parts := [demo_fetched_part ''p_5_5_0'']\<rparr>)
                  (demo_zk_block0(Sub (Sub (Sub (Sub ZRoot ''replicas'') ''r1'') ''parts'') ''p_5_5_0'' \<mapsto> fresh_node (Str [])))
                  (map name [demo_fetched_part ''p_0_0_0'']) of
             (Inl x, zk3) \<Rightarrow> (Inl x, demo_storage\<lparr>data_parts := [demo_fetched_part ''p_5_5_0'']\<rparr>, zk3)
           | (Inr success, zk3) \<Rightarrow> (Inr True, demo_storage\<lparr>data_parts := [demo_fetched_part ''p_5_5_0'']\<rparr>, zk3))"
      by (rule tb) (use f4 q oc rm in simp)
    then show ?thesis by (simp only: tr prod.case sum.case)
  qed
  have c: "\<not> isMovePartitionOrAttachFrom \<lparr> partition_id = ''p'', min_block = 0, max_block = 3, level = 999999999, mutation = 999999999 \<rparr>"
    using tc by simp
  have pe: "[] =
            filter (\<lambda>part_desc. getActiveContainingPart (desc_new_part_info part_desc)
                                  (data_parts (demo_storage\<lparr>data_parts := [demo_fetched_part ''p_5_5_0'']\<rparr>)) = None)
              [\<lparr> desc_index = 0, desc_src_part_name = ''p_1_1_0'',
                desc_src_part_info = \<lparr> partition_id = ''p'', min_block = 1, max_block = 1, level = 0, mutation = 0 \<rparr>,
                desc_new_part_name = ''p_5_5_0'',
                desc_new_part_info = \<lparr> partition_id = ''p'', min_block = 5, max_block = 5, level = 0, mutation = 0 \<rparr>,
                desc_checksum_hex = ''ABCD'' \<rparr>]"
    by (simp add: getActiveContainingPart_def contains_def demo_fetched_part_def demo_decls_def)
  note td = replace_range_attach_iff_one_block
      [where c=demo_decls and e=demo_attach_entry and r="\<lparr> partition_id = ''p'', min_block = 0, max_block = 0, level = 0, mutation = 0 \<rparr>"
         and all_parts="[\<lparr> desc_index = 0, desc_src_part_name = ''p_1_1_0'',
                desc_src_part_info = \<lparr> partition_id = ''p'', min_block = 1, max_block = 1, level = 0, mutation = 0 \<rparr>,
                desc_new_part_name = ''p_5_5_0'',
                desc_new_part_info = \<lparr> partition_id = ''p'', min_block = 5, max_block = 5, level = 0, mutation = 0 \<rparr>,
                desc_checksum_hex = ''ABCD'' \<rparr>]"
         and parts_to_add="[]"
         and st="demo_storage\<lparr>data_parts := [demo_fetched_part ''p_5_5_0'']\<rparr>" and zk=demo_zk and env=demo_replace_env and entry=empty_LogEntry,
       THEN conjunct1, THEN mp, OF conjI[OF f1 conjI[OF d(1) pe]], THEN conjunct1, THEN mp, OF f3]
  have e1: "executeReplaceRange_entry demo_decls demo_replace_env empty_LogEntry demo_attach_entry
        (demo_storage\<lparr>data_parts := [demo_fetched_part ''p_5_5_0'']\<rparr>) demo_zk
      = (Inr True, demo_storage\<lparr>data_parts := [demo_fetched_part ''p_5_5_0'']\<rparr>, demo_zk)"
    using td by simp
  have ge: "fst (replacePartitionFrom_drop_range demo_decls demo_storage demo_zk ''e'' True) =
     Inr (False, \<lparr> partition_id = ''e'', min_block = 0, max_block = 0, level = 0, mutation = 0 \<rparr>,
          demo_lock ''e'' 0 0)"
    by (simp add: zk_eval_defs zk_eval_defs2 makeDummyDropRangeForMovePartitionOrAttachPartitionFrom_def)
  note te = replace_range_attach_iff_one_block
      [where c=demo_decls and ?st5.0=demo_storage and ?zk5.0=demo_zk and pid="''e''" and replace=True
         and ?replace1.0=False
         and drop_range="\<lparr> partition_id = ''e'', min_block = 0, max_block = 0, level = 0, mutation = 0 \<rparr>"
         and lock="demo_lock ''e'' 0 0",
       THEN conjunct2, THEN conjunct2, THEN conjunct2, THEN mp, OF ge, THEN conjunct2, THEN conjunct2]
  have e2: "fst (replacePartitionFrom_drop_range demo_decls demo_storage demo_zk ''e'' True) =
     Inr (False, makeDummyDropRangeForMovePartitionOrAttachPartitionFrom ''e'', demo_lock ''e'' 0 0)"
    using ge te by simp
  show ?thesis
    using f1 f2 f3 f4 f7 a b f5 c e1 e2 by blast
qed

text \<open>
  The claim as stated calls the drop range of a MOVE/ATTACH entry an empty block interval.
  The entry below is executed with MOVE/ATTACH semantics, and its drop range, the dummy
  range, covers block 0: it even covers the part \<open>p_0_0_0\<close> that the replica holds, which
  stays in the working set and in the coordination service.
\<close>

theorem move_or_attach_drop_range_covers_block_counterexample:
  "fromPartName demo_decls (drop_range_part_name demo_attach_entry) =
        Inr (makeDummyDropRangeForMovePartitionOrAttachPartitionFrom ''p'')
   \<and> block_interval (makeDummyDropRangeForMovePartitionOrAttachPartitionFrom ''p'') = {0}
   \<and> contains (makeDummyDropRangeForMovePartitionOrAttachPartitionFrom ''p'') (info (demo_fetched_part ''p_0_0_0''))
   \<and> executeReplaceRange_entry demo_decls demo_replace_env empty_LogEntry demo_attach_entry
        demo_storage_block0 demo_zk_block0
      = (Inr True, demo_storage\<lparr>data_parts := [demo_fetched_part ''p_0_0_0'', demo_fetched_part ''p_5_5_0'']\<rparr>,
         demo_zk_block0(Sub (Sub (Sub (Sub ZRoot ''replicas'') ''r1'') ''parts'') ''p_5_5_0'' \<mapsto> fresh_node (Str [])))"
  by (simp add: replace_eval_defs makeDummyDropRangeForMovePartitionOrAttachPartitionFrom_def
        block_interval_def)

end
